theory Spec2Isabelle
  imports Complex_Main
begin

section \<open>Simulation of vault deposits and withdrawals: the orchestration engine\<close>

text \<open>
  The development embeds the class \<^verbatim>\<open>SimulationInterface\<close> of the SDK: the current
  revision (\<^verbatim>\<open>deposit\<close>, \<^verbatim>\<open>withdraw\<close> and their private helpers, with
  \<^verbatim>\<open>getZapInDetails\<close> of \<^verbatim>\<open>zap.ts\<close>), the earlier revision of the same class
  (names ending in \<open>_legacy\<close>) and the routed deposit of the first
  \<^verbatim>\<open>SimulationService\<close> (names ending in \<open>_service\<close>).

  Every \<^verbatim>\<open>await\<close> on a collaborator (vault contract, token contract, route provider,
  price oracle, partner price service, simulation backend) is a request to the outside
  world. The world answers a request as a function of the request and of everything
  that was asked and answered before, and each request with its answer is appended to a
  trace. A rejected promise is the answer \<open>Rejected\<close>. An exception of the source is
  the left summand of the result.
\<close>

subsection \<open>Values\<close>

type_synonym Address = string

datatype ZapProtocol = YEARN | PICKLE

text \<open>
  A JavaScript number, and a \<^verbatim>\<open>BigNumber\<close> of bignumber.js: a finite value or one of
  the three special values. The rounding of a finite value to a 64-bit double is not
  part of the model: a finite number is its exact rational value.
\<close>

datatype jsnum = Fin rat | PInf | NInf | NaN

text \<open>The truthiness test \<^verbatim>\<open>!x\<close> on a number: zero and NaN are falsy.\<close>

fun num_falsy :: "jsnum \<Rightarrow> bool" where
  "num_falsy (Fin x) = (x = 0)"
| "num_falsy NaN = True"
| "num_falsy PInf = False"
| "num_falsy NInf = False"

text \<open>\<^verbatim>\<open>!s\<close> on an optional string: undefined and the empty string are falsy.\<close>

fun str_falsy :: "string option \<Rightarrow> bool" where
  "str_falsy None = True"
| "str_falsy (Some s) = (s = [])"

text \<open>The subtraction \<^verbatim>\<open>1 - x\<close> on numbers.\<close>

fun one_minus :: "jsnum \<Rightarrow> jsnum" where
  "one_minus (Fin x) = Fin (1 - x)"
| "one_minus PInf = NInf"
| "one_minus NInf = PInf"
| "one_minus NaN = NaN"

text \<open>
  bignumber.js in its default configuration (the repository sets no other):
  \<^verbatim>\<open>ROUNDING_MODE = ROUND_HALF_UP\<close> (to the nearest, ties away from zero) and
  \<^verbatim>\<open>DECIMAL_PLACES = 20\<close> for the result of a division.
\<close>

definition round_half_up :: "rat \<Rightarrow> int" where
  "round_half_up x = (if 0 \<le> x then \<lfloor>x + 1 / 2\<rfloor> else - \<lfloor>- x + 1 / 2\<rfloor>)"

definition bn_round :: "nat \<Rightarrow> rat \<Rightarrow> rat" where
  "bn_round dp x = of_int (round_half_up (x * 10 ^ dp)) / 10 ^ dp"

text \<open>\<^verbatim>\<open>a.div(b)\<close> for finite \<open>a\<close> and \<open>b\<close>.\<close>

definition bn_div :: "rat \<Rightarrow> rat \<Rightarrow> jsnum" where
  "bn_div a b =
     (if b = 0 then (if a = 0 then NaN else if 0 < a then PInf else NInf)
      else Fin (bn_round 20 (a / b)))"

text \<open>\<^verbatim>\<open>x.toFixed(0)\<close> for a finite \<open>x\<close>: the decimal string of the rounded integer.\<close>

definition toFixed0 :: "rat \<Rightarrow> int" where
  "toFixed0 x = round_half_up x"

text \<open>
  \<^verbatim>\<open>toBN(received).div(toBN(10).pow(decimals)).multipliedBy(pricePerShare).toFixed(0)\<close>
\<close>

definition underlyingAmount :: "int \<Rightarrow> nat \<Rightarrow> int \<Rightarrow> int" where
  "underlyingAmount received decimals pricePerShare =
     toFixed0 (bn_round 20 (of_int received / 10 ^ decimals) * of_int pricePerShare)"

subsection \<open>Data model\<close>

text \<open>\<^verbatim>\<open>SimulationOptions\<close>; every field is optional.\<close>

record SimulationOptions =
  opt_slippage :: "jsnum option"
  opt_root :: "string option"
  opt_forkId :: "string option"
  opt_gasPrice :: "string option"
  opt_gasLimit :: "string option"
  opt_save :: "bool option"

text \<open>
  \<^verbatim>\<open>TransactionOutcome\<close>. Amounts (\<^verbatim>\<open>Integer\<close> and \<^verbatim>\<open>Usdc\<close>, decimal strings in
  the source) are their integer values.
\<close>

record TransactionOutcome =
  sourceTokenAddress :: Address
  sourceTokenAmount :: int
  targetTokenAddress :: Address
  targetTokenAmount :: int
  targetTokenAmountUsdc :: int
  targetUnderlyingTokenAddress :: Address
  targetUnderlyingTokenAmount :: int
  conversionRate :: jsnum
  slippage :: jsnum

text \<open>
  \<^verbatim>\<open>DepositArgs\<close>. Its fifth field \<^verbatim>\<open>options\<close> is a reference to the caller's options
  object, which lives in the state below.
\<close>

record DepositArgs =
  from_addr :: Address
  sellToken :: Address
  amount :: int
  toVault :: Address

record UnderlyingToken =
  u_address :: Address
  u_decimals :: nat
  u_pricePerShare :: int

text \<open>What the engine reads of a token and of a dynamic vault.\<close>

record Token =
  t_address :: Address
  t_supported :: "(string \<times> bool) list option"

record VaultMetadata =
  md_zapInWith :: "string option"

record Vault =
  v_metadata :: "VaultMetadata option"

text \<open>The answer of the route provider to an approval-transaction and to a quote request.\<close>

record ApprovalTransaction =
  tx_from :: Address
  tx_to :: Address
  tx_data :: string

record Quote =
  q_to :: Address
  q_data :: string
  q_value :: int
  q_gas :: string
  q_gasPrice :: string
  q_buyTokenAddress :: Address

text \<open>\<^verbatim>\<open>SimulationResponse\<close>: the simulation id and the output of the call trace.\<close>

record SimulationResponse =
  simulation_id :: string
  call_trace_output :: int

subsection \<open>Requests, answers and the trace\<close>

datatype request =
    GetDynamic Address
  | FindByAddress Address
  | VaultToken Address
  | VaultDecimals Address
  | VaultPricePerShare Address
  | AllowanceOf Address Address Address
  | ZapInApprovalState Address Address ZapProtocol
  | ZapInApprovalTransaction Address Address string ZapProtocol
  | ZapOutApprovalState Address Address
  | ZapOutApprovalTransaction Address Address string
  | ZapInQuote Address Address int Address string jsnum bool ZapProtocol
  | ZapInQuote_service Address Address int Address string jsnum
  | ZapOutQuote Address Address int Address string jsnum bool
  | CreateFork
  | MakeSimulationRequest Address Address string SimulationOptions "int option"
  | SimulateVaultInteraction Address Address string Address SimulationOptions "int option"
  | SimulateRaw_service Address Address string int
  | GetNormalizedValueUsdc Address int
  | PickleGetPriceUsdc Address

datatype response =
    Rejected
  | RAddress Address
  | RInt int
  | RNat nat
  | RVault "Vault option"
  | RToken "Token option"
  | RIsApproved bool
  | RApprovalTransaction ApprovalTransaction
  | RQuote Quote
  | RForkId string
  | RSimulation SimulationResponse

type_synonym trace = "(request \<times> response) list"

text \<open>
  The state of one call of the engine: the trace of the requests made so far and the
  caller's options object, which \<^verbatim>\<open>withdraw\<close> and the earlier \<^verbatim>\<open>deposit\<close> write to.
\<close>

record state =
  requests :: trace
  options :: SimulationOptions

subsection \<open>Errors\<close>

text \<open>
  The error classes of the SDK with their message; \<open>SdkError_NO_SLIPPAGE\<close> is an
  \<^verbatim>\<open>SdkError\<close> with the code \<^verbatim>\<open>SdkError.NO_SLIPPAGE\<close>. \<open>Uncaught r\<close> is the rejection of
  the request \<open>r\<close> where the source has no handler for it, and \<open>Thrown\<close> an exception of
  a local library call.
\<close>

datatype error =
    SdkError string
  | SdkError_NO_SLIPPAGE string
  | ZapperError string
  | EthersError string
  | PriceFetchingError string
  | Uncaught request
  | Thrown string

subsection \<open>Sequencing\<close>

type_synonym 'a sim = "state \<Rightarrow> (error + 'a) \<times> state"

definition ret :: "'a \<Rightarrow> 'a sim" where
  "ret x s = (Inr x, s)"

definition throw :: "error \<Rightarrow> 'a sim" where
  "throw e s = (Inl e, s)"

text \<open>\<open>andThen m f\<close>: await \<open>m\<close>, then continue with \<open>f\<close>; an error of \<open>m\<close> ends the run.\<close>

definition andThen :: "'a sim \<Rightarrow> ('a \<Rightarrow> 'b sim) \<Rightarrow> 'b sim" where
  "andThen m f s = (case m s of (Inl e, s') \<Rightarrow> (Inl e, s') | (Inr x, s') \<Rightarrow> f x s')"

text \<open>\<^verbatim>\<open>m.catch(() => { throw e })\<close>\<close>

definition catchThrow :: "'a sim \<Rightarrow> error \<Rightarrow> 'a sim" where
  "catchThrow m e s = (case m s of (Inl _, s') \<Rightarrow> (Inl e, s') | (Inr x, s') \<Rightarrow> (Inr x, s'))"

text \<open>
  \<^verbatim>\<open>Promise.all\<close> of two and of three calls: all requests are issued, in the order of
  the array, before any answer is awaited; the result is the error of a call that failed,
  if one did. When several fail, \<^verbatim>\<open>Promise.all\<close> gives the error that arrives first, an
  order that the trace does not record: the choice here is the first of the array.
\<close>

definition all2 :: "'a sim \<Rightarrow> 'b sim \<Rightarrow> ('a \<times> 'b) sim" where
  "all2 m1 m2 s =
     (case m1 s of (r1, s1) \<Rightarrow>
        (case m2 s1 of (r2, s2) \<Rightarrow>
           (case r1 of Inl e \<Rightarrow> (Inl e, s2)
            | Inr x \<Rightarrow> (case r2 of Inl e \<Rightarrow> (Inl e, s2) | Inr y \<Rightarrow> (Inr (x, y), s2)))))"

definition all3 :: "'a sim \<Rightarrow> 'b sim \<Rightarrow> 'c sim \<Rightarrow> ('a \<times> 'b \<times> 'c) sim" where
  "all3 m1 m2 m3 = all2 m1 (all2 m2 m3)"

text \<open>Reading and writing the caller's options object.\<close>

definition getOptions :: "SimulationOptions sim" where
  "getOptions s = (Inr (options s), s)"

definition setOptions :: "(SimulationOptions \<Rightarrow> SimulationOptions) \<Rightarrow> unit sim" where
  "setOptions f s = (Inr (), s\<lparr>options := f (options s)\<rparr>)"

subsection \<open>The collaborators\<close>

text \<open>
  The partner service (\<^verbatim>\<open>this.yearn.services.partner\<close>, which may be undefined) and the
  environment of one engine: whether its chain is Ethereum or Fantom (\<^verbatim>\<open>isEthereum\<close> and
  \<^verbatim>\<open>isFantom\<close> of \<^verbatim>\<open>this.chainId\<close>), the address constants of \<^verbatim>\<open>helpers\<close>, the
  checksum normalisation \<^verbatim>\<open>getAddress\<close> (\<open>None\<close> where it throws), the local lookups,
  the ABI encoders of the vault contract, of the partner service (\<open>None\<close> where it
  returns undefined) and of the token contract (\<open>None\<close> where \<^verbatim>\<open>encodeFunctionData\<close>
  throws), and the world that answers requests.
\<close>

record Partner =
  p_isAllowed :: "Address \<Rightarrow> bool"
  p_address :: "Address option"
  p_encodeDeposit :: "Address \<Rightarrow> int \<Rightarrow> string option"

text \<open>
  An argument handed to the ABI encoder: an address, or the pending promise of one
  (\<^verbatim>\<open>approve\<close> of the current revision passes the result of an \<^verbatim>\<open>async\<close> method without
  awaiting it).
\<close>

datatype spender = Resolved Address | Pending Address

record env =
  isEthereum :: bool
  isFantom :: bool
  EthAddress :: Address
  ZeroAddress :: Address
  WethAddress :: Address
  getAddress :: "Address \<Rightarrow> Address option"
  getZapProtocol :: "Address \<Rightarrow> ZapProtocol"
  isUnderlyingToken :: "Address \<Rightarrow> Address \<Rightarrow> bool"
  partner :: "Partner option"
  encodeDeposit :: "Address \<Rightarrow> int \<Rightarrow> string"
  encodeWithdraw :: "Address \<Rightarrow> int \<Rightarrow> string"
  encodeApprove :: "Address \<Rightarrow> spender \<Rightarrow> int \<Rightarrow> string option"
  world :: "trace \<Rightarrow> request \<Rightarrow> response"

text \<open>Issuing a request: the world answers, and the pair is appended to the trace.\<close>

definition ask :: "env \<Rightarrow> request \<Rightarrow> response sim" where
  "ask E r s = (Inr (world E (requests s) r), s\<lparr>requests := requests s @ [(r, world E (requests s) r)]\<rparr>)"

text \<open>
  The typed calls. An answer of another shape than the call expects counts as a
  rejection: each call reads the answer through the projection of its type.
\<close>

fun addressOf :: "response \<Rightarrow> Address option" where
  "addressOf (RAddress x) = Some x"
| "addressOf a = None"

fun intOf :: "response \<Rightarrow> int option" where
  "intOf (RInt x) = Some x"
| "intOf a = None"

fun natOf :: "response \<Rightarrow> nat option" where
  "natOf (RNat x) = Some x"
| "natOf a = None"

fun vaultOf :: "response \<Rightarrow> Vault option option" where
  "vaultOf (RVault x) = Some x"
| "vaultOf a = None"

fun tokenOf :: "response \<Rightarrow> Token option option" where
  "tokenOf (RToken x) = Some x"
| "tokenOf a = None"

fun isApprovedOf :: "response \<Rightarrow> bool option" where
  "isApprovedOf (RIsApproved x) = Some x"
| "isApprovedOf a = None"

fun approvalTransactionOf :: "response \<Rightarrow> ApprovalTransaction option" where
  "approvalTransactionOf (RApprovalTransaction x) = Some x"
| "approvalTransactionOf a = None"

fun quoteOf :: "response \<Rightarrow> Quote option" where
  "quoteOf (RQuote x) = Some x"
| "quoteOf a = None"

fun forkIdOf :: "response \<Rightarrow> string option" where
  "forkIdOf (RForkId x) = Some x"
| "forkIdOf a = None"

fun simulationOf :: "response \<Rightarrow> SimulationResponse option" where
  "simulationOf (RSimulation x) = Some x"
| "simulationOf a = None"

definition askAddress :: "env \<Rightarrow> request \<Rightarrow> Address sim" where
  "askAddress E r =
     andThen (ask E r) (\<lambda>a. case addressOf a of Some x \<Rightarrow> ret x | None \<Rightarrow> throw (Uncaught r))"

definition askInt :: "env \<Rightarrow> request \<Rightarrow> int sim" where
  "askInt E r =
     andThen (ask E r) (\<lambda>a. case intOf a of Some x \<Rightarrow> ret x | None \<Rightarrow> throw (Uncaught r))"

definition askNat :: "env \<Rightarrow> request \<Rightarrow> nat sim" where
  "askNat E r =
     andThen (ask E r) (\<lambda>a. case natOf a of Some x \<Rightarrow> ret x | None \<Rightarrow> throw (Uncaught r))"

definition askVault :: "env \<Rightarrow> request \<Rightarrow> (Vault option) sim" where
  "askVault E r =
     andThen (ask E r) (\<lambda>a. case vaultOf a of Some x \<Rightarrow> ret x | None \<Rightarrow> throw (Uncaught r))"

definition askToken :: "env \<Rightarrow> request \<Rightarrow> (Token option) sim" where
  "askToken E r =
     andThen (ask E r) (\<lambda>a. case tokenOf a of Some x \<Rightarrow> ret x | None \<Rightarrow> throw (Uncaught r))"

definition askIsApproved :: "env \<Rightarrow> request \<Rightarrow> bool sim" where
  "askIsApproved E r =
     andThen (ask E r) (\<lambda>a. case isApprovedOf a of Some x \<Rightarrow> ret x | None \<Rightarrow> throw (Uncaught r))"

definition askApprovalTransaction :: "env \<Rightarrow> request \<Rightarrow> ApprovalTransaction sim" where
  "askApprovalTransaction E r =
     andThen (ask E r) (\<lambda>a. case approvalTransactionOf a of Some x \<Rightarrow> ret x | None \<Rightarrow> throw (Uncaught r))"

definition askQuote :: "env \<Rightarrow> request \<Rightarrow> Quote sim" where
  "askQuote E r =
     andThen (ask E r) (\<lambda>a. case quoteOf a of Some x \<Rightarrow> ret x | None \<Rightarrow> throw (Uncaught r))"

definition askForkId :: "env \<Rightarrow> request \<Rightarrow> string sim" where
  "askForkId E r =
     andThen (ask E r) (\<lambda>a. case forkIdOf a of Some x \<Rightarrow> ret x | None \<Rightarrow> throw (Uncaught r))"

definition askSimulation :: "env \<Rightarrow> request \<Rightarrow> SimulationResponse sim" where
  "askSimulation E r =
     andThen (ask E r) (\<lambda>a. case simulationOf a of Some x \<Rightarrow> ret x | None \<Rightarrow> throw (Uncaught r))"

subsection \<open>The simulation executor\<close>

text \<open>
  Modelled from the spec: the class \<^verbatim>\<open>SimulationExecutor\<close> (\<^verbatim>\<open>simulationExecutor.ts\<close>),
  which the engine imports, is not among the sources. Its three transport methods are
  requests to the simulation backend (the Sandbox Client of the specification):
  \<^verbatim>\<open>createFork\<close> answers a new sandbox id, \<^verbatim>\<open>makeSimulationRequest\<close> the raw response of
  one simulated call, \<^verbatim>\<open>simulateVaultInteraction\<close> the amount of the given token that
  the simulated call transferred.
\<close>

definition createFork :: "env \<Rightarrow> string sim" where
  "createFork E = askForkId E CreateFork"

definition makeSimulationRequest ::
  "env \<Rightarrow> Address \<Rightarrow> Address \<Rightarrow> string \<Rightarrow> SimulationOptions \<Rightarrow> int option \<Rightarrow> SimulationResponse sim" where
  "makeSimulationRequest E sender target input opts val =
     askSimulation E (MakeSimulationRequest sender target input opts val)"

definition simulateVaultInteraction ::
  "env \<Rightarrow> Address \<Rightarrow> Address \<Rightarrow> string \<Rightarrow> Address \<Rightarrow> SimulationOptions \<Rightarrow> int option \<Rightarrow> int sim" where
  "simulateVaultInteraction E sender target input token opts val =
     askInt E (SimulateVaultInteraction sender target input token opts val)"

text \<open>
  Modelled from the spec: \<^verbatim>\<open>executeSimulationWithReSimulationOnFailure\<close>, the Resilience
  Wrapper, a method of the class that is not among the sources. ``First attempt: invoke
  \<^verbatim>\<open>produce(save=false)\<close> [...] reusing \<^verbatim>\<open>existingForkId\<close> if supplied, otherwise letting the
  backend use an ephemeral implicit sandbox. If the first attempt fails for any reason,
  allocate exactly one brand-new sandbox and invoke \<^verbatim>\<open>produce(save=false)\<close> again against
  it. If the second attempt also fails, propagate the underlying error --- there is no
  third attempt.'' An attempt is a run of the producer with the \<^verbatim>\<open>save\<close> flag and the
  sandbox it is made against: \<^verbatim>\<open>existingForkId\<close> for the first, the new sandbox for the
  second. When the sandbox cannot be allocated, that failure is the result (``all failures
  are surfaced to the caller as typed errors immediately; none are silently swallowed
  except the Resilience Wrapper's first-attempt failure'').

  The closures that the engine passes are functions of the \<^verbatim>\<open>save\<close> flag alone
  (\<^verbatim>\<open>(save: boolean) => ...\<close>), so at each call site the sandbox of the attempt is an
  argument that the closure does not read.
\<close>

definition executeSimulationWithReSimulationOnFailure ::
  "env \<Rightarrow> (bool \<Rightarrow> string option \<Rightarrow> 'a sim) \<Rightarrow> string option \<Rightarrow> 'a sim" where
  "executeSimulationWithReSimulationOnFailure E simulate existingForkId s =
     (case simulate False existingForkId s of
        (Inr outcome, s1) \<Rightarrow> (Inr outcome, s1)
      | (Inl e, s1) \<Rightarrow>
          (case createFork E s1 of
             (Inl e', s2) \<Rightarrow> (Inl e', s2)
           | (Inr newFork, s2) \<Rightarrow> simulate False (Some newFork) s2))"

subsection \<open>The current revision of \<^verbatim>\<open>SimulationInterface\<close>\<close>

text \<open>\<^verbatim>\<open>getZapInDetails\<close> of \<^verbatim>\<open>zap.ts\<close>.\<close>

record ZapInDetails =
  isZapInSupported :: bool
  zapInWith :: "string option"

definition isValidZap :: "string \<Rightarrow> (string \<times> bool) list \<Rightarrow> bool" where
  "isValidZap zap zaps = (map_of zaps zap \<noteq> None)"

definition getZapInDetails :: "bool \<Rightarrow> bool \<Rightarrow> Token option \<Rightarrow> VaultMetadata option \<Rightarrow> ZapInDetails" where
  "getZapInDetails isEth isFtm token vaultMetadata =
     (case (case token of None \<Rightarrow> None | Some t \<Rightarrow> t_supported t) of
        None \<Rightarrow> \<lparr>isZapInSupported = False, zapInWith = None\<rparr>
      | Some supported \<Rightarrow>
          (case vaultMetadata of
             None \<Rightarrow> \<lparr>isZapInSupported = False, zapInWith = None\<rparr>
           | Some md \<Rightarrow>
               (if isEth \<and> \<not> str_falsy (md_zapInWith md)
                      \<and> isValidZap (the (md_zapInWith md)) supported
                then \<lparr>isZapInSupported = (map_of supported (the (md_zapInWith md)) = Some True),
                      zapInWith = md_zapInWith md\<rparr>
                else if isFtm
                then \<lparr>isZapInSupported = (map_of supported ''ftmApeZap'' = Some True),
                      zapInWith = Some ''ftmApeZap''\<rparr>
                else \<lparr>isZapInSupported = False, zapInWith = None\<rparr>)))"

definition shouldUsePartnerService :: "env \<Rightarrow> Address \<Rightarrow> bool" where
  "shouldUsePartnerService E vault =
     (case partner E of None \<Rightarrow> False | Some p \<Rightarrow> p_isAllowed p vault)"

text \<open>\<^verbatim>\<open>getActionableAddress\<close> is \<^verbatim>\<open>async\<close> in the source but makes no request.\<close>

definition getActionableAddress :: "env \<Rightarrow> Address \<Rightarrow> Address" where
  "getActionableAddress E vault =
     (if \<not> shouldUsePartnerService E vault then vault
      else (case partner E of
              None \<Rightarrow> vault
            | Some p \<Rightarrow> (case p_address p of
                           None \<Rightarrow> vault
                         | Some a \<Rightarrow> if a = [] then vault else a)))"

definition getEncodedInputData :: "env \<Rightarrow> Address \<Rightarrow> int \<Rightarrow> Address \<Rightarrow> string option" where
  "getEncodedInputData E vaultContract amt vault =
     (if \<not> shouldUsePartnerService E vault then Some (encodeDeposit E vaultContract amt)
      else (case partner E of None \<Rightarrow> None | Some p \<Rightarrow> p_encodeDeposit p vault amt))"

definition getUnderlyingToken :: "env \<Rightarrow> Address \<Rightarrow> UnderlyingToken sim" where
  "getUnderlyingToken E vaultContract =
     andThen
       (all3 (catchThrow (askAddress E (VaultToken vaultContract)) (EthersError ''failed to fetch token''))
             (catchThrow (askNat E (VaultDecimals vaultContract)) (EthersError ''no decimals''))
             (catchThrow (askInt E (VaultPricePerShare vaultContract)) (EthersError ''no price per share'')))
       (\<lambda>(a, d, pps). ret \<lparr>u_address = a, u_decimals = d, u_pricePerShare = pps\<rparr>)"

text \<open>
  \<^verbatim>\<open>directDeposit\<close>. Its options are the fresh object that the closure of
  \<^verbatim>\<open>handleDirectSimulationDeposit\<close> builds, hence a value; the vault contract is given by
  its address.
\<close>

definition directDeposit :: "env \<Rightarrow> DepositArgs \<Rightarrow> SimulationOptions \<Rightarrow> Address \<Rightarrow> TransactionOutcome sim" where
  "directDeposit E depositArgs opts vaultContract =
     (case getEncodedInputData E vaultContract (amount depositArgs) (toVault depositArgs) of
        None \<Rightarrow> throw (SdkError ''directDeposit#encodeDeposit failed'')
      | Some encodedInputData \<Rightarrow>
          if encodedInputData = [] then throw (SdkError ''directDeposit#encodeDeposit failed'')
          else
            andThen (simulateVaultInteraction E (from_addr depositArgs)
                       (getActionableAddress E (toVault depositArgs)) encodedInputData
                       (toVault depositArgs) opts None)
              (\<lambda>tokensReceived.
            andThen (catchThrow (askInt E (GetNormalizedValueUsdc (toVault depositArgs) tokensReceived))
                       (PriceFetchingError ''Error fetching price''))
              (\<lambda>targetTokenAmountUsdc'.
            andThen (all2 (catchThrow (askNat E (VaultDecimals vaultContract)) (EthersError ''no decimals''))
                          (catchThrow (askInt E (VaultPricePerShare vaultContract))
                             (EthersError ''no price per share'')))
              (\<lambda>(decimals, pricePerShare).
            ret \<lparr>sourceTokenAddress = sellToken depositArgs,
                 sourceTokenAmount = amount depositArgs,
                 targetTokenAddress = toVault depositArgs,
                 targetTokenAmount = tokensReceived,
                 targetTokenAmountUsdc = targetTokenAmountUsdc',
                 targetUnderlyingTokenAddress = toVault depositArgs,
                 targetUnderlyingTokenAmount = underlyingAmount tokensReceived decimals pricePerShare,
                 conversionRate = Fin 1,
                 slippage = Fin 0\<rparr>))))"

definition depositNeedsApproving :: "env \<Rightarrow> DepositArgs \<Rightarrow> bool sim" where
  "depositNeedsApproving E depositArgs =
     catchThrow
       (andThen (askInt E (AllowanceOf (sellToken depositArgs) (from_addr depositArgs)
                             (getActionableAddress E (toVault depositArgs))))
          (\<lambda>allowance. ret (allowance < amount depositArgs)))
       (SdkError ''Failed to get allowance from the contract'')"

text \<open>
  \<^verbatim>\<open>directWithdraw\<close> and \<^verbatim>\<open>zapOut\<close> receive the caller's options object itself: they
  read it from the state, and \<^verbatim>\<open>zapOut\<close> writes the gas limit to it.
\<close>

definition directWithdraw :: "env \<Rightarrow> Address \<Rightarrow> Address \<Rightarrow> int \<Rightarrow> Address \<Rightarrow> Address \<Rightarrow> TransactionOutcome sim" where
  "directWithdraw E sender toToken amt fromVault vaultContract =
     andThen getOptions
       (\<lambda>opts.
     andThen (simulateVaultInteraction E sender fromVault (encodeWithdraw E vaultContract amt) toToken opts None)
       (\<lambda>tokensReceived.
     andThen (catchThrow (askInt E (GetNormalizedValueUsdc toToken tokensReceived))
                (PriceFetchingError ''error fetching price''))
       (\<lambda>targetTokenAmountUsdc'.
     ret \<lparr>sourceTokenAddress = fromVault,
          sourceTokenAmount = amt,
          targetTokenAddress = toToken,
          targetTokenAmount = tokensReceived,
          targetTokenAmountUsdc = targetTokenAmountUsdc',
          targetUnderlyingTokenAddress = toToken,
          targetUnderlyingTokenAmount = tokensReceived,
          conversionRate = Fin 1,
          slippage = Fin 0\<rparr>)))"

text \<open>
  \<^verbatim>\<open>zapIn\<close>. Its options are the fresh object that the closure of
  \<^verbatim>\<open>getZapperZapInSimulationArgs\<close> builds; the two assignments to it are local.
\<close>

definition zapIn :: "env \<Rightarrow> DepositArgs \<Rightarrow> SimulationOptions \<Rightarrow> UnderlyingToken \<Rightarrow> bool \<Rightarrow> TransactionOutcome sim" where
  "zapIn E depositArgs opts underlyingToken skipGasEstimate =
     (let zapToken = (if sellToken depositArgs = EthAddress E then ZeroAddress E else sellToken depositArgs) in
      case opt_slippage opts of
        None \<Rightarrow> throw (SdkError_NO_SLIPPAGE ''slippage needs to be set'')
      | Some tolerance \<Rightarrow>
          if num_falsy tolerance then throw (SdkError_NO_SLIPPAGE ''slippage needs to be set'')
          else
            let zapProtocol = getZapProtocol E (toVault depositArgs) in
            andThen (catchThrow
                       (askQuote E (ZapInQuote (from_addr depositArgs) zapToken (amount depositArgs)
                                      (toVault depositArgs)
                                      (if str_falsy (opt_gasPrice opts) then ''0'' else the (opt_gasPrice opts))
                                      tolerance skipGasEstimate zapProtocol))
                       (ZapperError ''zap in''))
              (\<lambda>zapInParams.
            let opts1 = opts\<lparr>opt_gasPrice :=
                              (if str_falsy (opt_gasPrice opts) then Some (q_gasPrice zapInParams)
                               else opt_gasPrice opts)\<rparr>;
                opts2 = (if \<not> skipGasEstimate then opts1\<lparr>opt_gasLimit := Some (q_gas zapInParams)\<rparr>
                         else opts1) in
            andThen (simulateVaultInteraction E (from_addr depositArgs) (q_to zapInParams)
                       (q_data zapInParams) (toVault depositArgs) opts2 (Some (q_value zapInParams)))
              (\<lambda>tokensReceived.
            andThen (case zapProtocol of
                       YEARN \<Rightarrow>
                         andThen (catchThrow
                                    (askInt E (GetNormalizedValueUsdc (toVault depositArgs) tokensReceived))
                                    (PriceFetchingError ''error fetching price''))
                           (\<lambda>price. ret (of_int price))
                     | PICKLE \<Rightarrow>
                         andThen (catchThrow (askInt E (PickleGetPriceUsdc (toVault depositArgs)))
                                    (PriceFetchingError ''error fetching price''))
                           (\<lambda>usdc. ret (bn_round 20 (of_int usdc / 10 ^ u_decimals underlyingToken)
                                           * of_int tokensReceived)))
              (\<lambda>amountReceivedUsdc.
            let oracleToken = (if sellToken depositArgs = EthAddress E then WethAddress E
                               else sellToken depositArgs) in
            andThen (catchThrow (askInt E (GetNormalizedValueUsdc oracleToken (amount depositArgs)))
                       (PriceFetchingError ''error fetching price''))
              (\<lambda>zapInAmountUsdc.
            let rate = bn_div amountReceivedUsdc (of_int zapInAmountUsdc) in
            ret \<lparr>sourceTokenAddress = sellToken depositArgs,
                 sourceTokenAmount = amount depositArgs,
                 targetTokenAddress = q_buyTokenAddress zapInParams,
                 targetTokenAmount = tokensReceived,
                 targetTokenAmountUsdc = toFixed0 amountReceivedUsdc,
                 targetUnderlyingTokenAddress = u_address underlyingToken,
                 targetUnderlyingTokenAmount =
                   underlyingAmount tokensReceived (u_decimals underlyingToken)
                     (u_pricePerShare underlyingToken),
                 conversionRate = rate,
                 slippage = one_minus rate\<rparr>)))))"

definition zapOut :: "env \<Rightarrow> Address \<Rightarrow> Address \<Rightarrow> Address \<Rightarrow> int \<Rightarrow> Address \<Rightarrow> bool \<Rightarrow> TransactionOutcome sim" where
  "zapOut E sender toToken underlyingTokenAddress amt fromVault skipGasEstimate =
     andThen getOptions
       (\<lambda>opts.
     case opt_slippage opts of
       None \<Rightarrow> throw (SdkError_NO_SLIPPAGE ''slippage needs to be set'')
     | Some tolerance \<Rightarrow>
         if num_falsy tolerance then throw (SdkError_NO_SLIPPAGE ''slippage needs to be set'')
         else
           let zapToken = (if toToken = EthAddress E then ZeroAddress E else toToken) in
           andThen (catchThrow
                      (askQuote E (ZapOutQuote sender zapToken amt fromVault ''0'' tolerance skipGasEstimate))
                      (ZapperError ''error zapping out''))
             (\<lambda>zapOutParams.
           andThen (if \<not> skipGasEstimate
                    then setOptions (\<lambda>obj. obj\<lparr>opt_gasLimit := Some (q_gas zapOutParams)\<rparr>)
                    else ret ())
             (\<lambda>_.
           andThen getOptions
             (\<lambda>opts'.
           andThen (if zapToken = ZeroAddress E
                    then andThen (makeSimulationRequest E sender (q_to zapOutParams) (q_data zapOutParams)
                                    opts' (Some (q_value zapOutParams)))
                           (\<lambda>response. ret (call_trace_output response))
                    else simulateVaultInteraction E sender (q_to zapOutParams) (q_data zapOutParams)
                           toToken opts' (Some (q_value zapOutParams)))
             (\<lambda>tokensReceived.
           let oracleToken = (if toToken = EthAddress E then WethAddress E else toToken) in
           andThen (catchThrow (askInt E (GetNormalizedValueUsdc oracleToken tokensReceived))
                      (PriceFetchingError ''error fetching price''))
             (\<lambda>zapOutAmountUsdc.
           andThen (catchThrow (askInt E (GetNormalizedValueUsdc fromVault amt))
                      (PriceFetchingError ''error fetching price''))
             (\<lambda>soldAssetAmountUsdc.
           let rate = bn_div (of_int zapOutAmountUsdc) (of_int soldAssetAmountUsdc) in
           ret \<lparr>sourceTokenAddress = fromVault,
                sourceTokenAmount = amt,
                targetTokenAddress = toToken,
                targetTokenAmount = tokensReceived,
                targetTokenAmountUsdc = zapOutAmountUsdc,
                targetUnderlyingTokenAddress = underlyingTokenAddress,
                targetUnderlyingTokenAmount = tokensReceived,
                conversionRate = rate,
                slippage = one_minus rate\<rparr>)))))))"

text \<open>
  The approval data of a routed deposit: \<open>(needsApproving, approvalTransactionId, forkId)\<close>.
  The options of the approval simulation are a copy of the caller's object with
  \<^verbatim>\<open>save: true\<close>.
\<close>

definition getZapperZapInApprovalData :: "env \<Rightarrow> DepositArgs \<Rightarrow> (bool \<times> string option \<times> string option) sim" where
  "getZapperZapInApprovalData E depositArgs =
     (if \<not> isEthereum E then throw (SdkError ''Zapper unsupported for chainId'')
      else if sellToken depositArgs = EthAddress E then ret (False, None, None)
      else
        let zapProtocol = getZapProtocol E (toVault depositArgs) in
        andThen (catchThrow
                   (andThen (askIsApproved E (ZapInApprovalState (from_addr depositArgs)
                                                (sellToken depositArgs) zapProtocol))
                      (\<lambda>isApproved. ret (\<not> isApproved)))
                   (ZapperError ''approval state''))
          (\<lambda>isApprovalNeeded.
        if \<not> isApprovalNeeded then ret (False, None, None)
        else
          andThen (createFork E)
            (\<lambda>forkId.
          andThen (catchThrow
                     (askApprovalTransaction E (ZapInApprovalTransaction (from_addr depositArgs)
                                                  (sellToken depositArgs) ''0'' zapProtocol))
                     (ZapperError ''approval''))
            (\<lambda>tx.
          andThen getOptions
            (\<lambda>opts.
          andThen (makeSimulationRequest E (tx_from tx) (tx_to tx) (tx_data tx)
                     (opts\<lparr>opt_save := Some True\<rparr>) None)
            (\<lambda>res.
          ret (True, Some (simulation_id res), Some forkId)))))))"

definition getZapperZapInSimulationArgs ::
  "env \<Rightarrow> DepositArgs \<Rightarrow> UnderlyingToken \<Rightarrow> ((bool \<Rightarrow> TransactionOutcome sim) \<times> string option) sim" where
  "getZapperZapInSimulationArgs E depositArgs underlyingToken =
     (if \<not> isEthereum E then throw (SdkError ''Zapper unsupported for chainId'')
      else
        andThen getOptions
          (\<lambda>opts.
        if (case opt_slippage opts of None \<Rightarrow> True | Some tolerance \<Rightarrow> num_falsy tolerance)
        then throw (SdkError_NO_SLIPPAGE ''slippage needs to be specified for a zap'')
        else
          andThen (getZapperZapInApprovalData E depositArgs)
            (\<lambda>(needsApproving, approvalTransactionId, forkId).
          ret (\<lambda>save.
                 andThen getOptions
                   (\<lambda>opts'.
                 zapIn E depositArgs
                   (opts'\<lparr>opt_forkId := forkId, opt_save := Some save, opt_root := approvalTransactionId\<rparr>)
                   underlyingToken needsApproving),
               forkId))))"

text \<open>
  \<^verbatim>\<open>approve\<close>: the spender is the result of \<^verbatim>\<open>getActionableAddress\<close>, not awaited; the
  options of the simulation are a copy of the caller's object with \<^verbatim>\<open>save: true\<close>.
\<close>

definition approve :: "env \<Rightarrow> DepositArgs \<Rightarrow> string sim" where
  "approve E depositArgs =
     (case encodeApprove E (sellToken depositArgs)
             (Pending (getActionableAddress E (toVault depositArgs))) (amount depositArgs) of
        None \<Rightarrow> throw (Thrown ''encodeFunctionData'')
      | Some encodedInputData \<Rightarrow>
          andThen getOptions
            (\<lambda>opts.
          andThen (makeSimulationRequest E (from_addr depositArgs) (sellToken depositArgs)
                     encodedInputData (opts\<lparr>opt_save := Some True\<rparr>) None)
            (\<lambda>simulationResponse. ret (simulation_id simulationResponse))))"

text \<open>\<^verbatim>\<open>getApprovalData\<close>: \<open>(approvalTransactionId, forkId)\<close>.\<close>

definition getApprovalData :: "env \<Rightarrow> DepositArgs \<Rightarrow> (string option \<times> string option) sim" where
  "getApprovalData E depositArgs =
     andThen (depositNeedsApproving E depositArgs)
       (\<lambda>needsApproving.
     if \<not> needsApproving then ret (None, None)
     else
       andThen (approve E depositArgs)
         (\<lambda>approvalTransactionId.
       andThen (createFork E)
         (\<lambda>forkId. ret (Some approvalTransactionId, Some forkId))))"

definition handleDirectSimulationDeposit :: "env \<Rightarrow> DepositArgs \<Rightarrow> Address \<Rightarrow> TransactionOutcome sim" where
  "handleDirectSimulationDeposit E depositArgs vaultContract =
     andThen (getApprovalData E depositArgs)
       (\<lambda>(root, forkId).
     executeSimulationWithReSimulationOnFailure E
       (\<lambda>save sandbox.
          andThen getOptions
            (\<lambda>opts.
          directDeposit E depositArgs
            (opts\<lparr>opt_forkId := forkId, opt_save := Some save, opt_root := root\<rparr>) vaultContract))
       forkId)"

definition handleZapInSimulationDeposit :: "env \<Rightarrow> string \<Rightarrow> Address \<Rightarrow> DepositArgs \<Rightarrow> TransactionOutcome sim" where
  "handleZapInSimulationDeposit E zapInWith' vaultContract depositArgs =
     (if zapInWith' = ''zapperZapIn''
      then
        andThen (getUnderlyingToken E vaultContract)
          (\<lambda>underlyingToken.
        andThen (getZapperZapInSimulationArgs E depositArgs underlyingToken)
          (\<lambda>(simulateFn, forkId).
        executeSimulationWithReSimulationOnFailure E (\<lambda>save sandbox. simulateFn save) forkId))
      else if zapInWith' = ''ftmApeZap'' then throw (SdkError ''ftmApeZap not implemented yet!'')
      else throw (SdkError (''zapInWith '' @ zapInWith' @ '' not supported yet!'')))"

text \<open>
  \<^verbatim>\<open>deposit\<close>, with the caller's options in the state. The vault contract that
  \<^verbatim>\<open>getVaultContract\<close> builds is a jar or a vault contract at the address \<^verbatim>\<open>toVault\<close>.
\<close>

definition deposit :: "env \<Rightarrow> Address \<Rightarrow> Address \<Rightarrow> int \<Rightarrow> Address \<Rightarrow> TransactionOutcome sim" where
  "deposit E sender sellToken' amt toVault' =
     (let depositArgs = \<lparr>from_addr = sender, sellToken = sellToken', amount = amt, toVault = toVault'\<rparr>;
          vaultContract = toVault' in
      andThen (askVault E (GetDynamic toVault'))
        (\<lambda>vault.
      andThen (askToken E (FindByAddress sellToken'))
        (\<lambda>token.
      case token of
        None \<Rightarrow> throw (SdkError (''Could not find the token by address: '' @ sellToken'))
      | Some tok \<Rightarrow>
          (case vault of
             None \<Rightarrow> throw (SdkError (''Could not get dynamic vault: '' @ toVault'))
           | Some v \<Rightarrow>
               let details = getZapInDetails (isEthereum E) (isFantom E) (Some tok) (v_metadata v) in
               if isZapInSupported details \<and> \<not> str_falsy (zapInWith details)
               then handleZapInSimulationDeposit E (the (zapInWith details)) vaultContract depositArgs
               else if \<not> isZapInSupported details \<and> \<not> isUnderlyingToken E toVault' (t_address tok)
               then throw (SdkError (''Deposit of '' @ t_address tok @ '' to '' @ toVault'
                                       @ '' is not supported''))
               else handleDirectSimulationDeposit E depositArgs vaultContract))))"

text \<open>\<^verbatim>\<open>withdraw\<close>: it writes \<^verbatim>\<open>forkId\<close>, \<^verbatim>\<open>root\<close> and \<^verbatim>\<open>save\<close> to the caller's options.\<close>

definition withdraw :: "env \<Rightarrow> Address \<Rightarrow> Address \<Rightarrow> int \<Rightarrow> Address \<Rightarrow> TransactionOutcome sim" where
  "withdraw E sender fromVault amt toToken =
     (let vaultContract = fromVault in
      andThen (askAddress E (VaultToken vaultContract))
        (\<lambda>underlyingToken.
      case getAddress E toToken of
        None \<Rightarrow> throw (Thrown ''getAddress'')
      | Some toTokenChecksum \<Rightarrow>
          if underlyingToken \<noteq> toTokenChecksum
          then
            andThen getOptions
              (\<lambda>opts.
            if (case opt_slippage opts of None \<Rightarrow> True | Some tolerance \<Rightarrow> num_falsy tolerance)
            then throw (SdkError_NO_SLIPPAGE ''slippage needs to be specified for a zap'')
            else
              andThen (if fromVault = EthAddress E then ret False
                       else catchThrow
                              (andThen (askIsApproved E (ZapOutApprovalState sender fromVault))
                                 (\<lambda>isApproved. ret (\<not> isApproved)))
                              (ZapperError ''zap out approval state''))
                (\<lambda>needsApproving.
              andThen (if needsApproving then andThen (createFork E) (\<lambda>f. ret (Some f)) else ret None)
                (\<lambda>forkId.
              andThen (setOptions (\<lambda>obj. obj\<lparr>opt_forkId := forkId\<rparr>))
                (\<lambda>_.
              andThen (if needsApproving
                       then
                         andThen (catchThrow
                                    (askApprovalTransaction E (ZapOutApprovalTransaction sender fromVault ''0''))
                                    (ZapperError ''zap out approval transaction''))
                           (\<lambda>tx.
                         andThen getOptions
                           (\<lambda>opts'.
                         andThen (makeSimulationRequest E (tx_from tx) (tx_to tx) (tx_data tx)
                                    (opts'\<lparr>opt_save := Some True\<rparr>) None)
                           (\<lambda>res. ret (Some (simulation_id res)))))
                       else ret None)
                (\<lambda>approvalSimulationId.
              andThen (setOptions (\<lambda>obj. obj\<lparr>opt_root := approvalSimulationId\<rparr>))
                (\<lambda>_.
              executeSimulationWithReSimulationOnFailure E
                (\<lambda>save sandbox.
                   andThen (setOptions (\<lambda>obj. obj\<lparr>opt_save := Some save\<rparr>))
                     (\<lambda>_. zapOut E sender toToken underlyingToken amt fromVault needsApproving))
                forkId))))))
          else
            executeSimulationWithReSimulationOnFailure E
              (\<lambda>save sandbox.
                 andThen (setOptions (\<lambda>obj. obj\<lparr>opt_save := Some save\<rparr>))
                   (\<lambda>_. directWithdraw E sender toToken amt fromVault vaultContract))
              None))"

subsection \<open>The earlier revision of \<^verbatim>\<open>SimulationInterface\<close>\<close>

text \<open>
  In this revision every helper receives the caller's options object itself, and
  \<^verbatim>\<open>approve\<close>, \<^verbatim>\<open>simulateZapApprovalTransaction\<close> and \<^verbatim>\<open>zapIn\<close> write to it.
\<close>

definition PickleJars :: "Address list" where
  "PickleJars = [''0xCeD67a187b923F0E5ebcc77C7f2F7da20099e378'']"

definition approve_legacy :: "env \<Rightarrow> Address \<Rightarrow> Address \<Rightarrow> int \<Rightarrow> Address \<Rightarrow> string sim" where
  "approve_legacy E sender token amt vault =
     (case encodeApprove E token (Resolved vault) amt of
        None \<Rightarrow> throw (Thrown ''encodeFunctionData'')
      | Some encodedInputData \<Rightarrow>
          andThen (setOptions (\<lambda>obj. obj\<lparr>opt_save := Some True\<rparr>))
            (\<lambda>_.
          andThen getOptions
            (\<lambda>opts.
          andThen (makeSimulationRequest E sender token encodedInputData opts None)
            (\<lambda>simulationResponse. ret (simulation_id simulationResponse)))))"

text \<open>
  \<^verbatim>\<open>depositNeedsApproving\<close>: the handler of a failed allowance read returns undefined,
  and \<^verbatim>\<open>result.toString()\<close> then throws a \<^verbatim>\<open>TypeError\<close>.
\<close>

definition depositNeedsApproving_legacy :: "env \<Rightarrow> Address \<Rightarrow> Address \<Rightarrow> Address \<Rightarrow> int \<Rightarrow> bool sim" where
  "depositNeedsApproving_legacy E sender token vault amt =
     andThen (catchThrow (askInt E (AllowanceOf token sender vault)) (Thrown ''TypeError''))
       (\<lambda>result. ret (result < amt))"

definition simulateZapApprovalTransaction :: "env \<Rightarrow> ApprovalTransaction \<Rightarrow> SimulationResponse sim" where
  "simulateZapApprovalTransaction E zapApprovalTransaction =
     andThen (setOptions (\<lambda>obj. obj\<lparr>opt_save := Some True\<rparr>))
       (\<lambda>_.
     andThen getOptions
       (\<lambda>opts.
     makeSimulationRequest E (tx_from zapApprovalTransaction) (tx_to zapApprovalTransaction)
       (tx_data zapApprovalTransaction) opts None))"

definition directDeposit_legacy :: "env \<Rightarrow> Address \<Rightarrow> Address \<Rightarrow> int \<Rightarrow> Address \<Rightarrow> Address \<Rightarrow> TransactionOutcome sim" where
  "directDeposit_legacy E sender sellToken' amt toVault' vaultContract =
     andThen getOptions
       (\<lambda>opts.
     andThen (simulateVaultInteraction E sender toVault' (encodeDeposit E vaultContract amt) toVault' opts None)
       (\<lambda>tokensReceived.
     andThen (catchThrow (askInt E (GetNormalizedValueUsdc toVault' tokensReceived))
                (PriceFetchingError []))
       (\<lambda>targetTokenAmountUsdc'.
     andThen (catchThrow (all2 (askNat E (VaultDecimals vaultContract))
                               (askInt E (VaultPricePerShare vaultContract)))
                (EthersError ''direct deposit''))
       (\<lambda>(decimals, pricePerShare).
     ret \<lparr>sourceTokenAddress = sellToken',
          sourceTokenAmount = amt,
          targetTokenAddress = toVault',
          targetTokenAmount = tokensReceived,
          targetTokenAmountUsdc = targetTokenAmountUsdc',
          targetUnderlyingTokenAddress = toVault',
          targetUnderlyingTokenAmount = underlyingAmount tokensReceived decimals pricePerShare,
          conversionRate = Fin 1,
          slippage = Fin 0\<rparr>))))"

definition zapIn_legacy ::
  "env \<Rightarrow> Address \<Rightarrow> Address \<Rightarrow> Address \<Rightarrow> int \<Rightarrow> Address \<Rightarrow> Address \<Rightarrow> ZapProtocol \<Rightarrow> bool
     \<Rightarrow> TransactionOutcome sim" where
  "zapIn_legacy E sender sellToken' underlyingTokenAddress amt toVault' vaultContract zapProtocol skipGasEstimate =
     (let zapToken = (if sellToken' = EthAddress E then ZeroAddress E else sellToken') in
      andThen getOptions
        (\<lambda>opts.
      case opt_slippage opts of
        None \<Rightarrow> throw (SdkError ''slippage needs to be set'')
      | Some tolerance \<Rightarrow>
          if num_falsy tolerance then throw (SdkError ''slippage needs to be set'')
          else
            andThen (catchThrow
                       (askQuote E (ZapInQuote sender zapToken amt toVault'
                                      (if str_falsy (opt_gasPrice opts) then ''0'' else the (opt_gasPrice opts))
                                      tolerance skipGasEstimate zapProtocol))
                       (ZapperError ''zap in''))
              (\<lambda>zapInParams.
            andThen (setOptions (\<lambda>obj. obj\<lparr>opt_gasPrice :=
                                          (if str_falsy (opt_gasPrice obj) then Some (q_gasPrice zapInParams)
                                           else opt_gasPrice obj)\<rparr>))
              (\<lambda>_.
            andThen (if \<not> skipGasEstimate
                     then setOptions (\<lambda>obj. obj\<lparr>opt_gasLimit := Some (q_gas zapInParams)\<rparr>)
                     else ret ())
              (\<lambda>_.
            andThen getOptions
              (\<lambda>opts'.
            andThen (simulateVaultInteraction E sender (q_to zapInParams) (q_data zapInParams) toVault'
                       opts' (Some (q_value zapInParams)))
              (\<lambda>tokensReceived.
            andThen (catchThrow (all2 (askNat E (VaultDecimals vaultContract))
                                      (askInt E (VaultPricePerShare vaultContract)))
                       (EthersError ''zap in''))
              (\<lambda>(decimals, pricePerShare).
            andThen (case zapProtocol of
                       YEARN \<Rightarrow>
                         andThen (catchThrow (askInt E (GetNormalizedValueUsdc toVault' tokensReceived))
                                    (PriceFetchingError []))
                           (\<lambda>price. ret (of_int price))
                     | PICKLE \<Rightarrow>
                         andThen (catchThrow (askInt E (PickleGetPriceUsdc toVault'))
                                    (PriceFetchingError []))
                           (\<lambda>usdc. ret (bn_round 20 (of_int usdc / 10 ^ decimals) * of_int tokensReceived)))
              (\<lambda>amountReceivedUsdc.
            let oracleToken = (if sellToken' = EthAddress E then WethAddress E else sellToken') in
            andThen (catchThrow (askInt E (GetNormalizedValueUsdc oracleToken amt))
                       (PriceFetchingError []))
              (\<lambda>zapInAmountUsdc.
            let rate = bn_div amountReceivedUsdc (of_int zapInAmountUsdc) in
            ret \<lparr>sourceTokenAddress = sellToken',
                 sourceTokenAmount = amt,
                 targetTokenAddress = q_buyTokenAddress zapInParams,
                 targetTokenAmount = tokensReceived,
                 targetTokenAmountUsdc = toFixed0 amountReceivedUsdc,
                 targetUnderlyingTokenAddress = underlyingTokenAddress,
                 targetUnderlyingTokenAmount = underlyingAmount tokensReceived decimals pricePerShare,
                 conversionRate = rate,
                 slippage = one_minus rate\<rparr>))))))))))"

definition deposit_legacy :: "env \<Rightarrow> Address \<Rightarrow> Address \<Rightarrow> int \<Rightarrow> Address \<Rightarrow> TransactionOutcome sim" where
  "deposit_legacy E sender sellToken' amt toVault' =
     (let zapProtocol = (if toVault' \<in> set PickleJars then PICKLE else YEARN);
          vaultContract = toVault' in
      andThen (catchThrow (askAddress E (VaultToken vaultContract)) (EthersError ''failed to fetch token''))
        (\<lambda>underlyingToken.
      if underlyingToken \<noteq> sellToken'
      then
        andThen getOptions
          (\<lambda>opts.
        if (case opt_slippage opts of None \<Rightarrow> True | Some tolerance \<Rightarrow> num_falsy tolerance)
        then throw (SdkError ''slippage needs to be specified for a zap'')
        else
          andThen (if sellToken' = EthAddress E then ret False
                   else catchThrow
                          (andThen (askIsApproved E (ZapInApprovalState sender sellToken' zapProtocol))
                             (\<lambda>isApproved. ret (\<not> isApproved)))
                          (ZapperError ''approval state''))
            (\<lambda>needsApproving.
          andThen (if needsApproving then andThen (createFork E) (\<lambda>f. ret (Some f)) else ret None)
            (\<lambda>forkId.
          andThen (setOptions (\<lambda>obj. obj\<lparr>opt_forkId := forkId\<rparr>))
            (\<lambda>_.
          andThen (if needsApproving
                   then
                     andThen (catchThrow
                                (askApprovalTransaction E
                                   (ZapInApprovalTransaction sender sellToken' ''0'' zapProtocol))
                                (ZapperError ''approval''))
                       (\<lambda>approvalTransaction.
                     andThen (simulateZapApprovalTransaction E approvalTransaction)
                       (\<lambda>res. ret (Some (simulation_id res))))
                   else ret None)
            (\<lambda>approvalTransactionId.
          andThen (setOptions (\<lambda>obj. obj\<lparr>opt_root := approvalTransactionId\<rparr>))
            (\<lambda>_.
          executeSimulationWithReSimulationOnFailure E
            (\<lambda>save sandbox.
               andThen (setOptions (\<lambda>obj. obj\<lparr>opt_save := Some save\<rparr>))
                 (\<lambda>_. zapIn_legacy E sender sellToken' underlyingToken amt toVault' vaultContract
                         zapProtocol needsApproving))
            forkId))))))
      else
        andThen (depositNeedsApproving_legacy E sender sellToken' toVault' amt)
          (\<lambda>needsApproving.
        andThen (if needsApproving then andThen (createFork E) (\<lambda>f. ret (Some f)) else ret None)
          (\<lambda>forkId.
        andThen (setOptions (\<lambda>obj. obj\<lparr>opt_forkId := forkId\<rparr>))
          (\<lambda>_.
        andThen (if needsApproving
                 then andThen (approve_legacy E sender sellToken' amt toVault') (\<lambda>i. ret (Some i))
                 else ret None)
          (\<lambda>approvalTransactionId.
        andThen (setOptions (\<lambda>obj. obj\<lparr>opt_root := approvalTransactionId\<rparr>))
          (\<lambda>_.
        executeSimulationWithReSimulationOnFailure E
          (\<lambda>save sandbox.
             andThen (setOptions (\<lambda>obj. obj\<lparr>opt_save := Some save\<rparr>))
               (\<lambda>_. directDeposit_legacy E sender sellToken' amt toVault' vaultContract))
          forkId)))))))"

subsection \<open>The routed deposit of the first \<^verbatim>\<open>SimulationService\<close>\<close>

text \<open>
  \<^verbatim>\<open>zapIn\<close> of \<^verbatim>\<open>services/simulation.ts\<close>: a quote with gas price \<^verbatim>\<open>"0"\<close>, one request to
  the simulation backend, the price per share, and two oracle lookups. The outcome of
  this revision has no field \<^verbatim>\<open>targetTokenAmountUsdc\<close>; the record holds 0 there.
\<close>

definition zapIn_service ::
  "env \<Rightarrow> Address \<Rightarrow> Address \<Rightarrow> Address \<Rightarrow> int \<Rightarrow> Address \<Rightarrow> jsnum \<Rightarrow> TransactionOutcome sim" where
  "zapIn_service E sender token underlyingTokenAddress amt vault slippagePercentage =
     andThen (askQuote E (ZapInQuote_service sender token amt vault ''0'' slippagePercentage))
       (\<lambda>zapInParams.
     andThen (askSimulation E (SimulateRaw_service sender (q_to zapInParams) (q_data zapInParams)
                                 (q_value zapInParams)))
       (\<lambda>simulationResponse.
     let assetTokensReceived = call_trace_output simulationResponse in
     andThen (askInt E (VaultPricePerShare vault))
       (\<lambda>pricePerShare.
     andThen (askInt E (GetNormalizedValueUsdc token assetTokensReceived))
       (\<lambda>zapInAmountUsdc.
     andThen (askInt E (GetNormalizedValueUsdc vault amt))
       (\<lambda>boughtAssetAmountUsdc.
     let rate = bn_div (of_int boughtAssetAmountUsdc) (of_int zapInAmountUsdc) in
     ret \<lparr>sourceTokenAddress = token,
          sourceTokenAmount = amt,
          targetTokenAddress = q_buyTokenAddress zapInParams,
          targetTokenAmount = assetTokensReceived,
          targetTokenAmountUsdc = 0,
          targetUnderlyingTokenAddress = underlyingTokenAddress,
          targetUnderlyingTokenAmount =
            toFixed0 (bn_round 20 (of_int assetTokensReceived * of_int pricePerShare / 10 ^ 18)),
          conversionRate = rate,
          slippage = one_minus rate\<rparr>)))))"

subsection \<open>The shape of a routed run\<close>

text \<open>
  Predicates on the requests of a run, used to state in which order the engine talks to
  its collaborators. The requests that resolve the approval: the approval state, the
  sandbox, the approval transaction and its simulation. The approval was simulated when
  a \<^verbatim>\<open>makeSimulationRequest\<close> among them was answered with a simulation.
\<close>

fun isApprovalStep :: "request \<times> response \<Rightarrow> bool" where
  "isApprovalStep (ZapInApprovalState a t p, x) = True"
| "isApprovalStep (ZapInApprovalTransaction a t g p, x) = True"
| "isApprovalStep (ZapOutApprovalState a v, x) = True"
| "isApprovalStep (ZapOutApprovalTransaction a v g, x) = True"
| "isApprovalStep (CreateFork, x) = True"
| "isApprovalStep (MakeSimulationRequest a b c d e, x) = (opt_save d = Some True)"
| "isApprovalStep (r, x) = False"

fun isSimulatedApproval :: "request \<times> response \<Rightarrow> bool" where
  "isSimulatedApproval (MakeSimulationRequest a b c d e, x) = (simulationOf x \<noteq> None)"
| "isSimulatedApproval (r, x) = False"

definition approvalSimulated :: "trace \<Rightarrow> bool" where
  "approvalSimulated steps = list_ex isSimulatedApproval steps"

text \<open>The reads that value an amount, after the simulation of the primary call.\<close>

fun isValuation :: "request \<times> response \<Rightarrow> bool" where
  "isValuation (GetNormalizedValueUsdc t n, x) = True"
| "isValuation (PickleGetPriceUsdc v, x) = True"
| "isValuation (VaultDecimals v, x) = True"
| "isValuation (VaultPricePerShare v, x) = True"
| "isValuation (r, x) = False"

text \<open>The \<^verbatim>\<open>skipGasEstimate\<close> flag of a quote request.\<close>

fun quoteSkipsGas :: "request \<Rightarrow> bool option" where
  "quoteSkipsGas (ZapInQuote a t n v g sl sk p) = Some sk"
| "quoteSkipsGas (ZapOutQuote a t n v g sl sk) = Some sk"
| "quoteSkipsGas r = None"

text \<open>The call of a primary simulation request: target, input, value and options.\<close>

fun primaryCall :: "request \<Rightarrow> (Address \<times> string \<times> int option \<times> SimulationOptions) option" where
  "primaryCall (SimulateVaultInteraction a b c d e f) = Some (b, c, f, e)"
| "primaryCall (MakeSimulationRequest a b c d e) = Some (b, c, e, d)"
| "primaryCall r = None"

text \<open>
  One attempt of a routed transfer with the flag \<open>skip\<close>, whose untouched gas limit is
  \<open>gl\<close>: no request at all, or a quote request with that flag and, when the quote was
  answered, the simulation of the quoted call (its target, input and value), not saved,
  with the quote's gas as gas limit unless gas estimation was skipped, followed by
  valuations only.
\<close>

fun routedAttempt :: "bool \<Rightarrow> string option \<Rightarrow> trace \<Rightarrow> bool" where
  "routedAttempt skip gl [] = True"
| "routedAttempt skip gl ((rq, a) # ns) =
     (quoteSkipsGas rq = Some skip \<and>
      (case quoteOf a of
         None \<Rightarrow> ns = []
       | Some q \<Rightarrow>
           (case ns of
              [] \<Rightarrow> False
            | (rq', a') # rest \<Rightarrow>
                (case primaryCall rq' of
                   None \<Rightarrow> False
                 | Some (target, input, val, opts) \<Rightarrow>
                     target = q_to q \<and> input = q_data q \<and> val = Some (q_value q) \<and>
                     opt_save opts = Some False \<and>
                     opt_gasLimit opts = (if skip then gl else Some (q_gas q))) \<and>
                list_all isValuation rest)))"

text \<open>
  The attempts that the wrapper makes: one attempt, or a first attempt, a new sandbox
  and, when the sandbox was allocated, a second attempt.
\<close>

definition retriedAttempts :: "bool \<Rightarrow> string option \<Rightarrow> trace \<Rightarrow> bool" where
  "retriedAttempts skip gl ns =
     (routedAttempt skip gl ns \<or>
      (\<exists>n1 a n2. ns = n1 @ (CreateFork, a) # n2 \<and> routedAttempt skip gl n1 \<and>
                  (forkIdOf a = None \<longrightarrow> n2 = []) \<and> routedAttempt skip gl n2))"

text \<open>The options after an attempt of \<^verbatim>\<open>zapOut\<close>, which writes the quote's gas to them.\<close>

fun gasLimitAfter :: "bool \<Rightarrow> trace \<Rightarrow> SimulationOptions \<Rightarrow> SimulationOptions" where
  "gasLimitAfter skip [] opts = opts"
| "gasLimitAfter skip ((rq, a) # ns) opts =
     (case quoteOf a of
        None \<Rightarrow> opts
      | Some q \<Rightarrow> if skip then opts else opts\<lparr>opt_gasLimit := Some (q_gas q)\<rparr>)"

text \<open>
  The sandbox and the simulation id that the approval steps of a run produced, if any.
\<close>

fun sandboxOf :: "trace \<Rightarrow> string option" where
  "sandboxOf [] = None"
| "sandboxOf ((CreateFork, a) # ns) = (case forkIdOf a of Some f \<Rightarrow> Some f | None \<Rightarrow> sandboxOf ns)"
| "sandboxOf ((r, a) # ns) = sandboxOf ns"

fun approvalIdOf :: "trace \<Rightarrow> string option" where
  "approvalIdOf [] = None"
| "approvalIdOf ((MakeSimulationRequest a b c d e, x) # ns) =
     (case simulationOf x of Some res \<Rightarrow> Some (simulation_id res) | None \<Rightarrow> approvalIdOf ns)"
| "approvalIdOf ((r, x) # ns) = approvalIdOf ns"


text \<open>The requests that a run added to the trace.\<close>

definition newRequests :: "state \<Rightarrow> state \<Rightarrow> trace" where
  "newRequests s s' = drop (length (requests s)) (requests s')"

text \<open>
  The requests that resolve an approval, apart from the allocation of the sandbox: the
  reads of an allowance or an approval state, the request for an approval transaction,
  and a saved simulation.
\<close>

fun resolvesApproval :: "request \<times> response \<Rightarrow> bool" where
  "resolvesApproval (AllowanceOf t a b, x) = True"
| "resolvesApproval (ZapInApprovalState a t p, x) = True"
| "resolvesApproval (ZapInApprovalTransaction a t g p, x) = True"
| "resolvesApproval (ZapOutApprovalState a v, x) = True"
| "resolvesApproval (ZapOutApprovalTransaction a v g, x) = True"
| "resolvesApproval (MakeSimulationRequest a b c d e, x) = (opt_save d = Some True)"
| "resolvesApproval (r, x) = False"

text \<open>The quote requests of a run all carry the flag \<open>skip\<close>.\<close>

definition quotesSkipGas :: "bool \<Rightarrow> trace \<Rightarrow> bool" where
  "quotesSkipGas skip ns =
     list_all (\<lambda>step. case quoteSkipsGas (fst step) of None \<Rightarrow> True | Some sk \<Rightarrow> sk = skip) ns"

subsection \<open>The approval resolution of the inlined paths\<close>

text \<open>
  \<^verbatim>\<open>withdraw\<close> and the routed branch of the earlier \<^verbatim>\<open>deposit\<close> resolve the approval
  inline, between the slippage check and the call of the wrapper. The two definitions
  below are those lines as computations of their own, with the result
  \<open>(needsApproving, forkId, approval id)\<close>; the properties first show that the engine's
  functions are these computations followed by the wrapper.
\<close>

definition withdrawApproval :: "env \<Rightarrow> Address \<Rightarrow> Address \<Rightarrow> (bool \<times> string option \<times> string option) sim" where
  "withdrawApproval E sender fromVault =
     andThen (if fromVault = EthAddress E then ret False
              else catchThrow
                     (andThen (askIsApproved E (ZapOutApprovalState sender fromVault))
                        (\<lambda>isApproved. ret (\<not> isApproved)))
                     (ZapperError ''zap out approval state''))
       (\<lambda>needsApproving.
     andThen (if needsApproving then andThen (createFork E) (\<lambda>f. ret (Some f)) else ret None)
       (\<lambda>forkId.
     andThen (setOptions (\<lambda>obj. obj\<lparr>opt_forkId := forkId\<rparr>))
       (\<lambda>_.
     andThen (if needsApproving
              then
                andThen (catchThrow
                           (askApprovalTransaction E (ZapOutApprovalTransaction sender fromVault ''0''))
                           (ZapperError ''zap out approval transaction''))
                  (\<lambda>tx.
                andThen getOptions
                  (\<lambda>opts'.
                andThen (makeSimulationRequest E (tx_from tx) (tx_to tx) (tx_data tx)
                           (opts'\<lparr>opt_save := Some True\<rparr>) None)
                  (\<lambda>res. ret (Some (simulation_id res)))))
              else ret None)
       (\<lambda>approvalSimulationId.
     andThen (setOptions (\<lambda>obj. obj\<lparr>opt_root := approvalSimulationId\<rparr>))
       (\<lambda>_. ret (needsApproving, forkId, approvalSimulationId))))))"

definition depositApproval_legacy ::
  "env \<Rightarrow> Address \<Rightarrow> Address \<Rightarrow> ZapProtocol \<Rightarrow> (bool \<times> string option \<times> string option) sim" where
  "depositApproval_legacy E sender sellToken' zapProtocol =
     andThen (if sellToken' = EthAddress E then ret False
              else catchThrow
                     (andThen (askIsApproved E (ZapInApprovalState sender sellToken' zapProtocol))
                        (\<lambda>isApproved. ret (\<not> isApproved)))
                     (ZapperError ''approval state''))
       (\<lambda>needsApproving.
     andThen (if needsApproving then andThen (createFork E) (\<lambda>f. ret (Some f)) else ret None)
       (\<lambda>forkId.
     andThen (setOptions (\<lambda>obj. obj\<lparr>opt_forkId := forkId\<rparr>))
       (\<lambda>_.
     andThen (if needsApproving
              then
                andThen (catchThrow
                           (askApprovalTransaction E
                              (ZapInApprovalTransaction sender sellToken' ''0'' zapProtocol))
                           (ZapperError ''approval''))
                  (\<lambda>approvalTransaction.
                andThen (simulateZapApprovalTransaction E approvalTransaction)
                  (\<lambda>res. ret (Some (simulation_id res))))
              else ret None)
       (\<lambda>approvalTransactionId.
     andThen (setOptions (\<lambda>obj. obj\<lparr>opt_root := approvalTransactionId\<rparr>))
       (\<lambda>_. ret (needsApproving, forkId, approvalTransactionId))))))"

subsection \<open>Scenarios\<close>

text \<open>Concrete addresses, an engine on Ethereum without a partner service, and worlds.\<close>

definition noOptions :: SimulationOptions where
  "noOptions = \<lparr>opt_slippage = None, opt_root = None, opt_forkId = None,
                 opt_gasPrice = None, opt_gasLimit = None, opt_save = None\<rparr>"

definition freshState :: "SimulationOptions \<Rightarrow> state" where
  "freshState opts = \<lparr>requests = [], options = opts\<rparr>"

definition engine :: "(trace \<Rightarrow> request \<Rightarrow> response) \<Rightarrow> env" where
  "engine w = \<lparr>isEthereum = True, isFantom = False,
                EthAddress = ''0xEeeeeEeeeEeEeeEeEeEeeEEEeeeeEeeeeeeeEEeE'',
                ZeroAddress = ''0x0000000000000000000000000000000000000000'',
                WethAddress = ''0xC02aaA39b223FE8D0A0e5C4F27eAD9083C756Cc2'',
                getAddress = Some,
                getZapProtocol = (\<lambda>v. YEARN),
                isUnderlyingToken = (\<lambda>v t. t = ''0xDai''),
                partner = None,
                encodeDeposit = (\<lambda>v a. ''deposit''),
                encodeWithdraw = (\<lambda>v a. ''withdraw''),
                encodeApprove = (\<lambda>t sp a. case sp of Resolved x \<Rightarrow> Some ''approve'' | Pending x \<Rightarrow> None),
                world = w\<rparr>"

definition daiDeposit :: DepositArgs where
  "daiDeposit = \<lparr>from_addr = ''0xUser'', sellToken = ''0xDai'', amount = 1000, toVault = ''0xVault''\<rparr>"

text \<open>
  The direct deposit of the specification: the sandbox reports 950 shares, the vault has
  18 decimals and a price per share of \<open>1.05 * 10^18\<close>.
\<close>

fun sharesWorld :: "trace \<Rightarrow> request \<Rightarrow> response" where
  "sharesWorld h (SimulateVaultInteraction a b c d e f) = RInt 950"
| "sharesWorld h (GetNormalizedValueUsdc t a) = RInt 997500000"
| "sharesWorld h (VaultDecimals v) = RNat 18"
| "sharesWorld h (VaultPricePerShare v) = RInt 1050000000000000000"
| "sharesWorld h (VaultToken v) = RAddress ''0xDai''"
| "sharesWorld h (AllowanceOf t a b) = RInt 5000"
| "sharesWorld h r = Rejected"

definition sharesOutcome :: TransactionOutcome where
  "sharesOutcome = \<lparr>sourceTokenAddress = ''0xDai'', sourceTokenAmount = 1000,
                     targetTokenAddress = ''0xVault'', targetTokenAmount = 950,
                     targetTokenAmountUsdc = 997500000,
                     targetUnderlyingTokenAddress = ''0xVault'',
                     targetUnderlyingTokenAmount = 998,
                     conversionRate = Fin 1, slippage = Fin 0\<rparr>"

definition sharesState :: state where
  "sharesState =
     \<lparr>requests =
        [(SimulateVaultInteraction ''0xUser'' ''0xVault'' ''deposit'' ''0xVault'' noOptions None, RInt 950),
         (GetNormalizedValueUsdc ''0xVault'' 950, RInt 997500000),
         (VaultDecimals ''0xVault'', RNat 18),
         (VaultPricePerShare ''0xVault'', RInt 1050000000000000000)],
      options = noOptions\<rparr>"

definition sharesWithdrawn :: TransactionOutcome where
  "sharesWithdrawn = \<lparr>sourceTokenAddress = ''0xVault'', sourceTokenAmount = 1000,
                       targetTokenAddress = ''0xDai'', targetTokenAmount = 950,
                       targetTokenAmountUsdc = 997500000,
                       targetUnderlyingTokenAddress = ''0xDai'',
                       targetUnderlyingTokenAmount = 950,
                       conversionRate = Fin 1, slippage = Fin 0\<rparr>"

text \<open>
  A routed transfer: the vault's token is Dai and the caller's token is Usdc. The route
  provider reports the approval state \<open>approved\<close>; the backend numbers its sandboxes; the
  oracle values a unit of Usdc at 1 and a share of the vault at 2.
\<close>

definition zapVault :: Vault where
  "zapVault = \<lparr>v_metadata = Some \<lparr>md_zapInWith = Some ''zapperZapIn''\<rparr>\<rparr>"

definition zapToken :: "Address \<Rightarrow> Token" where
  "zapToken a = \<lparr>t_address = a, t_supported = Some [(''zapperZapIn'', True)]\<rparr>"

definition approvalTx :: ApprovalTransaction where
  "approvalTx = \<lparr>tx_from = ''0xUser'', tx_to = ''0xUsdc'', tx_data = ''approve''\<rparr>"

definition zapQuote :: Quote where
  "zapQuote = \<lparr>q_to = ''0xZap'', q_data = ''zap'', q_value = 0, q_gas = ''21000'',
               q_gasPrice = ''5'', q_buyTokenAddress = ''0xVault''\<rparr>"

definition approvalSim :: SimulationResponse where
  "approvalSim = \<lparr>simulation_id = ''sim-1'', call_trace_output = 0\<rparr>"

fun isCreateFork :: "request \<times> response \<Rightarrow> bool" where
  "isCreateFork (CreateFork, a) = True"
| "isCreateFork (r, a) = False"


fun routedWorld :: "bool \<Rightarrow> trace \<Rightarrow> request \<Rightarrow> response" where
  "routedWorld approved h (VaultToken v) = RAddress ''0xDai''"
| "routedWorld approved h (GetDynamic v) = RVault (Some zapVault)"
| "routedWorld approved h (FindByAddress t) = RToken (Some (zapToken t))"
| "routedWorld approved h (VaultDecimals v) = RNat 18"
| "routedWorld approved h (VaultPricePerShare v) = RInt 1050000000000000000"
| "routedWorld approved h (ZapInApprovalState a t p) = RIsApproved approved"
| "routedWorld approved h (ZapOutApprovalState a v) = RIsApproved approved"
| "routedWorld approved h CreateFork =
     RForkId (if list_ex isCreateFork h then ''fork-2'' else ''fork-1'')"
| "routedWorld approved h (ZapInApprovalTransaction a t g p) = RApprovalTransaction approvalTx"
| "routedWorld approved h (ZapOutApprovalTransaction a v g) = RApprovalTransaction approvalTx"
| "routedWorld approved h (MakeSimulationRequest a b c d e) = RSimulation approvalSim"
| "routedWorld approved h (ZapInQuote a t n v g sl sk p) = RQuote zapQuote"
| "routedWorld approved h (ZapOutQuote a t n v g sl sk) = RQuote zapQuote"
| "routedWorld approved h (ZapInQuote_service a t n v g sl) = RQuote zapQuote"
| "routedWorld approved h (SimulateVaultInteraction a b c d e f) = RInt 550"
| "routedWorld approved h (SimulateRaw_service a b c d) =
     RSimulation \<lparr>simulation_id = ''sim-0'', call_trace_output = 500\<rparr>"
| "routedWorld approved h (GetNormalizedValueUsdc t n) = RInt (if t = ''0xVault'' then 2 * n else n)"
| "routedWorld approved h r = Rejected"

definition onePercent :: SimulationOptions where
  "onePercent = noOptions\<lparr>opt_slippage := Some (Fin (1 / 100))\<rparr>"

definition usdcDeposit :: DepositArgs where
  "usdcDeposit = \<lparr>from_addr = ''0xUser'', sellToken = ''0xUsdc'', amount = 1000, toVault = ''0xVault''\<rparr>"

definition zapUnderlying :: UnderlyingToken where
  "zapUnderlying = \<lparr>u_address = ''0xDai'', u_decimals = 18, u_pricePerShare = 1050000000000000000\<rparr>"


text \<open>The state after the request \<open>r\<close> has been asked in the state \<open>s\<close>.\<close>

definition asked :: "env \<Rightarrow> request \<Rightarrow> state \<Rightarrow> state" where
  "asked E r s = s\<lparr>requests := requests s @ [(r, world E (requests s) r)]\<rparr>"

text \<open>A direct deposit whose allowance is insufficient: the world of the 950 shares, with
  an allowance of 0, an approval simulation and a sandbox.\<close>

definition unapprovedWorld :: "trace \<Rightarrow> request \<Rightarrow> response" where
  "unapprovedWorld h r =
     (case r of
        AllowanceOf t a b \<Rightarrow> RInt 0
      | MakeSimulationRequest a b c d e \<Rightarrow> RSimulation approvalSim
      | CreateFork \<Rightarrow> RForkId ''fork-1''
      | _ \<Rightarrow> sharesWorld h r)"

text \<open>The outcomes and final traces of the routed scenarios.\<close>

definition zapOutcome :: TransactionOutcome where
  "zapOutcome = \<lparr>sourceTokenAddress = ''0xUsdc'', sourceTokenAmount = 1000,
                  targetTokenAddress = ''0xVault'', targetTokenAmount = 550,
                  targetTokenAmountUsdc = 1100,
                  targetUnderlyingTokenAddress = ''0xDai'',
                  targetUnderlyingTokenAmount = 578,
                  conversionRate = Fin (11 / 10), slippage = Fin (- (1 / 10))\<rparr>"

definition serviceOutcome :: TransactionOutcome where
  "serviceOutcome = \<lparr>sourceTokenAddress = ''0xUsdc'', sourceTokenAmount = 1000,
                      targetTokenAddress = ''0xVault'', targetTokenAmount = 500,
                      targetTokenAmountUsdc = 0,
                      targetUnderlyingTokenAddress = ''0xDai'',
                      targetUnderlyingTokenAmount = 525,
                      conversionRate = Fin 4, slippage = Fin (- 3)\<rparr>"

definition serviceRequests :: trace where
  "serviceRequests =
     [(ZapInQuote_service ''0xUser'' ''0xUsdc'' 1000 ''0xVault'' ''0'' (Fin (1 / 100)), RQuote zapQuote),
      (SimulateRaw_service ''0xUser'' ''0xZap'' ''zap'' 0,
       RSimulation \<lparr>simulation_id = ''sim-0'', call_trace_output = 500\<rparr>),
      (VaultPricePerShare ''0xVault'', RInt 1050000000000000000),
      (GetNormalizedValueUsdc ''0xUsdc'' 500, RInt 500),
      (GetNormalizedValueUsdc ''0xVault'' 1000, RInt 2000)]"

definition unapprovedDepositRequests :: trace where
  "unapprovedDepositRequests =
     [(GetDynamic ''0xVault'', RVault (Some zapVault)),
      (FindByAddress ''0xUsdc'', RToken (Some (zapToken ''0xUsdc''))),
      (VaultToken ''0xVault'', RAddress ''0xDai''),
      (VaultDecimals ''0xVault'', RNat 18),
      (VaultPricePerShare ''0xVault'', RInt 1050000000000000000),
      (ZapInApprovalState ''0xUser'' ''0xUsdc'' YEARN, RIsApproved False),
      (CreateFork, RForkId ''fork-1''),
      (ZapInApprovalTransaction ''0xUser'' ''0xUsdc'' ''0'' YEARN, RApprovalTransaction approvalTx),
      (MakeSimulationRequest ''0xUser'' ''0xUsdc'' ''approve''
         (onePercent\<lparr>opt_save := Some True\<rparr>) None, RSimulation approvalSim),
      (ZapInQuote ''0xUser'' ''0xUsdc'' 1000 ''0xVault'' ''0'' (Fin (1 / 100)) True YEARN,
       RQuote zapQuote),
      (SimulateVaultInteraction ''0xUser'' ''0xZap'' ''zap'' ''0xVault''
         (onePercent\<lparr>opt_root := Some ''sim-1'', opt_forkId := Some ''fork-1'',
                      opt_gasPrice := Some ''5'', opt_save := Some False\<rparr>) (Some 0), RInt 550),
      (GetNormalizedValueUsdc ''0xVault'' 550, RInt 1100),
      (GetNormalizedValueUsdc ''0xUsdc'' 1000, RInt 1000)]"

definition unapprovedWithdrawRequests :: trace where
  "unapprovedWithdrawRequests =
     [(VaultToken ''0xVault'', RAddress ''0xDai''),
      (ZapOutApprovalState ''0xUser'' ''0xVault'', RIsApproved False),
      (CreateFork, RForkId ''fork-1''),
      (ZapOutApprovalTransaction ''0xUser'' ''0xVault'' ''0'', RApprovalTransaction approvalTx),
      (MakeSimulationRequest ''0xUser'' ''0xUsdc'' ''approve''
         (onePercent\<lparr>opt_forkId := Some ''fork-1'', opt_save := Some True\<rparr>) None,
       RSimulation approvalSim),
      (ZapOutQuote ''0xUser'' ''0xUsdc'' 1000 ''0xVault'' ''0'' (Fin (1 / 100)) True, RQuote zapQuote),
      (SimulateVaultInteraction ''0xUser'' ''0xZap'' ''zap'' ''0xUsdc''
         (onePercent\<lparr>opt_root := Some ''sim-1'', opt_forkId := Some ''fork-1'',
                      opt_save := Some False\<rparr>) (Some 0), RInt 550),
      (GetNormalizedValueUsdc ''0xUsdc'' 550, RInt 550),
      (GetNormalizedValueUsdc ''0xVault'' 1000, RInt 2000)]"


definition brokenWorld :: "trace \<Rightarrow> request \<Rightarrow> response" where
  "brokenWorld h r =
     (case r of
        SimulateVaultInteraction a b c d e f \<Rightarrow> Rejected
      | CreateFork \<Rightarrow> RForkId ''fork-1''
      | _ \<Rightarrow> sharesWorld h r)"

definition depositRequest :: "string option \<Rightarrow> request" where
  "depositRequest sandbox =
     SimulateVaultInteraction ''0xUser'' ''0xVault'' ''deposit'' ''0xVault''
       (noOptions\<lparr>opt_forkId := sandbox, opt_save := Some False\<rparr>) None"




text \<open>
  Options of a caller that already hold a sandbox, a root, a gas limit and the
  \<^verbatim>\<open>save\<close> flag.
\<close>

definition callerOptions :: SimulationOptions where
  "callerOptions = \<lparr>opt_slippage = Some (Fin (1 / 100)), opt_root = Some ''root-0'',
                     opt_forkId = Some ''fork-0'', opt_gasPrice = None,
                     opt_gasLimit = Some ''1'', opt_save = Some True\<rparr>"




section \<open>Properties\<close>

subsection \<open>Unfolding the sequencing\<close>

lemmas sim_defs =
  ret_def throw_def andThen_def catchThrow_def all2_def all3_def getOptions_def setOptions_def
  ask_def askAddress_def askInt_def askNat_def askVault_def askToken_def askIsApproved_def
  askApprovalTransaction_def askQuote_def askForkId_def askSimulation_def
  createFork_def makeSimulationRequest_def simulateVaultInteraction_def

lemmas scenario_defs =
  engine_def noOptions_def freshState_def daiDeposit_def
  getEncodedInputData_def shouldUsePartnerService_def getActionableAddress_def

subsection \<open>The projections of an answer\<close>

lemma addressOf_Some [simp]: "addressOf a = Some x \<longleftrightarrow> a = RAddress x"
  by (cases a) auto

lemma intOf_Some [simp]: "intOf a = Some x \<longleftrightarrow> a = RInt x"
  by (cases a) auto

lemma natOf_Some [simp]: "natOf a = Some x \<longleftrightarrow> a = RNat x"
  by (cases a) auto

lemma vaultOf_Some [simp]: "vaultOf a = Some x \<longleftrightarrow> a = RVault x"
  by (cases a) auto

lemma tokenOf_Some [simp]: "tokenOf a = Some x \<longleftrightarrow> a = RToken x"
  by (cases a) auto

lemma isApprovedOf_Some [simp]: "isApprovedOf a = Some x \<longleftrightarrow> a = RIsApproved x"
  by (cases a) auto

lemma approvalTransactionOf_Some [simp]: "approvalTransactionOf a = Some x \<longleftrightarrow> a = RApprovalTransaction x"
  by (cases a) auto

lemma quoteOf_Some [simp]: "quoteOf a = Some x \<longleftrightarrow> a = RQuote x"
  by (cases a) auto

lemma forkIdOf_Some [simp]: "forkIdOf a = Some x \<longleftrightarrow> a = RForkId x"
  by (cases a) auto

lemma simulationOf_Some [simp]: "simulationOf a = Some x \<longleftrightarrow> a = RSimulation x"
  by (cases a) auto

subsection \<open>Rounding\<close>

lemma bn_round_exact:
  assumes "decimals \<le> dp"
  shows "bn_round dp (of_int n / 10 ^ decimals) = of_int n / 10 ^ decimals"
proof -
  have pw: "(10::rat) ^ dp = 10 ^ decimals * 10 ^ (dp - decimals)"
    using assms by (simp flip: power_add)
  have e: "of_int n / 10 ^ decimals * (10::rat) ^ dp = of_int (n * 10 ^ (dp - decimals))"
    by (simp add: pw)
  have rh: "round_half_up (of_int k) = k" for k
  proof (cases "0 \<le> k")
    case True
    then show ?thesis by (simp add: round_half_up_def floor_eq_iff)
  next
    case False
    then have "- \<lfloor>- rat_of_int k + 1 / 2\<rfloor> = k" by linarith
    with False show ?thesis by (simp add: round_half_up_def)
  qed
  have "round_half_up (of_int n / 10 ^ decimals * 10 ^ dp) = n * 10 ^ (dp - decimals)"
    unfolding e by (rule rh)
  then show ?thesis
    by (simp add: bn_round_def pw)
qed

lemma underlyingAmount_exact:
  "decimals \<le> 20 \<Longrightarrow>
   underlyingAmount received decimals pricePerShare =
     round_half_up (of_int received / 10 ^ decimals * of_int pricePerShare)"
  by (simp add: underlyingAmount_def toFixed0_def bn_round_exact)

subsection \<open>Direct transfers\<close>

lemma directDeposit_fixed:
  "fst (directDeposit E depositArgs opts vaultContract s) = Inr out \<Longrightarrow>
   conversionRate out = Fin 1 \<and> slippage out = Fin 0"
  unfolding directDeposit_def
  by (auto simp: sim_defs split: option.splits if_splits sum.splits prod.splits)

lemma directWithdraw_fixed:
  "fst (directWithdraw E sender toToken amt fromVault vaultContract s) = Inr out \<Longrightarrow>
   conversionRate out = Fin 1 \<and> slippage out = Fin 0"
  unfolding directWithdraw_def
  by (auto simp: sim_defs split: option.splits if_splits sum.splits prod.splits)

text \<open>Whatever the wrapper returns was returned by one run of the producer.\<close>

lemma executeSimulation_result:
  "fst (executeSimulationWithReSimulationOnFailure E simulate forkId s) = Inr out \<Longrightarrow>
   \<exists>sandbox t. fst (simulate False sandbox t) = Inr out"
  unfolding executeSimulationWithReSimulationOnFailure_def
  by (auto split: prod.splits sum.splits) (metis fst_conv)+

lemma handleDirectSimulationDeposit_fixed:
  "fst (handleDirectSimulationDeposit E depositArgs vaultContract s) = Inr out \<Longrightarrow>
   conversionRate out = Fin 1 \<and> slippage out = Fin 0"
  unfolding handleDirectSimulationDeposit_def andThen_def
  apply (auto split: prod.splits sum.splits dest!: executeSimulation_result)
   apply (auto simp: getOptions_def dest: directDeposit_fixed)
  done

lemma withdraw_direct_fixed:
  assumes "fst (withdraw E sender fromVault amt toToken s) = Inr out"
    and "world E (requests s) (VaultToken fromVault) = RAddress u"
    and "getAddress E toToken = Some u"
  shows "conversionRate out = Fin 1 \<and> slippage out = Fin 0"
proof -
  from assms have "fst (executeSimulationWithReSimulationOnFailure E
              (\<lambda>save sandbox. andThen (setOptions (\<lambda>obj. obj\<lparr>opt_save := Some save\<rparr>))
                   (\<lambda>_. directWithdraw E sender toToken amt fromVault fromVault))
              None (s\<lparr>requests := requests s @ [(VaultToken fromVault, RAddress u)]\<rparr>)) = Inr out"
    by (simp add: withdraw_def sim_defs)
  then obtain t where "fst (andThen (setOptions (\<lambda>obj. obj\<lparr>opt_save := Some False\<rparr>))
                   (\<lambda>_. directWithdraw E sender toToken amt fromVault fromVault) t) = Inr out"
    by (blast dest: executeSimulation_result)
  then show ?thesis
    by (auto simp: andThen_def setOptions_def dest: directWithdraw_fixed)
qed

text \<open>The scenario of the specification, run.\<close>

lemma shares_underlying: "underlyingAmount 950 18 1050000000000000000 = 998"
  by code_simp

lemma shares_directDeposit:
  "directDeposit (engine sharesWorld) daiDeposit noOptions ''0xVault'' (freshState noOptions) =
     (Inr sharesOutcome, sharesState)"
  by (simp add: directDeposit_def sim_defs scenario_defs sharesOutcome_def sharesState_def
        shares_underlying)

lemma shares_directDeposit_legacy:
  "directDeposit_legacy (engine sharesWorld) ''0xUser'' ''0xDai'' 1000 ''0xVault'' ''0xVault''
     (freshState noOptions) = (Inr sharesOutcome, sharesState)"
  by (simp add: directDeposit_legacy_def sim_defs scenario_defs sharesOutcome_def sharesState_def
        shares_underlying)

lemma shares_directWithdraw:
  "fst (directWithdraw (engine sharesWorld) ''0xUser'' ''0xDai'' 1000 ''0xVault'' ''0xVault''
          (freshState noOptions)) = Inr sharesWithdrawn"
  by (simp add: directWithdraw_def sim_defs scenario_defs sharesWithdrawn_def)

lemma shares_handleDirect:
  "fst (handleDirectSimulationDeposit (engine sharesWorld) daiDeposit ''0xVault'' (freshState noOptions)) =
     Inr sharesOutcome"
  by (simp add: handleDirectSimulationDeposit_def getApprovalData_def depositNeedsApproving_def
        executeSimulationWithReSimulationOnFailure_def
        directDeposit_def sim_defs scenario_defs sharesOutcome_def shares_underlying)

lemma shares_withdraw:
  "fst (withdraw (engine sharesWorld) ''0xUser'' ''0xVault'' 1000 ''0xDai'' (freshState noOptions)) =
     Inr sharesWithdrawn"
  by (simp add: withdraw_def Let_def executeSimulationWithReSimulationOnFailure_def
        directWithdraw_def sim_defs scenario_defs sharesWithdrawn_def)

text \<open>
  C1. A direct deposit or withdraw that completes returns an outcome with conversion
  rate 1 and slippage 0, whatever the world, the price oracle included, answers: for
  \<^verbatim>\<open>directDeposit\<close> and \<^verbatim>\<open>directWithdraw\<close> themselves, for the direct branch of
  \<^verbatim>\<open>deposit\<close> (\<^verbatim>\<open>handleDirectSimulationDeposit\<close>) and for \<^verbatim>\<open>withdraw\<close> when the vault's
  token is the requested token.
\<close>

theorem direct_outcome_rate_one:
  "(fst (directDeposit E depositArgs opts vaultContract s) = Inr out \<longrightarrow>
      conversionRate out = Fin 1 \<and> slippage out = Fin 0) \<and>
   (fst (directWithdraw E sender toToken amt fromVault vaultContract s) = Inr out \<longrightarrow>
      conversionRate out = Fin 1 \<and> slippage out = Fin 0) \<and>
   (fst (handleDirectSimulationDeposit E depositArgs vaultContract s) = Inr out \<longrightarrow>
      conversionRate out = Fin 1 \<and> slippage out = Fin 0) \<and>
   (fst (withdraw E sender fromVault amt toToken s) = Inr out \<and>
    world E (requests s) (VaultToken fromVault) = RAddress u \<and> getAddress E toToken = Some u \<longrightarrow>
      conversionRate out = Fin 1 \<and> slippage out = Fin 0)"
proof (intro conjI impI)
  assume "fst (directDeposit E depositArgs opts vaultContract s) = Inr out"
  then show "conversionRate out = Fin 1" "slippage out = Fin 0"
    using directDeposit_fixed by blast+
next
  assume "fst (directWithdraw E sender toToken amt fromVault vaultContract s) = Inr out"
  then show "conversionRate out = Fin 1" "slippage out = Fin 0"
    using directWithdraw_fixed by blast+
next
  assume "fst (handleDirectSimulationDeposit E depositArgs vaultContract s) = Inr out"
  then show "conversionRate out = Fin 1" "slippage out = Fin 0"
    using handleDirectSimulationDeposit_fixed by blast+
next
  assume "fst (withdraw E sender fromVault amt toToken s) = Inr out \<and>
    world E (requests s) (VaultToken fromVault) = RAddress u \<and> getAddress E toToken = Some u"
  then show "conversionRate out = Fin 1" "slippage out = Fin 0"
    using withdraw_direct_fixed by blast+
qed

theorem direct_outcome_rate_one_witness:
  "fst (directDeposit (engine sharesWorld) daiDeposit noOptions ''0xVault'' (freshState noOptions))
     = Inr sharesOutcome \<and>
   fst (directWithdraw (engine sharesWorld) ''0xUser'' ''0xDai'' 1000 ''0xVault'' ''0xVault''
          (freshState noOptions)) = Inr sharesWithdrawn \<and>
   fst (handleDirectSimulationDeposit (engine sharesWorld) daiDeposit ''0xVault'' (freshState noOptions))
     = Inr sharesOutcome \<and>
   fst (withdraw (engine sharesWorld) ''0xUser'' ''0xVault'' 1000 ''0xDai'' (freshState noOptions))
     = Inr sharesWithdrawn \<and>
   world (engine sharesWorld) (requests (freshState noOptions)) (VaultToken ''0xVault'')
     = RAddress ''0xDai'' \<and>
   getAddress (engine sharesWorld) ''0xDai'' = Some ''0xDai'' \<and>
   conversionRate sharesOutcome = Fin 1 \<and> slippage sharesOutcome = Fin 0 \<and>
   conversionRate sharesWithdrawn = Fin 1 \<and> slippage sharesWithdrawn = Fin 0"
proof -
  have a: "fst (directDeposit (engine sharesWorld) daiDeposit noOptions ''0xVault'' (freshState noOptions))
     = Inr sharesOutcome"
    by (simp add: shares_directDeposit)
  have b: "fst (directWithdraw (engine sharesWorld) ''0xUser'' ''0xDai'' 1000 ''0xVault'' ''0xVault''
          (freshState noOptions)) = Inr sharesWithdrawn"
    by (rule shares_directWithdraw)
  have c: "fst (handleDirectSimulationDeposit (engine sharesWorld) daiDeposit ''0xVault''
          (freshState noOptions)) = Inr sharesOutcome"
    by (rule shares_handleDirect)
  have d: "fst (withdraw (engine sharesWorld) ''0xUser'' ''0xVault'' 1000 ''0xDai'' (freshState noOptions))
     = Inr sharesWithdrawn"
    by (rule shares_withdraw)
  have e: "world (engine sharesWorld) (requests (freshState noOptions)) (VaultToken ''0xVault'')
      = RAddress ''0xDai''"
    "getAddress (engine sharesWorld) ''0xDai'' = Some ''0xDai''"
    by (simp_all add: engine_def)
  from a have "conversionRate sharesOutcome = Fin 1 \<and> slippage sharesOutcome = Fin 0"
    using direct_outcome_rate_one
      [where E = "engine sharesWorld" and depositArgs = daiDeposit and opts = noOptions
         and vaultContract = "''0xVault''" and s = "freshState noOptions" and out = sharesOutcome]
    by blast
  moreover from b have "conversionRate sharesWithdrawn = Fin 1 \<and> slippage sharesWithdrawn = Fin 0"
    using direct_outcome_rate_one
      [where E = "engine sharesWorld" and sender = "''0xUser''" and toToken = "''0xDai''"
         and amt = 1000 and fromVault = "''0xVault''" and vaultContract = "''0xVault''"
         and s = "freshState noOptions" and out = sharesWithdrawn]
    by blast
  ultimately show ?thesis using a b c d e by simp
qed

subsection \<open>The underlying amount of a direct deposit\<close>

lemma directDeposit_amounts:
  assumes "directDeposit E d opts vaultContract s = (Inr out, s')"
  shows "\<exists>input usd decimals pricePerShare.
     requests s' =
       requests s @
       [(SimulateVaultInteraction (from_addr d) (getActionableAddress E (toVault d)) input (toVault d)
           opts None, RInt (targetTokenAmount out)),
        (GetNormalizedValueUsdc (toVault d) (targetTokenAmount out), RInt usd),
        (VaultDecimals vaultContract, RNat decimals),
        (VaultPricePerShare vaultContract, RInt pricePerShare)] \<and>
     targetUnderlyingTokenAmount out = underlyingAmount (targetTokenAmount out) decimals pricePerShare"
  using assms unfolding directDeposit_def
  by (auto simp: sim_defs split: option.splits if_splits sum.splits prod.splits)

lemma directDeposit_legacy_amounts:
  assumes "directDeposit_legacy E sender token amt vault vaultContract s = (Inr out, s')"
  shows "\<exists>usd decimals pricePerShare.
     requests s' =
       requests s @
       [(SimulateVaultInteraction sender vault (encodeDeposit E vaultContract amt) vault
           (options s) None, RInt (targetTokenAmount out)),
        (GetNormalizedValueUsdc vault (targetTokenAmount out), RInt usd),
        (VaultDecimals vaultContract, RNat decimals),
        (VaultPricePerShare vaultContract, RInt pricePerShare)] \<and>
     targetUnderlyingTokenAmount out = underlyingAmount (targetTokenAmount out) decimals pricePerShare"
  using assms unfolding directDeposit_legacy_def
  by (auto simp: sim_defs split: option.splits if_splits sum.splits prod.splits)

text \<open>
  C7, as the code has it. The underlying amount of a direct deposit is the amount
  received, divided by \<open>10 ^ decimals\<close> (the quotient kept to 20 decimal places) and
  multiplied by the price per share, rounded to the nearest integer with ties away from
  zero; with at most 20 decimals the division is exact. The requests of the run are the
  simulation, the oracle lookup and the two reads of the vault, in this order. The same
  holds for the earlier revision.
\<close>

theorem directDeposit_underlying_rounds_half_up:
  "(directDeposit E d opts vaultContract s = (Inr out, s') \<longrightarrow>
      (\<exists>input usd decimals pricePerShare.
         requests s' =
           requests s @
           [(SimulateVaultInteraction (from_addr d) (getActionableAddress E (toVault d)) input
               (toVault d) opts None, RInt (targetTokenAmount out)),
            (GetNormalizedValueUsdc (toVault d) (targetTokenAmount out), RInt usd),
            (VaultDecimals vaultContract, RNat decimals),
            (VaultPricePerShare vaultContract, RInt pricePerShare)] \<and>
         targetUnderlyingTokenAmount out =
           round_half_up (bn_round 20 (of_int (targetTokenAmount out) / 10 ^ decimals)
                            * of_int pricePerShare) \<and>
         (decimals \<le> 20 \<longrightarrow>
            targetUnderlyingTokenAmount out =
              round_half_up (of_int (targetTokenAmount out) / 10 ^ decimals * of_int pricePerShare)))) \<and>
   (directDeposit_legacy E sender token amt vault vaultContract s = (Inr out, s') \<longrightarrow>
      (\<exists>usd decimals pricePerShare.
         requests s' =
           requests s @
           [(SimulateVaultInteraction sender vault (encodeDeposit E vaultContract amt) vault
               (options s) None, RInt (targetTokenAmount out)),
            (GetNormalizedValueUsdc vault (targetTokenAmount out), RInt usd),
            (VaultDecimals vaultContract, RNat decimals),
            (VaultPricePerShare vaultContract, RInt pricePerShare)] \<and>
         targetUnderlyingTokenAmount out =
           round_half_up (bn_round 20 (of_int (targetTokenAmount out) / 10 ^ decimals)
                            * of_int pricePerShare) \<and>
         (decimals \<le> 20 \<longrightarrow>
            targetUnderlyingTokenAmount out =
              round_half_up (of_int (targetTokenAmount out) / 10 ^ decimals * of_int pricePerShare))))"
proof (intro conjI impI)
  assume "directDeposit E d opts vaultContract s = (Inr out, s')"
  from directDeposit_amounts [OF this] obtain input usd decimals pricePerShare where
    tr: "requests s' =
           requests s @
           [(SimulateVaultInteraction (from_addr d) (getActionableAddress E (toVault d)) input
               (toVault d) opts None, RInt (targetTokenAmount out)),
            (GetNormalizedValueUsdc (toVault d) (targetTokenAmount out), RInt usd),
            (VaultDecimals vaultContract, RNat decimals),
            (VaultPricePerShare vaultContract, RInt pricePerShare)]"
    and ua: "targetUnderlyingTokenAmount out =
               underlyingAmount (targetTokenAmount out) decimals pricePerShare"
    by blast
  show "\<exists>input usd decimals pricePerShare.
         requests s' =
           requests s @
           [(SimulateVaultInteraction (from_addr d) (getActionableAddress E (toVault d)) input
               (toVault d) opts None, RInt (targetTokenAmount out)),
            (GetNormalizedValueUsdc (toVault d) (targetTokenAmount out), RInt usd),
            (VaultDecimals vaultContract, RNat decimals),
            (VaultPricePerShare vaultContract, RInt pricePerShare)] \<and>
         targetUnderlyingTokenAmount out =
           round_half_up (bn_round 20 (of_int (targetTokenAmount out) / 10 ^ decimals)
                            * of_int pricePerShare) \<and>
         (decimals \<le> 20 \<longrightarrow>
            targetUnderlyingTokenAmount out =
              round_half_up (of_int (targetTokenAmount out) / 10 ^ decimals * of_int pricePerShare))"
    using tr ua underlyingAmount_exact [of decimals "targetTokenAmount out" pricePerShare]
    by (intro exI [of _ input] exI [of _ usd] exI [of _ decimals] exI [of _ pricePerShare])
       (simp add: underlyingAmount_def toFixed0_def)
next
  assume "directDeposit_legacy E sender token amt vault vaultContract s = (Inr out, s')"
  from directDeposit_legacy_amounts [OF this] obtain usd decimals pricePerShare where
    tr: "requests s' =
           requests s @
           [(SimulateVaultInteraction sender vault (encodeDeposit E vaultContract amt) vault
               (options s) None, RInt (targetTokenAmount out)),
            (GetNormalizedValueUsdc vault (targetTokenAmount out), RInt usd),
            (VaultDecimals vaultContract, RNat decimals),
            (VaultPricePerShare vaultContract, RInt pricePerShare)]"
    and ua: "targetUnderlyingTokenAmount out =
               underlyingAmount (targetTokenAmount out) decimals pricePerShare"
    by blast
  show "\<exists>usd decimals pricePerShare.
         requests s' =
           requests s @
           [(SimulateVaultInteraction sender vault (encodeDeposit E vaultContract amt) vault
               (options s) None, RInt (targetTokenAmount out)),
            (GetNormalizedValueUsdc vault (targetTokenAmount out), RInt usd),
            (VaultDecimals vaultContract, RNat decimals),
            (VaultPricePerShare vaultContract, RInt pricePerShare)] \<and>
         targetUnderlyingTokenAmount out =
           round_half_up (bn_round 20 (of_int (targetTokenAmount out) / 10 ^ decimals)
                            * of_int pricePerShare) \<and>
         (decimals \<le> 20 \<longrightarrow>
            targetUnderlyingTokenAmount out =
              round_half_up (of_int (targetTokenAmount out) / 10 ^ decimals * of_int pricePerShare))"
    using tr ua underlyingAmount_exact [of decimals "targetTokenAmount out" pricePerShare]
    by (intro exI [of _ usd] exI [of _ decimals] exI [of _ pricePerShare])
       (simp add: underlyingAmount_def toFixed0_def)
qed

text \<open>
  The scenario of the specification satisfies both hypotheses, and the theorem gives its
  underlying amount as the rounding of \<open>950 / 10^18 * 1.05 * 10^18 = 997.5\<close>.
\<close>

theorem directDeposit_underlying_rounds_half_up_witness:
  "directDeposit (engine sharesWorld) daiDeposit noOptions ''0xVault'' (freshState noOptions) =
     (Inr sharesOutcome, sharesState) \<and>
   directDeposit_legacy (engine sharesWorld) ''0xUser'' ''0xDai'' 1000 ''0xVault'' ''0xVault''
     (freshState noOptions) = (Inr sharesOutcome, sharesState) \<and>
   targetTokenAmount sharesOutcome = 950 \<and>
   targetUnderlyingTokenAmount sharesOutcome =
     round_half_up (950 / 10 ^ 18 * 1050000000000000000)"
proof -
  note run = shares_directDeposit
  from directDeposit_underlying_rounds_half_up
         [where E = "engine sharesWorld" and d = daiDeposit and opts = noOptions
            and vaultContract = "''0xVault''" and s = "freshState noOptions"
            and out = sharesOutcome and s' = sharesState]
       run
  obtain input usd decimals pricePerShare where
    tr: "requests sharesState =
           requests (freshState noOptions) @
           [(SimulateVaultInteraction (from_addr daiDeposit)
               (getActionableAddress (engine sharesWorld) (toVault daiDeposit)) input
               (toVault daiDeposit) noOptions None, RInt (targetTokenAmount sharesOutcome)),
            (GetNormalizedValueUsdc (toVault daiDeposit) (targetTokenAmount sharesOutcome), RInt usd),
            (VaultDecimals ''0xVault'', RNat decimals),
            (VaultPricePerShare ''0xVault'', RInt pricePerShare)]"
    and ex: "decimals \<le> 20 \<longrightarrow>
            targetUnderlyingTokenAmount sharesOutcome =
              round_half_up (of_int (targetTokenAmount sharesOutcome) / 10 ^ decimals
                               * of_int pricePerShare)"
    by blast
  from tr have "decimals = 18" "pricePerShare = 1050000000000000000"
    by (simp_all add: sharesState_def freshState_def)
  with ex have "targetUnderlyingTokenAmount sharesOutcome =
     round_half_up (950 / 10 ^ 18 * 1050000000000000000)"
    by (simp add: sharesOutcome_def)
  then show ?thesis
    using run shares_directDeposit_legacy by (simp add: sharesOutcome_def)
qed

text \<open>
  The claim as written fails on that scenario: the underlying amount is 998, neither 997
  nor the truncation of 997.5.
\<close>

theorem directDeposit_truncation_counterexample:
  "directDeposit (engine sharesWorld) daiDeposit noOptions ''0xVault'' (freshState noOptions) =
     (Inr sharesOutcome, sharesState) \<and>
   targetTokenAmount sharesOutcome = 950 \<and>
   targetUnderlyingTokenAmount sharesOutcome = 998 \<and>
   targetUnderlyingTokenAmount sharesOutcome \<noteq> 997 \<and>
   targetUnderlyingTokenAmount sharesOutcome \<noteq> \<lfloor>(950::rat) / 10 ^ 18 * 1050000000000000000\<rfloor>"
proof -
  have "\<lfloor>(950::rat) / 10 ^ 18 * 1050000000000000000\<rfloor> = 997"
    by (simp add: floor_eq_iff)
  then show ?thesis
    using shares_directDeposit by (simp add: sharesOutcome_def)
qed

subsection \<open>A routed request without a slippage tolerance\<close>






subsection \<open>The typed calls, case by case\<close>

lemma askAddress_cases:
  obtains (ok) x where "world E (requests s) r = RAddress x" "askAddress E r s = (Inr x, asked E r s)"
  | (failed) "\<forall>x. world E (requests s) r \<noteq> RAddress x"
      "askAddress E r s = (Inl (Uncaught r), asked E r s)"
  by (cases "world E (requests s) r") (auto simp: sim_defs asked_def)

lemma askInt_cases:
  obtains (ok) x where "world E (requests s) r = RInt x" "askInt E r s = (Inr x, asked E r s)"
  | (failed) "\<forall>x. world E (requests s) r \<noteq> RInt x"
      "askInt E r s = (Inl (Uncaught r), asked E r s)"
  by (cases "world E (requests s) r") (auto simp: sim_defs asked_def)

lemma askNat_cases:
  obtains (ok) x where "world E (requests s) r = RNat x" "askNat E r s = (Inr x, asked E r s)"
  | (failed) "\<forall>x. world E (requests s) r \<noteq> RNat x"
      "askNat E r s = (Inl (Uncaught r), asked E r s)"
  by (cases "world E (requests s) r") (auto simp: sim_defs asked_def)

lemma askIsApproved_cases:
  obtains (ok) x where "world E (requests s) r = RIsApproved x"
      "askIsApproved E r s = (Inr x, asked E r s)"
  | (failed) "\<forall>x. world E (requests s) r \<noteq> RIsApproved x"
      "askIsApproved E r s = (Inl (Uncaught r), asked E r s)"
  by (cases "world E (requests s) r") (auto simp: sim_defs asked_def)

lemma askApprovalTransaction_cases:
  obtains (ok) x where "world E (requests s) r = RApprovalTransaction x"
      "askApprovalTransaction E r s = (Inr x, asked E r s)"
  | (failed) "\<forall>x. world E (requests s) r \<noteq> RApprovalTransaction x"
      "askApprovalTransaction E r s = (Inl (Uncaught r), asked E r s)"
  by (cases "world E (requests s) r") (auto simp: sim_defs asked_def)

lemma askQuote_cases:
  obtains (ok) x where "world E (requests s) r = RQuote x" "askQuote E r s = (Inr x, asked E r s)"
  | (failed) "\<forall>x. world E (requests s) r \<noteq> RQuote x"
      "askQuote E r s = (Inl (Uncaught r), asked E r s)"
  by (cases "world E (requests s) r") (auto simp: sim_defs asked_def)


lemma askSimulation_cases:
  obtains (ok) x where "world E (requests s) r = RSimulation x"
      "askSimulation E r s = (Inr x, asked E r s)"
  | (failed) "\<forall>x. world E (requests s) r \<noteq> RSimulation x"
      "askSimulation E r s = (Inl (Uncaught r), asked E r s)"
  by (cases "world E (requests s) r") (auto simp: sim_defs asked_def)

lemma requests_asked [simp]:
  "requests (asked E r s) = requests s @ [(r, world E (requests s) r)]"
  "options (asked E r s) = options s"
  by (simp_all add: asked_def)

lemmas flow_defs =
  ret_def throw_def andThen_def catchThrow_def all2_def all3_def getOptions_def setOptions_def

text \<open>The three reads of \<^verbatim>\<open>getUnderlyingToken\<close> are all issued, whatever they answer.\<close>

lemma getUnderlyingToken_requests:
  "\<exists>res. getUnderlyingToken E vc s =
      (res, s\<lparr>requests := requests s @
                 [(VaultToken vc, world E (requests s) (VaultToken vc)),
                  (VaultDecimals vc,
                   world E (requests s @ [(VaultToken vc, world E (requests s) (VaultToken vc))])
                     (VaultDecimals vc)),
                  (VaultPricePerShare vc,
                   world E (requests s @ [(VaultToken vc, world E (requests s) (VaultToken vc)),
                      (VaultDecimals vc,
                       world E (requests s @ [(VaultToken vc, world E (requests s) (VaultToken vc))])
                         (VaultDecimals vc))])
                     (VaultPricePerShare vc))]\<rparr>) \<and>
     (case res of
        Inr ut \<Rightarrow> True
      | Inl e \<Rightarrow> \<not> (\<exists>x y z. world E (requests s) (VaultToken vc) = RAddress x \<and>
            world E (requests s @ [(VaultToken vc, world E (requests s) (VaultToken vc))])
                     (VaultDecimals vc) = RNat y \<and>
            world E (requests s @ [(VaultToken vc, world E (requests s) (VaultToken vc)),
                      (VaultDecimals vc,
                       world E (requests s @ [(VaultToken vc, world E (requests s) (VaultToken vc))])
                         (VaultDecimals vc))])
                     (VaultPricePerShare vc) = RInt z))"
proof -
  let ?s1 = "asked E (VaultToken vc) s"
  let ?s2 = "asked E (VaultDecimals vc) ?s1"
  let ?s3 = "asked E (VaultPricePerShare vc) ?s2"
  have st: "?s3 = s\<lparr>requests := requests s @
                 [(VaultToken vc, world E (requests s) (VaultToken vc)),
                  (VaultDecimals vc,
                   world E (requests s @ [(VaultToken vc, world E (requests s) (VaultToken vc))])
                     (VaultDecimals vc)),
                  (VaultPricePerShare vc,
                   world E (requests s @ [(VaultToken vc, world E (requests s) (VaultToken vc)),
                      (VaultDecimals vc,
                       world E (requests s @ [(VaultToken vc, world E (requests s) (VaultToken vc))])
                         (VaultDecimals vc))])
                     (VaultPricePerShare vc))]\<rparr>"
    by (simp add: asked_def)
  show ?thesis
  proof (cases rule: askAddress_cases [of E s "VaultToken vc"])
    case (ok x)
    note a = ok
    show ?thesis
    proof (cases rule: askNat_cases [of E ?s1 "VaultDecimals vc"])
      case (ok y)
      note b = ok
      show ?thesis
      proof (cases rule: askInt_cases [of E ?s2 "VaultPricePerShare vc"])
        case (ok z)
        with a b show ?thesis
          unfolding st [symmetric] by (simp add: getUnderlyingToken_def flow_defs)
      next
        case failed
        with a b show ?thesis
          unfolding st [symmetric] by (simp add: getUnderlyingToken_def flow_defs)
      qed
    next
      case failed
      note b = failed
      show ?thesis
        using a b unfolding st [symmetric]
        by (cases rule: askInt_cases [of E ?s2 "VaultPricePerShare vc"])
           (simp_all add: getUnderlyingToken_def flow_defs)
    qed
  next
    case failed
    note a = failed
    show ?thesis
      using a unfolding st [symmetric]
      by (cases rule: askNat_cases [of E ?s1 "VaultDecimals vc"];
          cases rule: askInt_cases [of E ?s2 "VaultPricePerShare vc"])
         (simp_all add: getUnderlyingToken_def flow_defs)
  qed
qed









subsection \<open>The conversion rate of a routed transfer\<close>

text \<open>
  In the current revision the rate of a routed deposit is the value of the shares
  received (from the oracle, or from the partner's spot price for a jar) divided by the
  oracle's value of the amount sold, and the slippage is 1 minus the rate; likewise for a
  routed withdraw. Nothing clamps either.
\<close>

lemma zapIn_rate:
  assumes "zapIn E d opts underlyingToken skipGasEstimate s = (Inr out, s')"
  shows "slippage out = one_minus (conversionRate out) \<and>
     (\<exists>dest src p.
        conversionRate out = bn_div dest (of_int src) \<and>
        last (requests s') =
          (GetNormalizedValueUsdc (if sellToken d = EthAddress E then WethAddress E else sellToken d)
             (amount d), RInt src) \<and>
        (getZapProtocol E (toVault d) = YEARN \<longrightarrow>
           dest = of_int p \<and>
           last (butlast (requests s')) =
             (GetNormalizedValueUsdc (toVault d) (targetTokenAmount out), RInt p)) \<and>
        (getZapProtocol E (toVault d) = PICKLE \<longrightarrow>
           dest = bn_round 20 (of_int p / 10 ^ u_decimals underlyingToken)
                    * of_int (targetTokenAmount out) \<and>
           last (butlast (requests s')) = (PickleGetPriceUsdc (toVault d), RInt p)))"
  using assms unfolding zapIn_def
  by (auto simp: sim_defs Let_def butlast_append
           split: option.splits if_splits sum.splits prod.splits ZapProtocol.splits)

lemma zapOut_rate:
  assumes "zapOut E sender toToken underlyingTokenAddress amt fromVault skipGasEstimate s = (Inr out, s')"
  shows "slippage out = one_minus (conversionRate out) \<and>
     (\<exists>src.
        conversionRate out = bn_div (of_int (targetTokenAmountUsdc out)) (of_int src) \<and>
        last (requests s') = (GetNormalizedValueUsdc fromVault amt, RInt src) \<and>
        last (butlast (requests s')) =
          (GetNormalizedValueUsdc (if toToken = EthAddress E then WethAddress E else toToken)
             (targetTokenAmount out), RInt (targetTokenAmountUsdc out)))"
  using assms unfolding zapOut_def
  by (auto simp: sim_defs Let_def butlast_append
           split: option.splits if_splits sum.splits prod.splits)

lemma bn_div_examples:
  "bn_div 1100 1000 = Fin (11 / 10)" "bn_div 2000 500 = Fin 4" "bn_div 1000 1000 = Fin 1"
  "bn_div 550 2000 = Fin (11 / 40)"
  by code_simp+

lemma underlying_examples:
  "underlyingAmount 550 18 1050000000000000000 = 578"
  "toFixed0 (bn_round 20 525) = 525"
  "toFixed0 1100 = 1100"
  by code_simp+

text \<open>A routed deposit with an approved token: 550 shares worth 1100 for 1000 Usdc worth 1000.\<close>

lemma approved_zapIn:
  "fst (zapIn (engine (routedWorld True)) usdcDeposit
          (onePercent\<lparr>opt_forkId := None, opt_save := Some False, opt_root := None\<rparr>)
          zapUnderlying False (freshState onePercent)) = Inr zapOutcome"
  by (simp add: zapIn_def Let_def sim_defs scenario_defs usdcDeposit_def zapUnderlying_def
        onePercent_def zapQuote_def zapOutcome_def bn_div_examples underlying_examples)

text \<open>
  C3 fails on the routed deposit of the first \<^verbatim>\<open>SimulationService\<close>. A deposit of 1000
  Usdc (worth 1000) that the sandbox turns into 500 shares (worth 1000) has a conversion
  rate of 1; \<^verbatim>\<open>zapIn\<close> there asks the oracle for the value of 500 units of the source token
  and of 1000 units of the vault token, and returns the rate 2000 / 500 = 4 and the
  slippage - 3.
\<close>

theorem zapIn_service_swapped_amounts:
  "zapIn_service (engine (routedWorld False)) ''0xUser'' ''0xUsdc'' ''0xDai'' 1000 ''0xVault''
     (Fin (1 / 100)) (freshState noOptions) =
     (Inr serviceOutcome, \<lparr>requests = serviceRequests, options = noOptions\<rparr>) \<and>
   targetTokenAmount serviceOutcome = 500 \<and>
   routedWorld False [] (GetNormalizedValueUsdc ''0xVault'' 500) = RInt 1000 \<and>
   routedWorld False [] (GetNormalizedValueUsdc ''0xUsdc'' 1000) = RInt 1000 \<and>
   bn_div 1000 1000 = Fin 1 \<and>
   conversionRate serviceOutcome = Fin 4 \<and>
   slippage serviceOutcome = Fin (- 3)"
  by (simp add: zapIn_service_def Let_def sim_defs scenario_defs zapQuote_def serviceOutcome_def
        serviceRequests_def bn_div_examples underlying_examples)

subsection \<open>The approval step\<close>

text \<open>
  C5 fails on \<^verbatim>\<open>deposit\<close>. In the routed deposit below the token is not approved:
  \<^verbatim>\<open>getZapperZapInApprovalData\<close> creates the sandbox \<open>fork-1\<close> and then simulates the
  approval with \<^verbatim>\<open>save: true\<close> and the caller's options, whose \<^verbatim>\<open>forkId\<close> is undefined: the
  approval is not simulated in the sandbox in which the primary call then runs with
  \<^verbatim>\<open>root\<close> \<open>sim-1\<close> and \<^verbatim>\<open>forkId\<close> \<open>fork-1\<close>.
\<close>

theorem deposit_approval_outside_sandbox:
  "deposit (engine (routedWorld False)) ''0xUser'' ''0xUsdc'' 1000 ''0xVault'' (freshState onePercent) =
     (Inr zapOutcome, \<lparr>requests = unapprovedDepositRequests, options = onePercent\<rparr>) \<and>
   unapprovedDepositRequests ! 6 = (CreateFork, RForkId ''fork-1'') \<and>
   unapprovedDepositRequests ! 8 =
     (MakeSimulationRequest ''0xUser'' ''0xUsdc'' ''approve''
        \<lparr>opt_slippage = Some (Fin (1 / 100)), opt_root = None, opt_forkId = None,
           opt_gasPrice = None, opt_gasLimit = None, opt_save = Some True\<rparr> None,
      RSimulation approvalSim) \<and>
   unapprovedDepositRequests ! 10 =
     (SimulateVaultInteraction ''0xUser'' ''0xZap'' ''zap'' ''0xVault''
        \<lparr>opt_slippage = Some (Fin (1 / 100)), opt_root = Some ''sim-1'', opt_forkId = Some ''fork-1'',
           opt_gasPrice = Some ''5'', opt_gasLimit = None, opt_save = Some False\<rparr> (Some 0),
      RInt 550)"
  by (simp add: deposit_def handleZapInSimulationDeposit_def getUnderlyingToken_def
        getZapperZapInSimulationArgs_def getZapperZapInApprovalData_def
        executeSimulationWithReSimulationOnFailure_def zapIn_def
        getZapInDetails_def isValidZap_def zapVault_def zapToken_def
        Let_def sim_defs scenario_defs usdcDeposit_def zapUnderlying_def approvalSim_def approvalTx_def
        onePercent_def zapQuote_def zapOutcome_def bn_div_examples underlying_examples
        unapprovedDepositRequests_def)

text \<open>
  In the direct deposit of the same revision \<^verbatim>\<open>approve\<close> hands the encoder the promise of
  the spender's address, not the address. With an encoder that takes addresses only, the
  deposit of an unapproved token stops there, after the allowance read and before any
  simulation.
\<close>

lemma direct_deposit_approval_not_encoded:
  "handleDirectSimulationDeposit (engine unapprovedWorld) daiDeposit ''0xVault'' (freshState noOptions) =
     (Inl (Thrown ''encodeFunctionData''),
      \<lparr>requests = [(AllowanceOf ''0xDai'' ''0xUser'' ''0xVault'', RInt 0)], options = noOptions\<rparr>)"
  by (simp add: handleDirectSimulationDeposit_def getApprovalData_def depositNeedsApproving_def
        approve_def getActionableAddress_def unapprovedWorld_def Let_def sim_defs scenario_defs)

text \<open>
  \<^verbatim>\<open>withdraw\<close> writes the sandbox to the caller's options before it copies them for the
  approval simulation: there the approval runs in the sandbox of the primary call.
\<close>

lemma withdraw_approval_in_sandbox:
  "requests (snd (withdraw (engine (routedWorld False)) ''0xUser'' ''0xVault'' 1000 ''0xUsdc''
                    (freshState onePercent))) = unapprovedWithdrawRequests"
  by (simp add: withdraw_def zapOut_def executeSimulationWithReSimulationOnFailure_def
        Let_def sim_defs scenario_defs approvalSim_def approvalTx_def
        onePercent_def zapQuote_def bn_div_examples unapprovedWithdrawRequests_def)

subsection \<open>The retry\<close>

lemma executeSimulation_first_success:
  "simulate False forkId s = (Inr out, s1) \<Longrightarrow>
   executeSimulationWithReSimulationOnFailure E simulate forkId s = (Inr out, s1)"
  by (simp add: executeSimulationWithReSimulationOnFailure_def)










text \<open>
  The closures that the engine passes do not read the sandbox of the attempt. In the
  direct deposit below the backend rejects every simulation: the wrapper allocates
  \<open>fork-1\<close>, and the request of the second attempt is that of the first, with the
  \<^verbatim>\<open>forkId\<close> that the closure holds.
\<close>

lemma broken_direct_deposit:
  "handleDirectSimulationDeposit (engine brokenWorld) daiDeposit ''0xVault'' (freshState noOptions) =
     (Inl (Uncaught (depositRequest None)),
      \<lparr>requests =
         [(AllowanceOf ''0xDai'' ''0xUser'' ''0xVault'', RInt 5000),
          (depositRequest None, Rejected),
          (CreateFork, RForkId ''fork-1''),
          (depositRequest None, Rejected)],
       options = noOptions\<rparr>)"
  by (simp add: handleDirectSimulationDeposit_def getApprovalData_def depositNeedsApproving_def
        executeSimulationWithReSimulationOnFailure_def directDeposit_def brokenWorld_def
        depositRequest_def sim_defs scenario_defs)

subsection \<open>The attempts of a routed transfer\<close>

lemma zapOut_attempt:
  assumes "zapOut E sender toToken u amt fromVault skip t = (r, t')"
    and "opt_save (options t) = Some False"
  shows "\<exists>ns. requests t' = requests t @ ns \<and>
     routedAttempt skip (opt_gasLimit (options t)) ns \<and>
     options t' = gasLimitAfter skip ns (options t) \<and>
     (\<forall>out. r = Inr out \<longrightarrow> (\<exists>rq q rest. ns = (rq, RQuote q) # rest))"
  using assms unfolding zapOut_def
  by (auto simp: sim_defs Let_def
           split: option.splits if_splits sum.splits prod.splits)

lemma zapIn_attempt:
  assumes "zapIn E d opts u skip t = (r, t')"
    and "opt_save opts = Some False"
  shows "options t' = options t \<and>
     (\<exists>ns. requests t' = requests t @ ns \<and> routedAttempt skip (opt_gasLimit opts) ns)"
  using assms unfolding zapIn_def
  by (auto simp: sim_defs Let_def
           split: option.splits if_splits sum.splits prod.splits ZapProtocol.splits)

text \<open>The options after an attempt of the earlier \<^verbatim>\<open>zapIn\<close>: the gas price and the gas
  limit may have been written.\<close>

lemma zapIn_legacy_attempt:
  assumes "zapIn_legacy E sender token u amt vault vc zp skip t = (r, t')"
    and "opt_save (options t) = Some False"
  shows "\<exists>ns. requests t' = requests t @ ns \<and>
     routedAttempt skip (opt_gasLimit (options t)) ns \<and>
     opt_forkId (options t') = opt_forkId (options t) \<and>
     opt_root (options t') = opt_root (options t) \<and>
     opt_save (options t') = opt_save (options t) \<and>
     opt_slippage (options t') = opt_slippage (options t) \<and>
     (skip \<longrightarrow> opt_gasLimit (options t') = opt_gasLimit (options t)) \<and>
     (\<not> str_falsy (opt_gasPrice (options t)) \<longrightarrow>
        opt_gasPrice (options t') = opt_gasPrice (options t)) \<and>
     (\<forall>out. r = Inr out \<longrightarrow>
        (\<exists>rq q rest. ns = (rq, RQuote q) # rest \<and>
           opt_gasPrice (options t') =
             (if str_falsy (opt_gasPrice (options t)) then Some (q_gasPrice q)
              else opt_gasPrice (options t)) \<and>
           (\<not> skip \<longrightarrow> opt_gasLimit (options t') = Some (q_gas q))))"
  using assms unfolding zapIn_legacy_def
  by (auto simp: sim_defs Let_def
           split: option.splits if_splits sum.splits prod.splits ZapProtocol.splits)

lemma routedAttempt_gasLimit:
  "\<not> skip \<Longrightarrow> routedAttempt skip gl ns = routedAttempt skip gl' ns"
  by (cases ns) (auto split: option.splits list.splits)

lemma gasLimitAfter_fields [simp]:
  "opt_forkId (gasLimitAfter skip ns opts) = opt_forkId opts"
  "opt_root (gasLimitAfter skip ns opts) = opt_root opts"
  "opt_save (gasLimitAfter skip ns opts) = opt_save opts"
  "opt_slippage (gasLimitAfter skip ns opts) = opt_slippage opts"
  "opt_gasPrice (gasLimitAfter skip ns opts) = opt_gasPrice opts"
  "gasLimitAfter True ns opts = opts"
  by (cases ns; auto split: option.splits)+

lemma executeSimulation_cases:
  assumes "executeSimulationWithReSimulationOnFailure E (\<lambda>save sandbox. simulate save) forkId s = (r, s')"
  obtains (first) out where "simulate False s = (Inr out, s')" "r = Inr out"
  | (unforked) e s1 e' where "simulate False s = (Inl e, s1)" "createFork E s1 = (Inl e', s')"
      "r = Inl e'"
  | (second) e s1 f s2 where "simulate False s = (Inl e, s1)" "createFork E s1 = (Inr f, s2)"
      "simulate False s2 = (r, s')"
  using assms unfolding executeSimulationWithReSimulationOnFailure_def
  by (auto split: prod.splits sum.splits)

lemma createFork_step:
  assumes "createFork E s = (r, s')"
  shows "requests s' = requests s @ [(CreateFork, world E (requests s) CreateFork)]"
    and "options s' = options s"
    and "\<And>e. r = Inl e \<Longrightarrow> forkIdOf (world E (requests s) CreateFork) = None"
  using assms by (auto simp: createFork_def sim_defs split: option.splits)

text \<open>
  The attempts of a producer that each time appends one attempt to the trace, keeps
  the untouched gas limit when gas estimation is skipped, and preserves a property of
  the options that the requests do not affect.
\<close>

lemma retried_attempts:
  assumes run: "executeSimulationWithReSimulationOnFailure E (\<lambda>save sandbox. simulate save) forkId s = (r, s')"
    and step: "\<And>t r' t'. simulate False t = (r', t') \<Longrightarrow> I (options t) \<Longrightarrow>
        (\<exists>ns. requests t' = requests t @ ns \<and> routedAttempt skip (opt_gasLimit (options t)) ns) \<and>
        I (options t') \<and> (skip \<longrightarrow> opt_gasLimit (options t') = opt_gasLimit (options t)) \<and>
        (\<forall>out. r' = Inr out \<longrightarrow> Q out t t')"
    and init: "I (options s)"
  shows "(\<exists>ns. requests s' = requests s @ ns \<and> retriedAttempts skip (opt_gasLimit (options s)) ns) \<and>
     I (options s') \<and>
     (\<forall>out. r = Inr out \<longrightarrow> (\<exists>t. I (options t) \<and> Q out t s' \<and>
         (\<exists>ms ns. requests t = requests s @ ms \<and> requests s' = requests t @ ns)))"
  using run
proof (cases rule: executeSimulation_cases)
  case (first out)
  from step [OF first(1) init] first(2) init show ?thesis
    by (auto simp: retriedAttempts_def intro!: exI [of _ s])
next
  case (unforked e s1 e')
  from step [OF unforked(1) init] obtain n1 where
    n1: "requests s1 = requests s @ n1" "routedAttempt skip (opt_gasLimit (options s)) n1"
    and i1: "I (options s1)"
    by auto
  let ?a = "world E (requests s1) CreateFork"
  from createFork_step [OF unforked(2)] unforked(3) have
    f: "requests s' = requests s1 @ [(CreateFork, ?a)]" and o: "options s' = options s1"
    and none: "forkIdOf ?a = None"
    by simp_all
  have "\<exists>m1 a m2. n1 @ [(CreateFork, ?a)] = m1 @ (CreateFork, a) # m2 \<and>
          routedAttempt skip (opt_gasLimit (options s)) m1 \<and>
          (forkIdOf a = None \<longrightarrow> m2 = []) \<and> routedAttempt skip (opt_gasLimit (options s)) m2"
    using n1(2) by (intro exI [of _ n1] exI [of _ ?a] exI [of _ "[]"]) simp
  then have "retriedAttempts skip (opt_gasLimit (options s)) (n1 @ [(CreateFork, ?a)])"
    by (simp add: retriedAttempts_def)
  with f n1(1) o i1 unforked(3) show ?thesis
    by auto
next
  case (second e s1 f s2)
  from step [OF second(1) init] obtain n1 where
    n1: "requests s1 = requests s @ n1" "routedAttempt skip (opt_gasLimit (options s)) n1"
    and i1: "I (options s1)"
    and g1: "skip \<longrightarrow> opt_gasLimit (options s1) = opt_gasLimit (options s)"
    by auto
  from createFork_step [OF second(2)] have
    f2: "requests s2 = requests s1 @ [(CreateFork, world E (requests s1) CreateFork)]"
    and o2: "options s2 = options s1"
    by simp_all
  from i1 o2 have i2: "I (options s2)" by simp
  from step [OF second(3) i2] obtain n2 where
    n2: "requests s' = requests s2 @ n2" "routedAttempt skip (opt_gasLimit (options s2)) n2"
    and i': "I (options s')"
    and q: "\<forall>out. r = Inr out \<longrightarrow> Q out s2 s'"
    by auto
  have "routedAttempt skip (opt_gasLimit (options s)) n2"
  proof (cases skip)
    case True
    with g1 o2 n2(2) show ?thesis by simp
  next
    case False
    with n2(2) routedAttempt_gasLimit [of skip "opt_gasLimit (options s2)" n2 "opt_gasLimit (options s)"]
    show ?thesis by simp
  qed
  then have "\<exists>m1 a m2. n1 @ (CreateFork, world E (requests s1) CreateFork) # n2 = m1 @ (CreateFork, a) # m2 \<and>
          routedAttempt skip (opt_gasLimit (options s)) m1 \<and>
          (forkIdOf a = None \<longrightarrow> m2 = []) \<and> routedAttempt skip (opt_gasLimit (options s)) m2"
    using n1(2) second(2)
    by (intro exI [of _ n1] exI [of _ "world E (requests s1) CreateFork"] exI [of _ n2])
       (auto simp: createFork_def sim_defs split: option.splits)
  then have "retriedAttempts skip (opt_gasLimit (options s))
               (n1 @ (CreateFork, world E (requests s1) CreateFork) # n2)"
    by (simp add: retriedAttempts_def)
  with n1 n2 f2 have "requests s' = requests s @ (n1 @ (CreateFork, world E (requests s1) CreateFork) # n2) \<and>
      retriedAttempts skip (opt_gasLimit (options s)) (n1 @ (CreateFork, world E (requests s1) CreateFork) # n2)"
    by simp
  moreover have "\<forall>out. r = Inr out \<longrightarrow> (\<exists>t. I (options t) \<and> Q out t s' \<and>
         (\<exists>ms ns. requests t = requests s @ ms \<and> requests s' = requests t @ ns))"
    using q i2 n1 n2 f2 by (auto intro!: exI [of _ s2])
  ultimately show ?thesis using i' by blast
qed

subsection \<open>A routed withdraw, step by step\<close>

lemma andThen_assoc: "andThen (andThen m f) g = andThen m (\<lambda>x. andThen (f x) g)"
  by (rule ext) (simp add: andThen_def split: prod.splits sum.splits)

lemma andThen_ret [simp]: "andThen (ret x) f = f x"
  by (rule ext) (simp add: andThen_def ret_def)

lemma newRequests_append: "requests s' = requests s @ ns \<Longrightarrow> newRequests s s' = ns"
  by (simp add: newRequests_def)

lemma andThen_askAddress:
  "world E (requests s) r = RAddress x \<Longrightarrow> andThen (askAddress E r) f s = f x (asked E r s)"
  by (simp add: sim_defs asked_def)

lemma andThen_getOptions: "andThen getOptions f s = f (options s) s"
  by (simp add: andThen_def getOptions_def)

lemma withdraw_routed_unfold:
  assumes "world E (requests s) (VaultToken fromVault) = RAddress u"
    and "getAddress E toToken = Some t" and "u \<noteq> t"
    and "opt_slippage (options s) = Some tolerance" and "\<not> num_falsy tolerance"
  shows "withdraw E sender fromVault amt toToken s =
     andThen (withdrawApproval E sender fromVault)
       (\<lambda>(needsApproving, forkId, approvalSimulationId).
          executeSimulationWithReSimulationOnFailure E
            (\<lambda>save sandbox.
               andThen (setOptions (\<lambda>obj. obj\<lparr>opt_save := Some save\<rparr>))
                 (\<lambda>_. zapOut E sender toToken u amt fromVault needsApproving))
            forkId)
       (asked E (VaultToken fromVault) s)"
  using assms
  by (simp add: withdraw_def Let_def andThen_askAddress andThen_getOptions
        withdrawApproval_def andThen_assoc)

lemma withdrawApproval_steps:
  assumes "withdrawApproval E sender fromVault s = (r, s1)"
  shows "\<exists>steps. requests s1 = requests s @ steps \<and> list_all isApprovalStep steps \<and>
     (fromVault = EthAddress E \<longrightarrow> steps = []) \<and>
     opt_slippage (options s1) = opt_slippage (options s) \<and>
     opt_gasPrice (options s1) = opt_gasPrice (options s) \<and>
     opt_gasLimit (options s1) = opt_gasLimit (options s) \<and>
     (\<forall>needs fk i. r = Inr (needs, fk, i) \<longrightarrow>
        needs = approvalSimulated steps \<and> fk = sandboxOf steps \<and> i = approvalIdOf steps \<and>
        (needs \<longleftrightarrow> fk \<noteq> None) \<and> (needs \<longleftrightarrow> i \<noteq> None) \<and>
        opt_forkId (options s1) = fk \<and> opt_root (options s1) = i \<and>
        opt_save (options s1) = opt_save (options s))"
  using assms unfolding withdrawApproval_def
  by (auto simp: sim_defs approvalSimulated_def
           split: option.splits if_splits sum.splits prod.splits)

lemma withdraw_attempts:
  assumes w: "executeSimulationWithReSimulationOnFailure E
            (\<lambda>save sandbox.
               andThen (setOptions (\<lambda>obj. obj\<lparr>opt_save := Some save\<rparr>))
                 (\<lambda>_. zapOut E sender toToken u amt fromVault skip))
            forkId s1 = (r, s')"
  shows "(\<exists>ns. requests s' = requests s1 @ ns \<and>
           retriedAttempts skip (opt_gasLimit (options s1)) ns \<and>
           (\<forall>out. r = Inr out \<longrightarrow> \<not> skip \<longrightarrow>
              (\<exists>rq q. (rq, RQuote q) \<in> set ns \<and> opt_gasLimit (options s') = Some (q_gas q)))) \<and>
     opt_forkId (options s') = opt_forkId (options s1) \<and>
     opt_root (options s') = opt_root (options s1) \<and>
     opt_slippage (options s') = opt_slippage (options s1) \<and>
     opt_gasPrice (options s') = opt_gasPrice (options s1) \<and>
     (skip \<longrightarrow> opt_gasLimit (options s') = opt_gasLimit (options s1)) \<and>
     (\<forall>out. r = Inr out \<longrightarrow> opt_save (options s') = Some False)"
proof -
  define I where "I = (\<lambda>opts :: SimulationOptions. opt_forkId opts = opt_forkId (options s1) \<and>
      opt_root opts = opt_root (options s1) \<and> opt_slippage opts = opt_slippage (options s1) \<and>
      opt_gasPrice opts = opt_gasPrice (options s1) \<and>
      (skip \<longrightarrow> opt_gasLimit opts = opt_gasLimit (options s1)))"
  define Q where "Q = (\<lambda>(out :: TransactionOutcome) (t :: state) (t' :: state). opt_save (options t') = Some False \<and>
      (\<not> skip \<longrightarrow> (\<exists>rq q rest. requests t' = requests t @ (rq, RQuote q) # rest \<and>
                                opt_gasLimit (options t') = Some (q_gas q))))"
  have step: "(\<exists>ns. requests t' = requests t @ ns \<and> routedAttempt skip (opt_gasLimit (options t)) ns) \<and>
        I (options t') \<and> (skip \<longrightarrow> opt_gasLimit (options t') = opt_gasLimit (options t)) \<and>
        (\<forall>out. r' = Inr out \<longrightarrow> Q out t t')"
    if run: "andThen (setOptions (\<lambda>obj. obj\<lparr>opt_save := Some False\<rparr>))
                  (\<lambda>_. zapOut E sender toToken u amt fromVault skip) t = (r', t')"
      and inv: "I (options t)" for t r' t'
  proof -
    let ?t0 = "t\<lparr>options := (options t)\<lparr>opt_save := Some False\<rparr>\<rparr>"
    from run have z: "zapOut E sender toToken u amt fromVault skip ?t0 = (r', t')"
      by (simp add: andThen_def setOptions_def)
    from zapOut_attempt [OF z] obtain ns where
      ns: "requests t' = requests t @ ns" "routedAttempt skip (opt_gasLimit (options t)) ns"
      and o: "options t' = gasLimitAfter skip ns ((options t)\<lparr>opt_save := Some False\<rparr>)"
      and q: "\<forall>out. r' = Inr out \<longrightarrow> (\<exists>rq q rest. ns = (rq, RQuote q) # rest)"
      by auto
    have g: "skip \<longrightarrow> opt_gasLimit (options t') = opt_gasLimit (options t)"
      by (simp add: o)
    have "I (options t')"
      using inv g by (simp add: I_def o)
    moreover have "Q out t t'" if "r' = Inr out" for out
    proof -
      from q that obtain rq q' rest where "ns = (rq, RQuote q') # rest" by blast
      with ns o show ?thesis by (auto simp: Q_def)
    qed
    ultimately show ?thesis using ns g by blast
  qed
  have init: "I (options s1)" by (simp add: I_def)
  from retried_attempts [where I = I and Q = Q and skip = skip, OF w step init]
  have a: "\<exists>ns. requests s' = requests s1 @ ns \<and> retriedAttempts skip (opt_gasLimit (options s1)) ns"
    and i: "I (options s')"
    and q: "\<forall>out. r = Inr out \<longrightarrow> (\<exists>t. I (options t) \<and> Q out t s' \<and>
         (\<exists>ms ns. requests t = requests s1 @ ms \<and> requests s' = requests t @ ns))"
    by blast+
  from a obtain ns where ns: "requests s' = requests s1 @ ns"
    "retriedAttempts skip (opt_gasLimit (options s1)) ns" by blast
  have "\<exists>rq q. (rq, RQuote q) \<in> set ns \<and> opt_gasLimit (options s') = Some (q_gas q)"
    if "r = Inr out" "\<not> skip" for out
  proof -
    from q that obtain t where t: "Q out t s'"
      "\<exists>ms ns. requests t = requests s1 @ ms \<and> requests s' = requests t @ ns"
      by auto
    then obtain ms where "requests t = requests s1 @ ms" by auto
    moreover from t(1) that obtain rq q' rest where
      "requests s' = requests t @ (rq, RQuote q') # rest"
      "opt_gasLimit (options s') = Some (q_gas q')"
      unfolding Q_def by auto
    ultimately have "requests t = requests s1 @ ms"
      "requests s' = requests t @ (rq, RQuote q') # rest"
      "opt_gasLimit (options s') = Some (q_gas q')"
      by simp_all
    with ns(1) have "ns = ms @ (rq, RQuote q') # rest" by simp
    with \<open>opt_gasLimit (options s') = Some (q_gas q')\<close> show ?thesis by auto
  qed
  moreover have "opt_save (options s') = Some False" if "r = Inr out" for out
    using q that by (auto simp: Q_def)
  ultimately show ?thesis
    using ns i by (auto simp: I_def)
qed

text \<open>
  The requests of a routed \<^verbatim>\<open>withdraw\<close> with a slippage tolerance: the read of the
  vault's token, the approval steps, and the attempts of the wrapper, whose quotes skip
  the gas estimate exactly when the approval was simulated. After a successful run the
  caller's options hold the sandbox and the approval id of the steps and \<^verbatim>\<open>save = false\<close>.
\<close>

lemma withdraw_routed_run:
  assumes run: "withdraw E sender fromVault amt toToken s = (r, s')"
    and routed: "world E (requests s) (VaultToken fromVault) = RAddress u"
      "getAddress E toToken = Some t" "u \<noteq> t"
    and tol: "opt_slippage (options s) = Some tolerance" "\<not> num_falsy tolerance"
  shows "\<exists>steps ns.
     requests s' = requests s @ (VaultToken fromVault, RAddress u) # steps @ ns \<and>
     list_all isApprovalStep steps \<and>
     (fromVault = EthAddress E \<longrightarrow> steps = []) \<and>
     retriedAttempts (approvalSimulated steps) (opt_gasLimit (options s)) ns \<and>
     (\<forall>out. r = Inr out \<longrightarrow>
        opt_forkId (options s') = sandboxOf steps \<and>
        opt_root (options s') = approvalIdOf steps \<and>
        opt_save (options s') = Some False \<and>
        opt_slippage (options s') = opt_slippage (options s) \<and>
        opt_gasPrice (options s') = opt_gasPrice (options s) \<and>
        (approvalSimulated steps \<longleftrightarrow> sandboxOf steps \<noteq> None) \<and>
        (approvalSimulated steps \<longleftrightarrow> approvalIdOf steps \<noteq> None) \<and>
        (approvalSimulated steps \<longrightarrow> opt_gasLimit (options s') = opt_gasLimit (options s)) \<and>
        (\<not> approvalSimulated steps \<longrightarrow>
           (\<exists>rq q. (rq, RQuote q) \<in> set ns \<and> opt_gasLimit (options s') = Some (q_gas q))))"
proof -
  let ?s0 = "asked E (VaultToken fromVault) s"
  note unfold = withdraw_routed_unfold [OF routed tol, of sender amt]
  obtain r1 s1 where stage: "withdrawApproval E sender fromVault ?s0 = (r1, s1)"
    by (cases "withdrawApproval E sender fromVault ?s0")
  from withdrawApproval_steps [OF stage] obtain steps where
    st: "requests s1 = requests ?s0 @ steps" "list_all isApprovalStep steps"
      "fromVault = EthAddress E \<longrightarrow> steps = []"
    and keep: "opt_slippage (options s1) = opt_slippage (options s)"
      "opt_gasPrice (options s1) = opt_gasPrice (options s)"
      "opt_gasLimit (options s1) = opt_gasLimit (options s)"
    and res: "\<forall>needs fk i. r1 = Inr (needs, fk, i) \<longrightarrow>
        needs = approvalSimulated steps \<and> fk = sandboxOf steps \<and> i = approvalIdOf steps \<and>
        (needs \<longleftrightarrow> fk \<noteq> None) \<and> (needs \<longleftrightarrow> i \<noteq> None) \<and>
        opt_forkId (options s1) = fk \<and> opt_root (options s1) = i \<and>
        opt_save (options s1) = opt_save (options s)"
    by auto
  have req1: "requests s1 = requests s @ (VaultToken fromVault, RAddress u) # steps"
    using st(1) routed(1) by simp
  show ?thesis
  proof (cases r1)
    case (Inl e)
    with run stage have "r = Inl e" "s' = s1"
      by (simp_all add: unfold andThen_def)
    with req1 st show ?thesis
      by (intro exI [of _ steps] exI [of _ "[]"]) (simp add: retriedAttempts_def)
  next
    case (Inr x)
    obtain needs fk i where x: "x = (needs, fk, i)" by (cases x)
    with Inr res have n: "needs = approvalSimulated steps" "fk = sandboxOf steps"
      "i = approvalIdOf steps" "needs \<longleftrightarrow> fk \<noteq> None" "needs \<longleftrightarrow> i \<noteq> None"
      and o1: "opt_forkId (options s1) = fk" "opt_root (options s1) = i"
      by auto
    from run stage Inr x have w: "executeSimulationWithReSimulationOnFailure E
            (\<lambda>save sandbox.
               andThen (setOptions (\<lambda>obj. obj\<lparr>opt_save := Some save\<rparr>))
                 (\<lambda>_. zapOut E sender toToken u amt fromVault needs))
            fk s1 = (r, s')"
      by (simp add: unfold andThen_def)
    from withdraw_attempts [OF w] obtain ns where
      ns: "requests s' = requests s1 @ ns"
        "retriedAttempts needs (opt_gasLimit (options s1)) ns"
      and gl: "\<forall>out. r = Inr out \<longrightarrow> \<not> needs \<longrightarrow>
              (\<exists>rq q. (rq, RQuote q) \<in> set ns \<and> opt_gasLimit (options s') = Some (q_gas q))"
      and o': "opt_forkId (options s') = opt_forkId (options s1)"
        "opt_root (options s') = opt_root (options s1)"
        "opt_slippage (options s') = opt_slippage (options s1)"
        "opt_gasPrice (options s') = opt_gasPrice (options s1)"
        "needs \<longrightarrow> opt_gasLimit (options s') = opt_gasLimit (options s1)"
        "\<forall>out. r = Inr out \<longrightarrow> opt_save (options s') = Some False"
      by blast
    show ?thesis
      using req1 st ns gl o' o1 keep n
      by (intro exI [of _ steps] exI [of _ ns]) auto
  qed
qed

subsection \<open>A routed deposit, step by step\<close>

lemma getZapperZapInApprovalData_steps:
  assumes "getZapperZapInApprovalData E d s = (r, s1)"
  shows "options s1 = options s \<and>
     (\<exists>steps. requests s1 = requests s @ steps \<and> list_all isApprovalStep steps \<and>
        (isEthereum E \<and> sellToken d = EthAddress E \<longrightarrow> steps = [] \<and> r = Inr (False, None, None)) \<and>
        (\<forall>needs i fk. r = Inr (needs, i, fk) \<longrightarrow>
           needs = approvalSimulated steps \<and> fk = sandboxOf steps \<and> i = approvalIdOf steps \<and>
           (needs \<longleftrightarrow> fk \<noteq> None) \<and> (needs \<longleftrightarrow> i \<noteq> None)))"
  using assms unfolding getZapperZapInApprovalData_def
  by (auto simp: sim_defs Let_def approvalSimulated_def
           split: option.splits if_splits sum.splits prod.splits)

lemma getZapperZapInSimulationArgs_unfold:
  assumes "isEthereum E" and "opt_slippage (options s) = Some tolerance" and "\<not> num_falsy tolerance"
  shows "getZapperZapInSimulationArgs E d underlyingToken s =
     andThen (getZapperZapInApprovalData E d)
       (\<lambda>(needsApproving, approvalTransactionId, forkId).
          ret (\<lambda>save.
                 andThen getOptions
                   (\<lambda>opts'.
                 zapIn E d
                   (opts'\<lparr>opt_forkId := forkId, opt_save := Some save, opt_root := approvalTransactionId\<rparr>)
                   underlyingToken needsApproving),
               forkId)) s"
  using assms by (simp add: getZapperZapInSimulationArgs_def andThen_getOptions)

lemma deposit_attempts:
  assumes w: "executeSimulationWithReSimulationOnFailure E
            (\<lambda>save sandbox.
               andThen getOptions
                 (\<lambda>opts'.
               zapIn E d (opts'\<lparr>opt_forkId := fk, opt_save := Some save, opt_root := i\<rparr>) u skip))
            forkId s1 = (r, s')"
  shows "(\<exists>ns. requests s' = requests s1 @ ns \<and>
           retriedAttempts skip (opt_gasLimit (options s1)) ns) \<and>
     options s' = options s1"
proof -
  define I where "I = (\<lambda>opts :: SimulationOptions. opts = options s1)"
  define Q where "Q = (\<lambda>(out :: TransactionOutcome) (t :: state) (t' :: state). True)"
  have step: "(\<exists>ns. requests t' = requests t @ ns \<and> routedAttempt skip (opt_gasLimit (options t)) ns) \<and>
        I (options t') \<and> (skip \<longrightarrow> opt_gasLimit (options t') = opt_gasLimit (options t)) \<and>
        (\<forall>out. r' = Inr out \<longrightarrow> Q out t t')"
    if run: "andThen getOptions
                 (\<lambda>opts'.
               zapIn E d (opts'\<lparr>opt_forkId := fk, opt_save := Some False, opt_root := i\<rparr>) u skip) t
              = (r', t')"
      and inv: "I (options t)" for t r' t'
  proof -
    from run have z: "zapIn E d ((options t)\<lparr>opt_forkId := fk, opt_save := Some False, opt_root := i\<rparr>)
                        u skip t = (r', t')"
      by (simp add: andThen_getOptions)
    from zapIn_attempt [OF z] inv show ?thesis
      by (auto simp: I_def Q_def)
  qed
  have init: "I (options s1)" by (simp add: I_def)
  from retried_attempts [where I = I and Q = Q and skip = skip, OF w step init]
  show ?thesis by (auto simp: I_def)
qed

text \<open>
  The requests of the routed branch of \<^verbatim>\<open>deposit\<close> on Ethereum with a slippage
  tolerance: the three reads of the vault, the approval steps, and the attempts of the
  wrapper. The caller's options are not written.
\<close>

lemma deposit_routed_run:
  assumes run: "handleZapInSimulationDeposit E ''zapperZapIn'' vc d s = (r, s')"
    and eth: "isEthereum E"
    and tol: "opt_slippage (options s) = Some tolerance" "\<not> num_falsy tolerance"
  shows "\<exists>a1 a2 a3 steps ns.
     requests s' =
       requests s @ [(VaultToken vc, a1), (VaultDecimals vc, a2), (VaultPricePerShare vc, a3)]
         @ steps @ ns \<and>
     list_all isApprovalStep steps \<and>
     (sellToken d = EthAddress E \<longrightarrow> steps = []) \<and>
     retriedAttempts (approvalSimulated steps) (opt_gasLimit (options s)) ns \<and>
     options s' = options s"
proof -
  from getUnderlyingToken_requests [of E vc s] obtain res a1 a2 a3 where
    g: "getUnderlyingToken E vc s =
          (res, s\<lparr>requests := requests s @
                     [(VaultToken vc, a1), (VaultDecimals vc, a2), (VaultPricePerShare vc, a3)]\<rparr>)"
    by blast
  let ?s0 = "s\<lparr>requests := requests s @
                     [(VaultToken vc, a1), (VaultDecimals vc, a2), (VaultPricePerShare vc, a3)]\<rparr>"
  have h: "handleZapInSimulationDeposit E ''zapperZapIn'' vc d s =
      (case res of
         Inl e \<Rightarrow> (Inl e, ?s0)
       | Inr ut \<Rightarrow>
           andThen (getZapperZapInSimulationArgs E d ut)
             (\<lambda>(simulateFn, forkId).
                executeSimulationWithReSimulationOnFailure E (\<lambda>save sandbox. simulateFn save) forkId) ?s0)"
    by (simp add: handleZapInSimulationDeposit_def andThen_def [of "getUnderlyingToken E vc"] g
             split: sum.splits)
  show ?thesis
  proof (cases res)
    case (Inl e)
    with run h have "r = Inl e" "s' = ?s0" by simp_all
    then show ?thesis
      by (intro exI [of _ a1] exI [of _ a2] exI [of _ a3] exI [of _ "[]"])
         (simp add: retriedAttempts_def)
  next
    case (Inr ut)
    have tol0: "opt_slippage (options ?s0) = Some tolerance" using tol by simp
    note unfold = getZapperZapInSimulationArgs_unfold [OF eth tol0 tol(2), of d ut]
    obtain r1 s1 where stage: "getZapperZapInApprovalData E d ?s0 = (r1, s1)"
      by (cases "getZapperZapInApprovalData E d ?s0")
    from getZapperZapInApprovalData_steps [OF stage] obtain steps where
      o1: "options s1 = options s"
      and st: "requests s1 = requests ?s0 @ steps" "list_all isApprovalStep steps"
        "isEthereum E \<and> sellToken d = EthAddress E \<longrightarrow> steps = []"
      and res: "\<forall>needs i fk. r1 = Inr (needs, i, fk) \<longrightarrow>
           needs = approvalSimulated steps \<and> fk = sandboxOf steps \<and> i = approvalIdOf steps"
      by auto
    show ?thesis
    proof (cases r1)
      case (Inl e)
      with run h Inr stage have "r = Inl e" "s' = s1"
        by (simp_all add: unfold andThen_def)
      with st o1 eth show ?thesis
        by (intro exI [of _ a1] exI [of _ a2] exI [of _ a3] exI [of _ steps] exI [of _ "[]"])
           (simp add: retriedAttempts_def)
    next
      case (Inr x)
      obtain needs i fk where x: "x = (needs, i, fk)" by (cases x)
      with Inr res have n: "needs = approvalSimulated steps" by auto
      from run h \<open>res = Inr ut\<close> stage Inr x have w: "executeSimulationWithReSimulationOnFailure E
            (\<lambda>save sandbox.
               andThen getOptions
                 (\<lambda>opts'.
               zapIn E d (opts'\<lparr>opt_forkId := fk, opt_save := Some save, opt_root := i\<rparr>) ut needs))
            fk s1 = (r, s')"
        by (simp add: unfold andThen_def ret_def)
      from deposit_attempts [OF w] obtain ns where
        "requests s' = requests s1 @ ns" "retriedAttempts needs (opt_gasLimit (options s1)) ns"
        "options s' = options s1"
        by blast
      with st o1 n eth show ?thesis
        by (intro exI [of _ a1] exI [of _ a2] exI [of _ a3] exI [of _ steps] exI [of _ ns]) simp
    qed
  qed
qed

subsection \<open>A routed deposit of the earlier revision, step by step\<close>

lemma deposit_legacy_routed_unfold:
  assumes "world E (requests s) (VaultToken vault) = RAddress u" and "u \<noteq> token"
    and "opt_slippage (options s) = Some tolerance" and "\<not> num_falsy tolerance"
  shows "deposit_legacy E sender token amt vault s =
     andThen (depositApproval_legacy E sender token
                (if vault \<in> set PickleJars then PICKLE else YEARN))
       (\<lambda>(needsApproving, forkId, approvalTransactionId).
          executeSimulationWithReSimulationOnFailure E
            (\<lambda>save sandbox.
               andThen (setOptions (\<lambda>obj. obj\<lparr>opt_save := Some save\<rparr>))
                 (\<lambda>_. zapIn_legacy E sender token u amt vault vault
                         (if vault \<in> set PickleJars then PICKLE else YEARN) needsApproving))
            forkId)
       (asked E (VaultToken vault) s)"
proof -
  have a: "andThen (catchThrow (askAddress E (VaultToken vault)) err) f s
             = f u (asked E (VaultToken vault) s)" for err and f :: "Address \<Rightarrow> TransactionOutcome sim"
    using assms(1) by (simp add: sim_defs asked_def)
  show ?thesis
    using assms(2-)
    by (simp add: deposit_legacy_def Let_def a andThen_getOptions
          depositApproval_legacy_def andThen_assoc)
qed

lemma depositApproval_legacy_steps:
  assumes "depositApproval_legacy E sender token zp s = (r, s1)"
  shows "\<exists>steps. requests s1 = requests s @ steps \<and> list_all isApprovalStep steps \<and>
     (token = EthAddress E \<longrightarrow> steps = []) \<and>
     opt_slippage (options s1) = opt_slippage (options s) \<and>
     opt_gasPrice (options s1) = opt_gasPrice (options s) \<and>
     opt_gasLimit (options s1) = opt_gasLimit (options s) \<and>
     (\<forall>needs fk i. r = Inr (needs, fk, i) \<longrightarrow>
        needs = approvalSimulated steps \<and> fk = sandboxOf steps \<and> i = approvalIdOf steps \<and>
        (needs \<longleftrightarrow> fk \<noteq> None) \<and> (needs \<longleftrightarrow> i \<noteq> None) \<and>
        opt_forkId (options s1) = fk \<and> opt_root (options s1) = i)"
  using assms unfolding depositApproval_legacy_def simulateZapApprovalTransaction_def
  by (auto simp: sim_defs approvalSimulated_def
           split: option.splits if_splits sum.splits prod.splits)

lemma zapIn_legacy_step:
  assumes run: "andThen (setOptions (\<lambda>obj. obj\<lparr>opt_save := Some False\<rparr>))
                  (\<lambda>_. zapIn_legacy E sender token u amt vault vc zp skip) t = (r', t')"
    and inv: "opt_forkId (options t) = fk0 \<and> opt_root (options t) = rt0 \<and>
      opt_slippage (options t) = sl0 \<and>
      (\<not> str_falsy gp0 \<longrightarrow> opt_gasPrice (options t) = gp0) \<and>
      (skip \<longrightarrow> opt_gasLimit (options t) = gl0)"
  shows "(\<exists>ns. requests t' = requests t @ ns \<and> routedAttempt skip (opt_gasLimit (options t)) ns) \<and>
     (opt_forkId (options t') = fk0 \<and> opt_root (options t') = rt0 \<and>
      opt_slippage (options t') = sl0 \<and>
      (\<not> str_falsy gp0 \<longrightarrow> opt_gasPrice (options t') = gp0) \<and>
      (skip \<longrightarrow> opt_gasLimit (options t') = gl0)) \<and>
     (skip \<longrightarrow> opt_gasLimit (options t') = opt_gasLimit (options t)) \<and>
     (\<forall>out. r' = Inr out \<longrightarrow>
        opt_save (options t') = Some False \<and> opt_gasPrice (options t') \<noteq> None \<and>
        (\<not> skip \<longrightarrow> (\<exists>rq q rest. requests t' = requests t @ (rq, RQuote q) # rest \<and>
                                  opt_gasLimit (options t') = Some (q_gas q))))"
proof -
  let ?t0 = "t\<lparr>options := (options t)\<lparr>opt_save := Some False\<rparr>\<rparr>"
  from run have z: "zapIn_legacy E sender token u amt vault vc zp skip ?t0 = (r', t')"
    by (simp add: andThen_def setOptions_def)
  have s0: "opt_save (options ?t0) = Some False" by simp
  from zapIn_legacy_attempt [OF z s0] have "\<exists>ns. requests t' = requests t @ ns \<and>
     routedAttempt skip (opt_gasLimit (options t)) ns \<and>
     opt_forkId (options t') = opt_forkId (options t) \<and>
     opt_root (options t') = opt_root (options t) \<and>
     opt_save (options t') = Some False \<and>
     opt_slippage (options t') = opt_slippage (options t) \<and>
     (skip \<longrightarrow> opt_gasLimit (options t') = opt_gasLimit (options t)) \<and>
     (\<not> str_falsy (opt_gasPrice (options t)) \<longrightarrow>
        opt_gasPrice (options t') = opt_gasPrice (options t)) \<and>
     (\<forall>out. r' = Inr out \<longrightarrow>
        (\<exists>rq q rest. ns = (rq, RQuote q) # rest \<and>
           opt_gasPrice (options t') =
             (if str_falsy (opt_gasPrice (options t)) then Some (q_gasPrice q)
              else opt_gasPrice (options t)) \<and>
           (\<not> skip \<longrightarrow> opt_gasLimit (options t') = Some (q_gas q))))"
    by (simp split del: if_split cong del: if_weak_cong)
  then obtain ns where
    ns: "requests t' = requests t @ ns" "routedAttempt skip (opt_gasLimit (options t)) ns"
    and fk: "opt_forkId (options t') = opt_forkId (options t)"
    and rt: "opt_root (options t') = opt_root (options t)"
    and sv: "opt_save (options t') = Some False"
    and sl: "opt_slippage (options t') = opt_slippage (options t)"
    and gl: "skip \<longrightarrow> opt_gasLimit (options t') = opt_gasLimit (options t)"
    and gp: "\<not> str_falsy (opt_gasPrice (options t)) \<longrightarrow>
        opt_gasPrice (options t') = opt_gasPrice (options t)"
    and ok: "\<forall>out. r' = Inr out \<longrightarrow>
        (\<exists>rq q rest. ns = (rq, RQuote q) # rest \<and>
           opt_gasPrice (options t') =
             (if str_falsy (opt_gasPrice (options t)) then Some (q_gasPrice q)
              else opt_gasPrice (options t)) \<and>
           (\<not> skip \<longrightarrow> opt_gasLimit (options t') = Some (q_gas q)))"
    by (elim exE conjE) (rule that; assumption)
  have a: "\<exists>ns. requests t' = requests t @ ns \<and> routedAttempt skip (opt_gasLimit (options t)) ns"
    using ns by blast
  have b: "opt_forkId (options t') = fk0 \<and> opt_root (options t') = rt0 \<and>
      opt_slippage (options t') = sl0 \<and>
      (\<not> str_falsy gp0 \<longrightarrow> opt_gasPrice (options t') = gp0) \<and>
      (skip \<longrightarrow> opt_gasLimit (options t') = gl0)"
    using inv fk rt sl gl gp by auto
  have c: "opt_save (options t') = Some False \<and> opt_gasPrice (options t') \<noteq> None \<and>
        (\<not> skip \<longrightarrow> (\<exists>rq q rest. requests t' = requests t @ (rq, RQuote q) # rest \<and>
                                  opt_gasLimit (options t') = Some (q_gas q)))"
    if "r' = Inr out" for out
  proof -
    from ok that obtain rq q rest where
      q: "ns = (rq, RQuote q) # rest"
        "opt_gasPrice (options t') =
             (if str_falsy (opt_gasPrice (options t)) then Some (q_gasPrice q)
              else opt_gasPrice (options t))"
        "\<not> skip \<longrightarrow> opt_gasLimit (options t') = Some (q_gas q)"
      by blast
    have "opt_gasPrice (options t') \<noteq> None"
      using q(2) by (cases "opt_gasPrice (options t)") auto
    moreover have "\<not> skip \<longrightarrow> (\<exists>rq q rest. requests t' = requests t @ (rq, RQuote q) # rest \<and>
                                  opt_gasLimit (options t') = Some (q_gas q))"
      using q(1,3) ns(1) by blast
    ultimately show ?thesis using sv by blast
  qed
  from a b gl c show ?thesis by blast
qed

lemma deposit_legacy_attempts:
  assumes w: "executeSimulationWithReSimulationOnFailure E
            (\<lambda>save sandbox.
               andThen (setOptions (\<lambda>obj. obj\<lparr>opt_save := Some save\<rparr>))
                 (\<lambda>_. zapIn_legacy E sender token u amt vault vc zp skip))
            forkId s1 = (r, s')"
  shows "(\<exists>ns. requests s' = requests s1 @ ns \<and>
           retriedAttempts skip (opt_gasLimit (options s1)) ns \<and>
           (\<forall>out. r = Inr out \<longrightarrow> \<not> skip \<longrightarrow>
              (\<exists>rq q. (rq, RQuote q) \<in> set ns \<and> opt_gasLimit (options s') = Some (q_gas q)))) \<and>
     opt_forkId (options s') = opt_forkId (options s1) \<and>
     opt_root (options s') = opt_root (options s1) \<and>
     opt_slippage (options s') = opt_slippage (options s1) \<and>
     (\<not> str_falsy (opt_gasPrice (options s1)) \<longrightarrow>
        opt_gasPrice (options s') = opt_gasPrice (options s1)) \<and>
     (skip \<longrightarrow> opt_gasLimit (options s') = opt_gasLimit (options s1)) \<and>
     (\<forall>out. r = Inr out \<longrightarrow>
        opt_save (options s') = Some False \<and> opt_gasPrice (options s') \<noteq> None)"
proof -
  define I where "I = (\<lambda>opts :: SimulationOptions. opt_forkId opts = opt_forkId (options s1) \<and>
      opt_root opts = opt_root (options s1) \<and> opt_slippage opts = opt_slippage (options s1) \<and>
      (\<not> str_falsy (opt_gasPrice (options s1)) \<longrightarrow> opt_gasPrice opts = opt_gasPrice (options s1)) \<and>
      (skip \<longrightarrow> opt_gasLimit opts = opt_gasLimit (options s1)))"
  define Q where "Q = (\<lambda>(out :: TransactionOutcome) (t :: state) (t' :: state).
      opt_save (options t') = Some False \<and> opt_gasPrice (options t') \<noteq> None \<and>
      (\<not> skip \<longrightarrow> (\<exists>rq q rest. requests t' = requests t @ (rq, RQuote q) # rest \<and>
                                opt_gasLimit (options t') = Some (q_gas q))))"
  have step: "(\<exists>ns. requests t' = requests t @ ns \<and> routedAttempt skip (opt_gasLimit (options t)) ns) \<and>
        I (options t') \<and> (skip \<longrightarrow> opt_gasLimit (options t') = opt_gasLimit (options t)) \<and>
        (\<forall>out. r' = Inr out \<longrightarrow> Q out t t')"
    if run: "andThen (setOptions (\<lambda>obj. obj\<lparr>opt_save := Some False\<rparr>))
                  (\<lambda>_. zapIn_legacy E sender token u amt vault vc zp skip) t = (r', t')"
      and inv: "I (options t)" for t r' t'
    unfolding I_def Q_def by (rule zapIn_legacy_step [OF run inv [unfolded I_def]])
  have init: "I (options s1)" by (simp add: I_def)
  from retried_attempts [where I = I and Q = Q and skip = skip, OF w step init]
  have a: "\<exists>ns. requests s' = requests s1 @ ns \<and> retriedAttempts skip (opt_gasLimit (options s1)) ns"
    and i: "I (options s')"
    and q: "\<forall>out. r = Inr out \<longrightarrow> (\<exists>t. I (options t) \<and> Q out t s' \<and>
         (\<exists>ms ns. requests t = requests s1 @ ms \<and> requests s' = requests t @ ns))"
    by blast+
  from a obtain ns where ns: "requests s' = requests s1 @ ns"
    "retriedAttempts skip (opt_gasLimit (options s1)) ns" by blast
  have "\<exists>rq q. (rq, RQuote q) \<in> set ns \<and> opt_gasLimit (options s') = Some (q_gas q)"
    if "r = Inr out" "\<not> skip" for out
  proof -
    from q that obtain t where t: "Q out t s'"
      "\<exists>ms ns. requests t = requests s1 @ ms \<and> requests s' = requests t @ ns"
      by auto
    then obtain ms where "requests t = requests s1 @ ms" by auto
    moreover from t(1) that obtain rq q' rest where
      "requests s' = requests t @ (rq, RQuote q') # rest"
      "opt_gasLimit (options s') = Some (q_gas q')"
      unfolding Q_def by auto
    ultimately have "requests t = requests s1 @ ms"
      "requests s' = requests t @ (rq, RQuote q') # rest"
      "opt_gasLimit (options s') = Some (q_gas q')"
      by simp_all
    with ns(1) have "ns = ms @ (rq, RQuote q') # rest" by simp
    with \<open>opt_gasLimit (options s') = Some (q_gas q')\<close> show ?thesis by auto
  qed
  moreover have "opt_save (options s') = Some False \<and> opt_gasPrice (options s') \<noteq> None"
    if "r = Inr out" for out
    using q that by (auto simp: Q_def)
  ultimately show ?thesis
    using ns i by (auto simp: I_def)
qed

text \<open>
  The requests of a routed \<^verbatim>\<open>deposit\<close> of the earlier revision with a slippage tolerance,
  and the caller's options after a successful run.
\<close>

lemma deposit_legacy_routed_run:
  assumes run: "deposit_legacy E sender token amt vault s = (r, s')"
    and routed: "world E (requests s) (VaultToken vault) = RAddress u" "u \<noteq> token"
    and tol: "opt_slippage (options s) = Some tolerance" "\<not> num_falsy tolerance"
  shows "\<exists>steps ns.
     requests s' = requests s @ (VaultToken vault, RAddress u) # steps @ ns \<and>
     list_all isApprovalStep steps \<and>
     (token = EthAddress E \<longrightarrow> steps = []) \<and>
     retriedAttempts (approvalSimulated steps) (opt_gasLimit (options s)) ns \<and>
     (\<forall>out. r = Inr out \<longrightarrow>
        opt_forkId (options s') = sandboxOf steps \<and>
        opt_root (options s') = approvalIdOf steps \<and>
        opt_save (options s') = Some False \<and>
        opt_slippage (options s') = opt_slippage (options s) \<and>
        opt_gasPrice (options s') \<noteq> None \<and>
        (\<not> str_falsy (opt_gasPrice (options s)) \<longrightarrow>
           opt_gasPrice (options s') = opt_gasPrice (options s)) \<and>
        (approvalSimulated steps \<longleftrightarrow> sandboxOf steps \<noteq> None) \<and>
        (approvalSimulated steps \<longleftrightarrow> approvalIdOf steps \<noteq> None) \<and>
        (approvalSimulated steps \<longrightarrow> opt_gasLimit (options s') = opt_gasLimit (options s)) \<and>
        (\<not> approvalSimulated steps \<longrightarrow>
           (\<exists>rq q. (rq, RQuote q) \<in> set ns \<and> opt_gasLimit (options s') = Some (q_gas q))))"
proof -
  let ?s0 = "asked E (VaultToken vault) s"
  let ?zp = "if vault \<in> set PickleJars then PICKLE else YEARN"
  note unfold = deposit_legacy_routed_unfold [OF routed tol, of sender amt]
  obtain r1 s1 where stage: "depositApproval_legacy E sender token ?zp ?s0 = (r1, s1)"
    by (cases "depositApproval_legacy E sender token ?zp ?s0")
  from depositApproval_legacy_steps [OF stage] obtain steps where
    st: "requests s1 = requests ?s0 @ steps" "list_all isApprovalStep steps"
      "token = EthAddress E \<longrightarrow> steps = []"
    and keep: "opt_slippage (options s1) = opt_slippage (options s)"
      "opt_gasPrice (options s1) = opt_gasPrice (options s)"
      "opt_gasLimit (options s1) = opt_gasLimit (options s)"
    and res: "\<forall>needs fk i. r1 = Inr (needs, fk, i) \<longrightarrow>
        needs = approvalSimulated steps \<and> fk = sandboxOf steps \<and> i = approvalIdOf steps \<and>
        (needs \<longleftrightarrow> fk \<noteq> None) \<and> (needs \<longleftrightarrow> i \<noteq> None) \<and>
        opt_forkId (options s1) = fk \<and> opt_root (options s1) = i"
    by auto
  have req1: "requests s1 = requests s @ (VaultToken vault, RAddress u) # steps"
    using st(1) routed(1) by simp
  show ?thesis
  proof (cases r1)
    case (Inl e)
    with run stage have "r = Inl e" "s' = s1"
      by (simp_all add: unfold andThen_def)
    with req1 st show ?thesis
      by (intro exI [of _ steps] exI [of _ "[]"]) (simp add: retriedAttempts_def)
  next
    case (Inr x)
    obtain needs fk i where x: "x = (needs, fk, i)" by (cases x)
    with Inr res have n: "needs = approvalSimulated steps" "fk = sandboxOf steps"
      "i = approvalIdOf steps" "needs \<longleftrightarrow> fk \<noteq> None" "needs \<longleftrightarrow> i \<noteq> None"
      and o1: "opt_forkId (options s1) = fk" "opt_root (options s1) = i"
      by auto
    from run stage Inr x have w: "executeSimulationWithReSimulationOnFailure E
            (\<lambda>save sandbox.
               andThen (setOptions (\<lambda>obj. obj\<lparr>opt_save := Some save\<rparr>))
                 (\<lambda>_. zapIn_legacy E sender token u amt vault vault ?zp needs))
            fk s1 = (r, s')"
      by (simp add: unfold andThen_def)
    from deposit_legacy_attempts [OF w] obtain ns where
      ns: "requests s' = requests s1 @ ns"
        "retriedAttempts needs (opt_gasLimit (options s1)) ns"
      and gl: "\<forall>out. r = Inr out \<longrightarrow> \<not> needs \<longrightarrow>
              (\<exists>rq q. (rq, RQuote q) \<in> set ns \<and> opt_gasLimit (options s') = Some (q_gas q))"
      and o': "opt_forkId (options s') = opt_forkId (options s1)"
        "opt_root (options s') = opt_root (options s1)"
        "opt_slippage (options s') = opt_slippage (options s1)"
        "\<not> str_falsy (opt_gasPrice (options s1)) \<longrightarrow>
           opt_gasPrice (options s') = opt_gasPrice (options s1)"
        "needs \<longrightarrow> opt_gasLimit (options s') = opt_gasLimit (options s1)"
        "\<forall>out. r = Inr out \<longrightarrow>
           opt_save (options s') = Some False \<and> opt_gasPrice (options s') \<noteq> None"
      by blast
    have A: "requests s' = requests s @ (VaultToken vault, RAddress u) # steps @ ns"
      using req1 ns(1) by simp
    have B: "retriedAttempts (approvalSimulated steps) (opt_gasLimit (options s)) ns"
      using ns(2) n(1) keep(3) by simp
    have C: "opt_forkId (options s') = sandboxOf steps \<and>
        opt_root (options s') = approvalIdOf steps \<and>
        opt_save (options s') = Some False \<and>
        opt_slippage (options s') = opt_slippage (options s) \<and>
        opt_gasPrice (options s') \<noteq> None \<and>
        (\<not> str_falsy (opt_gasPrice (options s)) \<longrightarrow>
           opt_gasPrice (options s') = opt_gasPrice (options s)) \<and>
        (approvalSimulated steps \<longleftrightarrow> sandboxOf steps \<noteq> None) \<and>
        (approvalSimulated steps \<longleftrightarrow> approvalIdOf steps \<noteq> None) \<and>
        (approvalSimulated steps \<longrightarrow> opt_gasLimit (options s') = opt_gasLimit (options s)) \<and>
        (\<not> approvalSimulated steps \<longrightarrow>
           (\<exists>rq q. (rq, RQuote q) \<in> set ns \<and> opt_gasLimit (options s') = Some (q_gas q)))"
      if ok: "r = Inr out" for out
    proof (intro conjI)
      show "opt_forkId (options s') = sandboxOf steps" using o'(1) o1(1) n(2) by simp
      show "opt_root (options s') = approvalIdOf steps" using o'(2) o1(2) n(3) by simp
      show "opt_save (options s') = Some False" using o'(6) ok by simp
      show "opt_slippage (options s') = opt_slippage (options s)" using o'(3) keep(1) by simp
      show "opt_gasPrice (options s') \<noteq> None" using o'(6) ok by simp
      show "\<not> str_falsy (opt_gasPrice (options s)) \<longrightarrow>
           opt_gasPrice (options s') = opt_gasPrice (options s)" using o'(4) keep(2) by simp
      show "approvalSimulated steps \<longleftrightarrow> sandboxOf steps \<noteq> None" using n(1,2,4) by simp
      show "approvalSimulated steps \<longleftrightarrow> approvalIdOf steps \<noteq> None" using n(1,3,5) by simp
      show "approvalSimulated steps \<longrightarrow> opt_gasLimit (options s') = opt_gasLimit (options s)"
        using o'(5) n(1) keep(3) by simp
      show "\<not> approvalSimulated steps \<longrightarrow>
           (\<exists>rq q. (rq, RQuote q) \<in> set ns \<and> opt_gasLimit (options s') = Some (q_gas q))"
        using gl ok n(1) by simp
    qed
    have D: "\<forall>out. r = Inr out \<longrightarrow>
          opt_forkId (options s') = sandboxOf steps \<and>
          opt_root (options s') = approvalIdOf steps \<and>
          opt_save (options s') = Some False \<and>
          opt_slippage (options s') = opt_slippage (options s) \<and>
          opt_gasPrice (options s') \<noteq> None \<and>
          (\<not> str_falsy (opt_gasPrice (options s)) \<longrightarrow>
             opt_gasPrice (options s') = opt_gasPrice (options s)) \<and>
          (approvalSimulated steps \<longleftrightarrow> sandboxOf steps \<noteq> None) \<and>
          (approvalSimulated steps \<longleftrightarrow> approvalIdOf steps \<noteq> None) \<and>
          (approvalSimulated steps \<longrightarrow> opt_gasLimit (options s') = opt_gasLimit (options s)) \<and>
          (\<not> approvalSimulated steps \<longrightarrow>
             (\<exists>rq q. (rq, RQuote q) \<in> set ns \<and> opt_gasLimit (options s') = Some (q_gas q)))"
      by (intro allI impI) (rule C)
    from A st(2,3) B D have
      "requests s' = requests s @ (VaultToken vault, RAddress u) # steps @ ns \<and>
       list_all isApprovalStep steps \<and>
       (token = EthAddress E \<longrightarrow> steps = []) \<and>
       retriedAttempts (approvalSimulated steps) (opt_gasLimit (options s)) ns \<and>
       (\<forall>out. r = Inr out \<longrightarrow>
          opt_forkId (options s') = sandboxOf steps \<and>
          opt_root (options s') = approvalIdOf steps \<and>
          opt_save (options s') = Some False \<and>
          opt_slippage (options s') = opt_slippage (options s) \<and>
          opt_gasPrice (options s') \<noteq> None \<and>
          (\<not> str_falsy (opt_gasPrice (options s)) \<longrightarrow>
             opt_gasPrice (options s') = opt_gasPrice (options s)) \<and>
          (approvalSimulated steps \<longleftrightarrow> sandboxOf steps \<noteq> None) \<and>
          (approvalSimulated steps \<longleftrightarrow> approvalIdOf steps \<noteq> None) \<and>
          (approvalSimulated steps \<longrightarrow> opt_gasLimit (options s') = opt_gasLimit (options s)) \<and>
          (\<not> approvalSimulated steps \<longrightarrow>
             (\<exists>rq q. (rq, RQuote q) \<in> set ns \<and> opt_gasLimit (options s') = Some (q_gas q))))"
      by (intro conjI) assumption+
    then show ?thesis
      by - (rule exI [of _ steps], rule exI [of _ ns], assumption)
  qed
qed

subsection \<open>Approval steps, quotes and attempts\<close>

text \<open>
  No quote request is an approval step; an attempt holds no request that resolves an
  approval, and its quote requests carry the attempt's flag.
\<close>

lemma valuation_plain:
  "isValuation x \<Longrightarrow> \<not> resolvesApproval x \<and> quoteSkipsGas (fst x) = None"
  by (cases x rule: isValuation.cases) auto

lemma valuations_plain:
  "list_all isValuation ns \<Longrightarrow> list_all (\<lambda>x. \<not> resolvesApproval x) ns \<and> quotesSkipGas skip ns"
  by (induction ns) (auto simp: quotesSkipGas_def dest: valuation_plain)

lemma quote_plain: "quoteSkipsGas rq = Some sk \<Longrightarrow> \<not> resolvesApproval (rq, a)"
  by (cases rq) auto

lemma primaryCall_plain:
  "primaryCall rq = Some (target, input, val, opts) \<Longrightarrow> opt_save opts = Some False \<Longrightarrow>
   \<not> resolvesApproval (rq, a) \<and> quoteSkipsGas rq = None"
  by (cases rq) auto

lemma routedAttempt_plain:
  assumes "routedAttempt skip gl ns"
  shows "list_all (\<lambda>x. \<not> resolvesApproval x) ns \<and> quotesSkipGas skip ns"
proof (cases ns)
  case Nil
  then show ?thesis by (simp add: quotesSkipGas_def)
next
  case (Cons x rest)
  obtain rq a where x: "x = (rq, a)" by (cases x)
  from assms Cons x have q: "quoteSkipsGas rq = Some skip" by simp
  show ?thesis
  proof (cases "quoteOf a")
    case None
    with assms Cons x have "rest = []" by simp
    with Cons x q quote_plain [OF q] show ?thesis by (simp add: quotesSkipGas_def)
  next
    case (Some qt)
    with assms Cons x obtain rq' a' rest' where r: "rest = (rq', a') # rest'"
      by (cases rest) auto
    with assms Cons x Some obtain target input val opts where
      p: "primaryCall rq' = Some (target, input, val, opts)" "opt_save opts = Some False"
      and v: "list_all isValuation rest'"
      by (cases "primaryCall rq'") auto
    from primaryCall_plain [OF p] valuations_plain [OF v, of skip] quote_plain [OF q] q
    show ?thesis
      unfolding Cons x r by (simp add: quotesSkipGas_def)
  qed
qed

lemma retriedAttempts_plain:
  assumes "retriedAttempts skip gl ns"
  shows "list_all (\<lambda>x. \<not> resolvesApproval x) ns \<and> quotesSkipGas skip ns"
  using assms unfolding retriedAttempts_def
proof (elim disjE exE conjE)
  assume "routedAttempt skip gl ns"
  then show ?thesis by (rule routedAttempt_plain)
next
  fix n1 a n2
  assume "ns = n1 @ (CreateFork, a) # n2" "routedAttempt skip gl n1" "routedAttempt skip gl n2"
  with routedAttempt_plain [of skip gl n1] routedAttempt_plain [of skip gl n2]
  show ?thesis by (simp add: quotesSkipGas_def)
qed

lemma approvalSteps_no_quote:
  "list_all isApprovalStep steps \<Longrightarrow> list_all (\<lambda>x. quoteSkipsGas (fst x) = None) steps"
proof (induction steps)
  case Nil
  then show ?case by simp
next
  case (Cons x steps)
  then have "isApprovalStep x" by simp
  then have "quoteSkipsGas (fst x) = None"
    by (cases x rule: isApprovalStep.cases) auto
  with Cons show ?case by simp
qed

subsection \<open>The quote of a routed transfer\<close>

text \<open>The routed deposit and withdraw of the scenario with an unapproved token, run.\<close>

lemma unapproved_routed_deposit:
  "handleZapInSimulationDeposit (engine (routedWorld False)) ''zapperZapIn'' ''0xVault'' usdcDeposit
     (freshState onePercent) =
     (Inr zapOutcome, \<lparr>requests = drop 2 unapprovedDepositRequests, options = onePercent\<rparr>)"
  by (simp add: handleZapInSimulationDeposit_def getUnderlyingToken_def
        getZapperZapInSimulationArgs_def getZapperZapInApprovalData_def
        executeSimulationWithReSimulationOnFailure_def zapIn_def
        Let_def sim_defs scenario_defs usdcDeposit_def approvalSim_def approvalTx_def
        onePercent_def zapQuote_def zapOutcome_def bn_div_examples underlying_examples
        unapprovedDepositRequests_def)

lemma unapproved_routed_withdraw:
  "\<exists>out. fst (withdraw (engine (routedWorld False)) ''0xUser'' ''0xVault'' 1000 ''0xUsdc''
                 (freshState onePercent)) = Inr out"
  by (simp add: withdraw_def zapOut_def executeSimulationWithReSimulationOnFailure_def
        Let_def sim_defs scenario_defs approvalSim_def approvalTx_def
        onePercent_def zapQuote_def bn_div_examples)

text \<open>
  C8. In a routed deposit and in a routed withdraw with a slippage tolerance, the new
  requests are the reads of the vault, then the steps that resolve the approval, none of
  them a quote request, then the attempts of the wrapper, none of them a step that
  resolves an approval. Every quote request of the attempts carries the flag
  \<^verbatim>\<open>skipGasEstimate\<close> that says whether the approval was simulated, and in each attempt the
  quote is followed by the simulation of the quoted call whose gas limit is the quote's
  gas unless the gas estimate was skipped (\<open>retriedAttempts\<close>).
\<close>

theorem quote_follows_approval_resolution:
  assumes "opt_slippage (options s) = Some tolerance" and "\<not> num_falsy tolerance"
  shows
  "(isEthereum E \<and> handleZapInSimulationDeposit E ''zapperZapIn'' vc d s = (r, s') \<longrightarrow>
      (\<exists>a1 a2 a3 steps ns.
         newRequests s s' =
           [(VaultToken vc, a1), (VaultDecimals vc, a2), (VaultPricePerShare vc, a3)] @ steps @ ns \<and>
         list_all isApprovalStep steps \<and>
         list_all (\<lambda>step. quoteSkipsGas (fst step) = None) steps \<and>
         list_all (\<lambda>step. \<not> resolvesApproval step) ns \<and>
         quotesSkipGas (approvalSimulated steps) ns \<and>
         retriedAttempts (approvalSimulated steps) (opt_gasLimit (options s)) ns)) \<and>
   (world E (requests s) (VaultToken fromVault) = RAddress u \<and> getAddress E toToken = Some t \<and>
    u \<noteq> t \<and> withdraw E sender fromVault amt toToken s = (r, s') \<longrightarrow>
      (\<exists>steps ns.
         newRequests s s' = (VaultToken fromVault, RAddress u) # steps @ ns \<and>
         list_all isApprovalStep steps \<and>
         list_all (\<lambda>step. quoteSkipsGas (fst step) = None) steps \<and>
         list_all (\<lambda>step. \<not> resolvesApproval step) ns \<and>
         quotesSkipGas (approvalSimulated steps) ns \<and>
         retriedAttempts (approvalSimulated steps) (opt_gasLimit (options s)) ns))"
proof (intro conjI impI)
  assume h: "isEthereum E \<and> handleZapInSimulationDeposit E ''zapperZapIn'' vc d s = (r, s')"
  then have run: "handleZapInSimulationDeposit E ''zapperZapIn'' vc d s = (r, s')"
    and eth: "isEthereum E"
    by simp_all
  from deposit_routed_run [OF run eth assms] obtain a1 a2 a3 steps ns where
    rq: "requests s' =
       requests s @ [(VaultToken vc, a1), (VaultDecimals vc, a2), (VaultPricePerShare vc, a3)]
         @ steps @ ns"
    and st: "list_all isApprovalStep steps"
    and at: "retriedAttempts (approvalSimulated steps) (opt_gasLimit (options s)) ns"
    by blast
  from rq have n: "newRequests s s' =
      [(VaultToken vc, a1), (VaultDecimals vc, a2), (VaultPricePerShare vc, a3)] @ steps @ ns"
    by (simp add: newRequests_def)
  from n st approvalSteps_no_quote [OF st] retriedAttempts_plain [OF at] at
  have "newRequests s s' =
           [(VaultToken vc, a1), (VaultDecimals vc, a2), (VaultPricePerShare vc, a3)] @ steps @ ns \<and>
         list_all isApprovalStep steps \<and>
         list_all (\<lambda>step. quoteSkipsGas (fst step) = None) steps \<and>
         list_all (\<lambda>step. \<not> resolvesApproval step) ns \<and>
         quotesSkipGas (approvalSimulated steps) ns \<and>
         retriedAttempts (approvalSimulated steps) (opt_gasLimit (options s)) ns"
    by (intro conjI) (assumption | erule conjunct1 | erule conjunct2)+
  then show "\<exists>a1 a2 a3 steps ns.
         newRequests s s' =
           [(VaultToken vc, a1), (VaultDecimals vc, a2), (VaultPricePerShare vc, a3)] @ steps @ ns \<and>
         list_all isApprovalStep steps \<and>
         list_all (\<lambda>step. quoteSkipsGas (fst step) = None) steps \<and>
         list_all (\<lambda>step. \<not> resolvesApproval step) ns \<and>
         quotesSkipGas (approvalSimulated steps) ns \<and>
         retriedAttempts (approvalSimulated steps) (opt_gasLimit (options s)) ns"
    by - (rule exI [of _ a1], rule exI [of _ a2], rule exI [of _ a3], rule exI [of _ steps],
          rule exI [of _ ns], assumption)
next
  assume h: "world E (requests s) (VaultToken fromVault) = RAddress u \<and>
    getAddress E toToken = Some t \<and> u \<noteq> t \<and> withdraw E sender fromVault amt toToken s = (r, s')"
  then have run: "withdraw E sender fromVault amt toToken s = (r, s')"
    and routed: "world E (requests s) (VaultToken fromVault) = RAddress u"
      "getAddress E toToken = Some t" "u \<noteq> t"
    by simp_all
  from withdraw_routed_run [OF run routed assms] obtain steps ns where
    rq: "requests s' = requests s @ (VaultToken fromVault, RAddress u) # steps @ ns"
    and st: "list_all isApprovalStep steps"
    and at: "retriedAttempts (approvalSimulated steps) (opt_gasLimit (options s)) ns"
    by blast
  from rq have n: "newRequests s s' = (VaultToken fromVault, RAddress u) # steps @ ns"
    by (simp add: newRequests_def)
  from n st approvalSteps_no_quote [OF st] retriedAttempts_plain [OF at] at
  have "newRequests s s' = (VaultToken fromVault, RAddress u) # steps @ ns \<and>
         list_all isApprovalStep steps \<and>
         list_all (\<lambda>step. quoteSkipsGas (fst step) = None) steps \<and>
         list_all (\<lambda>step. \<not> resolvesApproval step) ns \<and>
         quotesSkipGas (approvalSimulated steps) ns \<and>
         retriedAttempts (approvalSimulated steps) (opt_gasLimit (options s)) ns"
    by (intro conjI) (assumption | erule conjunct1 | erule conjunct2)+
  then show "\<exists>steps ns.
         newRequests s s' = (VaultToken fromVault, RAddress u) # steps @ ns \<and>
         list_all isApprovalStep steps \<and>
         list_all (\<lambda>step. quoteSkipsGas (fst step) = None) steps \<and>
         list_all (\<lambda>step. \<not> resolvesApproval step) ns \<and>
         quotesSkipGas (approvalSimulated steps) ns \<and>
         retriedAttempts (approvalSimulated steps) (opt_gasLimit (options s)) ns"
    by - (rule exI [of _ steps], rule exI [of _ ns], assumption)
qed

theorem quote_follows_approval_resolution_witness:
  "opt_slippage (options (freshState onePercent)) = Some (Fin (1 / 100)) \<and>
   \<not> num_falsy (Fin (1 / 100)) \<and>
   isEthereum (engine (routedWorld False)) \<and>
   handleZapInSimulationDeposit (engine (routedWorld False)) ''zapperZapIn'' ''0xVault'' usdcDeposit
     (freshState onePercent) =
     (Inr zapOutcome, \<lparr>requests = drop 2 unapprovedDepositRequests, options = onePercent\<rparr>) \<and>
   (\<exists>a1 a2 a3 steps ns.
      newRequests (freshState onePercent)
        \<lparr>requests = drop 2 unapprovedDepositRequests, options = onePercent\<rparr> =
        [(VaultToken ''0xVault'', a1), (VaultDecimals ''0xVault'', a2),
         (VaultPricePerShare ''0xVault'', a3)] @ steps @ ns \<and>
      list_all isApprovalStep steps \<and>
      list_all (\<lambda>step. quoteSkipsGas (fst step) = None) steps \<and>
      list_all (\<lambda>step. \<not> resolvesApproval step) ns \<and>
      quotesSkipGas (approvalSimulated steps) ns \<and>
      retriedAttempts (approvalSimulated steps) (opt_gasLimit (options (freshState onePercent))) ns) \<and>
   world (engine (routedWorld False)) (requests (freshState onePercent)) (VaultToken ''0xVault'')
     = RAddress ''0xDai'' \<and>
   getAddress (engine (routedWorld False)) ''0xUsdc'' = Some ''0xUsdc'' \<and> ''0xDai'' \<noteq> ''0xUsdc'' \<and>
   (\<exists>out. fst (withdraw (engine (routedWorld False)) ''0xUser'' ''0xVault'' 1000 ''0xUsdc''
                 (freshState onePercent)) = Inr out) \<and>
   requests (snd (withdraw (engine (routedWorld False)) ''0xUser'' ''0xVault'' 1000 ''0xUsdc''
                    (freshState onePercent))) = unapprovedWithdrawRequests \<and>
   (\<exists>steps ns.
      newRequests (freshState onePercent)
        (snd (withdraw (engine (routedWorld False)) ''0xUser'' ''0xVault'' 1000 ''0xUsdc''
                (freshState onePercent))) =
        (VaultToken ''0xVault'', RAddress ''0xDai'') # steps @ ns \<and>
      list_all isApprovalStep steps \<and>
      list_all (\<lambda>step. quoteSkipsGas (fst step) = None) steps \<and>
      list_all (\<lambda>step. \<not> resolvesApproval step) ns \<and>
      quotesSkipGas (approvalSimulated steps) ns \<and>
      retriedAttempts (approvalSimulated steps) (opt_gasLimit (options (freshState onePercent))) ns)"
proof -
  let ?E = "engine (routedWorld False)"
  let ?s = "freshState onePercent"
  let ?w = "withdraw ?E ''0xUser'' ''0xVault'' 1000 ''0xUsdc'' ?s"
  have tol: "opt_slippage (options ?s) = Some (Fin (1 / 100))" "\<not> num_falsy (Fin (1 / 100))"
    by (simp_all add: freshState_def onePercent_def noOptions_def)
  have e: "isEthereum ?E"
    "world ?E (requests ?s) (VaultToken ''0xVault'') = RAddress ''0xDai''"
    "getAddress ?E ''0xUsdc'' = Some ''0xUsdc''" "''0xDai'' \<noteq> ''0xUsdc''"
    by (simp_all add: engine_def)
  have w: "?w = (fst ?w, snd ?w)" by simp
  note t = quote_follows_approval_resolution
         [OF tol, where E = ?E and vc = "''0xVault''" and d = usdcDeposit and fromVault = "''0xVault''"
            and u = "''0xDai''" and toToken = "''0xUsdc''" and t = "''0xUsdc''"
            and sender = "''0xUser''" and amt = 1000]
  from t [where r = "Inr zapOutcome"
            and s' = "\<lparr>requests = drop 2 unapprovedDepositRequests, options = onePercent\<rparr>"]
       e(1) unapproved_routed_deposit
  have a: "\<exists>a1 a2 a3 steps ns.
      newRequests ?s \<lparr>requests = drop 2 unapprovedDepositRequests, options = onePercent\<rparr> =
        [(VaultToken ''0xVault'', a1), (VaultDecimals ''0xVault'', a2),
         (VaultPricePerShare ''0xVault'', a3)] @ steps @ ns \<and>
      list_all isApprovalStep steps \<and>
      list_all (\<lambda>step. quoteSkipsGas (fst step) = None) steps \<and>
      list_all (\<lambda>step. \<not> resolvesApproval step) ns \<and>
      quotesSkipGas (approvalSimulated steps) ns \<and>
      retriedAttempts (approvalSimulated steps) (opt_gasLimit (options ?s)) ns"
    by blast
  from t [where r = "fst ?w" and s' = "snd ?w"] e(2-4) w
  have b: "\<exists>steps ns.
      newRequests ?s (snd ?w) = (VaultToken ''0xVault'', RAddress ''0xDai'') # steps @ ns \<and>
      list_all isApprovalStep steps \<and>
      list_all (\<lambda>step. quoteSkipsGas (fst step) = None) steps \<and>
      list_all (\<lambda>step. \<not> resolvesApproval step) ns \<and>
      quotesSkipGas (approvalSimulated steps) ns \<and>
      retriedAttempts (approvalSimulated steps) (opt_gasLimit (options ?s)) ns"
    by blast
  from tol e unapproved_routed_deposit unapproved_routed_withdraw withdraw_approval_in_sandbox a b
  show ?thesis by (intro conjI) assumption+
qed

subsection \<open>The caller's options after a routed call\<close>

text \<open>
  A routed withdraw and a routed deposit of the earlier revision with an approved token and
  the options \<open>callerOptions\<close>, run: the sandbox and the root of the caller are gone, the
  gas limit is the quote's, \<^verbatim>\<open>save\<close> is false, and the deposit has set the quote's gas price.
\<close>

lemma caller_withdraw:
  "(\<exists>out. fst (withdraw (engine (routedWorld True)) ''0xUser'' ''0xVault'' 1000 ''0xUsdc''
                  (freshState callerOptions)) = Inr out) \<and>
   options (snd (withdraw (engine (routedWorld True)) ''0xUser'' ''0xVault'' 1000 ''0xUsdc''
                   (freshState callerOptions))) =
     \<lparr>opt_slippage = Some (Fin (1 / 100)), opt_root = None, opt_forkId = None,
        opt_gasPrice = None, opt_gasLimit = Some ''21000'', opt_save = Some False\<rparr>"
  by (simp add: withdraw_def zapOut_def executeSimulationWithReSimulationOnFailure_def
        Let_def sim_defs scenario_defs callerOptions_def zapQuote_def bn_div_examples)

lemma caller_deposit_legacy:
  "(\<exists>out. fst (deposit_legacy (engine (routedWorld True)) ''0xUser'' ''0xUsdc'' 1000 ''0xVault''
                  (freshState callerOptions)) = Inr out) \<and>
   options (snd (deposit_legacy (engine (routedWorld True)) ''0xUser'' ''0xUsdc'' 1000 ''0xVault''
                   (freshState callerOptions))) =
     \<lparr>opt_slippage = Some (Fin (1 / 100)), opt_root = None, opt_forkId = None,
        opt_gasPrice = Some ''5'', opt_gasLimit = Some ''21000'', opt_save = Some False\<rparr>"
  by (simp add: deposit_legacy_def zapIn_legacy_def PickleJars_def
        executeSimulationWithReSimulationOnFailure_def
        Let_def sim_defs scenario_defs callerOptions_def zapQuote_def bn_div_examples
        underlying_examples)

text \<open>
  C10. After a routed \<^verbatim>\<open>withdraw\<close>, and after a routed \<^verbatim>\<open>deposit\<close> of the earlier revision,
  that returned an outcome, the caller's options hold what the engine wrote, whatever
  they held before: \<^verbatim>\<open>forkId\<close> is the sandbox and \<^verbatim>\<open>root\<close> the simulation id of the approval
  steps of this call (undefined when there were none), \<^verbatim>\<open>save\<close> is false, and
  \<^verbatim>\<open>gasLimit\<close> is the gas of a quote of this call unless the approval was simulated. The
  deposit has also set \<^verbatim>\<open>gasPrice\<close> unless the caller gave one; \<^verbatim>\<open>withdraw\<close> leaves it.
\<close>

theorem routed_call_overwrites_options:
  assumes "opt_slippage (options s) = Some tolerance" and "\<not> num_falsy tolerance"
  shows
  "(world E (requests s) (VaultToken fromVault) = RAddress u \<and> getAddress E toToken = Some t \<and>
    u \<noteq> t \<and> withdraw E sender fromVault amt toToken s = (Inr out, s') \<longrightarrow>
      (\<exists>steps ns.
         newRequests s s' = (VaultToken fromVault, RAddress u) # steps @ ns \<and>
         list_all isApprovalStep steps \<and>
         opt_forkId (options s') = sandboxOf steps \<and>
         opt_root (options s') = approvalIdOf steps \<and>
         opt_save (options s') = Some False \<and>
         opt_slippage (options s') = opt_slippage (options s) \<and>
         opt_gasPrice (options s') = opt_gasPrice (options s) \<and>
         (approvalSimulated steps \<longrightarrow> opt_gasLimit (options s') = opt_gasLimit (options s)) \<and>
         (\<not> approvalSimulated steps \<longrightarrow>
            (\<exists>rq q. (rq, RQuote q) \<in> set ns \<and> opt_gasLimit (options s') = Some (q_gas q))))) \<and>
   (world E (requests s) (VaultToken vault) = RAddress u \<and> u \<noteq> token \<and>
    deposit_legacy E sender token amt vault s = (Inr out, s') \<longrightarrow>
      (\<exists>steps ns.
         newRequests s s' = (VaultToken vault, RAddress u) # steps @ ns \<and>
         list_all isApprovalStep steps \<and>
         opt_forkId (options s') = sandboxOf steps \<and>
         opt_root (options s') = approvalIdOf steps \<and>
         opt_save (options s') = Some False \<and>
         opt_slippage (options s') = opt_slippage (options s) \<and>
         opt_gasPrice (options s') \<noteq> None \<and>
         (\<not> str_falsy (opt_gasPrice (options s)) \<longrightarrow>
            opt_gasPrice (options s') = opt_gasPrice (options s)) \<and>
         (approvalSimulated steps \<longrightarrow> opt_gasLimit (options s') = opt_gasLimit (options s)) \<and>
         (\<not> approvalSimulated steps \<longrightarrow>
            (\<exists>rq q. (rq, RQuote q) \<in> set ns \<and> opt_gasLimit (options s') = Some (q_gas q)))))"
proof (intro conjI impI)
  assume h: "world E (requests s) (VaultToken fromVault) = RAddress u \<and>
    getAddress E toToken = Some t \<and> u \<noteq> t \<and>
    withdraw E sender fromVault amt toToken s = (Inr out, s')"
  then have run: "withdraw E sender fromVault amt toToken s = (Inr out, s')"
    and routed: "world E (requests s) (VaultToken fromVault) = RAddress u"
      "getAddress E toToken = Some t" "u \<noteq> t"
    by simp_all
  from withdraw_routed_run [OF run routed assms] obtain steps ns where
    rq: "requests s' = requests s @ (VaultToken fromVault, RAddress u) # steps @ ns"
    and st: "list_all isApprovalStep steps"
    and o: "\<forall>out'. Inr out = (Inr out' :: error + TransactionOutcome) \<longrightarrow>
        opt_forkId (options s') = sandboxOf steps \<and>
        opt_root (options s') = approvalIdOf steps \<and>
        opt_save (options s') = Some False \<and>
        opt_slippage (options s') = opt_slippage (options s) \<and>
        opt_gasPrice (options s') = opt_gasPrice (options s) \<and>
        (approvalSimulated steps \<longleftrightarrow> sandboxOf steps \<noteq> None) \<and>
        (approvalSimulated steps \<longleftrightarrow> approvalIdOf steps \<noteq> None) \<and>
        (approvalSimulated steps \<longrightarrow> opt_gasLimit (options s') = opt_gasLimit (options s)) \<and>
        (\<not> approvalSimulated steps \<longrightarrow>
           (\<exists>rq q. (rq, RQuote q) \<in> set ns \<and> opt_gasLimit (options s') = Some (q_gas q)))"
    by blast
  from rq have n: "newRequests s s' = (VaultToken fromVault, RAddress u) # steps @ ns"
    by (simp add: newRequests_def)
  from o have o': "opt_forkId (options s') = sandboxOf steps"
    "opt_root (options s') = approvalIdOf steps"
    "opt_save (options s') = Some False"
    "opt_slippage (options s') = opt_slippage (options s)"
    "opt_gasPrice (options s') = opt_gasPrice (options s)"
    "approvalSimulated steps \<longrightarrow> opt_gasLimit (options s') = opt_gasLimit (options s)"
    "\<not> approvalSimulated steps \<longrightarrow>
           (\<exists>rq q. (rq, RQuote q) \<in> set ns \<and> opt_gasLimit (options s') = Some (q_gas q))"
    by simp_all
  from n st o' have
    "newRequests s s' = (VaultToken fromVault, RAddress u) # steps @ ns \<and>
     list_all isApprovalStep steps \<and>
     opt_forkId (options s') = sandboxOf steps \<and>
     opt_root (options s') = approvalIdOf steps \<and>
     opt_save (options s') = Some False \<and>
     opt_slippage (options s') = opt_slippage (options s) \<and>
     opt_gasPrice (options s') = opt_gasPrice (options s) \<and>
     (approvalSimulated steps \<longrightarrow> opt_gasLimit (options s') = opt_gasLimit (options s)) \<and>
     (\<not> approvalSimulated steps \<longrightarrow>
        (\<exists>rq q. (rq, RQuote q) \<in> set ns \<and> opt_gasLimit (options s') = Some (q_gas q)))"
    by (intro conjI) assumption+
  then show "\<exists>steps ns.
         newRequests s s' = (VaultToken fromVault, RAddress u) # steps @ ns \<and>
         list_all isApprovalStep steps \<and>
         opt_forkId (options s') = sandboxOf steps \<and>
         opt_root (options s') = approvalIdOf steps \<and>
         opt_save (options s') = Some False \<and>
         opt_slippage (options s') = opt_slippage (options s) \<and>
         opt_gasPrice (options s') = opt_gasPrice (options s) \<and>
         (approvalSimulated steps \<longrightarrow> opt_gasLimit (options s') = opt_gasLimit (options s)) \<and>
         (\<not> approvalSimulated steps \<longrightarrow>
            (\<exists>rq q. (rq, RQuote q) \<in> set ns \<and> opt_gasLimit (options s') = Some (q_gas q)))"
    by - (rule exI [of _ steps], rule exI [of _ ns], assumption)
next
  assume h: "world E (requests s) (VaultToken vault) = RAddress u \<and> u \<noteq> token \<and>
    deposit_legacy E sender token amt vault s = (Inr out, s')"
  then have run: "deposit_legacy E sender token amt vault s = (Inr out, s')"
    and routed: "world E (requests s) (VaultToken vault) = RAddress u" "u \<noteq> token"
    by simp_all
  from deposit_legacy_routed_run [OF run routed assms] obtain steps ns where
    rq: "requests s' = requests s @ (VaultToken vault, RAddress u) # steps @ ns"
    and st: "list_all isApprovalStep steps"
    and o: "\<forall>out'. Inr out = (Inr out' :: error + TransactionOutcome) \<longrightarrow>
        opt_forkId (options s') = sandboxOf steps \<and>
        opt_root (options s') = approvalIdOf steps \<and>
        opt_save (options s') = Some False \<and>
        opt_slippage (options s') = opt_slippage (options s) \<and>
        opt_gasPrice (options s') \<noteq> None \<and>
        (\<not> str_falsy (opt_gasPrice (options s)) \<longrightarrow>
           opt_gasPrice (options s') = opt_gasPrice (options s)) \<and>
        (approvalSimulated steps \<longleftrightarrow> sandboxOf steps \<noteq> None) \<and>
        (approvalSimulated steps \<longleftrightarrow> approvalIdOf steps \<noteq> None) \<and>
        (approvalSimulated steps \<longrightarrow> opt_gasLimit (options s') = opt_gasLimit (options s)) \<and>
        (\<not> approvalSimulated steps \<longrightarrow>
           (\<exists>rq q. (rq, RQuote q) \<in> set ns \<and> opt_gasLimit (options s') = Some (q_gas q)))"
    by blast
  from rq have n: "newRequests s s' = (VaultToken vault, RAddress u) # steps @ ns"
    by (simp add: newRequests_def)
  from o have o': "opt_forkId (options s') = sandboxOf steps"
    "opt_root (options s') = approvalIdOf steps"
    "opt_save (options s') = Some False"
    "opt_slippage (options s') = opt_slippage (options s)"
    "opt_gasPrice (options s') \<noteq> None"
    "\<not> str_falsy (opt_gasPrice (options s)) \<longrightarrow>
           opt_gasPrice (options s') = opt_gasPrice (options s)"
    "approvalSimulated steps \<longrightarrow> opt_gasLimit (options s') = opt_gasLimit (options s)"
    "\<not> approvalSimulated steps \<longrightarrow>
           (\<exists>rq q. (rq, RQuote q) \<in> set ns \<and> opt_gasLimit (options s') = Some (q_gas q))"
    by simp_all
  from n st o' have
    "newRequests s s' = (VaultToken vault, RAddress u) # steps @ ns \<and>
     list_all isApprovalStep steps \<and>
     opt_forkId (options s') = sandboxOf steps \<and>
     opt_root (options s') = approvalIdOf steps \<and>
     opt_save (options s') = Some False \<and>
     opt_slippage (options s') = opt_slippage (options s) \<and>
     opt_gasPrice (options s') \<noteq> None \<and>
     (\<not> str_falsy (opt_gasPrice (options s)) \<longrightarrow>
        opt_gasPrice (options s') = opt_gasPrice (options s)) \<and>
     (approvalSimulated steps \<longrightarrow> opt_gasLimit (options s') = opt_gasLimit (options s)) \<and>
     (\<not> approvalSimulated steps \<longrightarrow>
        (\<exists>rq q. (rq, RQuote q) \<in> set ns \<and> opt_gasLimit (options s') = Some (q_gas q)))"
    by (intro conjI) assumption+
  then show "\<exists>steps ns.
         newRequests s s' = (VaultToken vault, RAddress u) # steps @ ns \<and>
         list_all isApprovalStep steps \<and>
         opt_forkId (options s') = sandboxOf steps \<and>
         opt_root (options s') = approvalIdOf steps \<and>
         opt_save (options s') = Some False \<and>
         opt_slippage (options s') = opt_slippage (options s) \<and>
         opt_gasPrice (options s') \<noteq> None \<and>
         (\<not> str_falsy (opt_gasPrice (options s)) \<longrightarrow>
            opt_gasPrice (options s') = opt_gasPrice (options s)) \<and>
         (approvalSimulated steps \<longrightarrow> opt_gasLimit (options s') = opt_gasLimit (options s)) \<and>
         (\<not> approvalSimulated steps \<longrightarrow>
            (\<exists>rq q. (rq, RQuote q) \<in> set ns \<and> opt_gasLimit (options s') = Some (q_gas q)))"
    by - (rule exI [of _ steps], rule exI [of _ ns], assumption)
qed

theorem routed_call_overwrites_options_witness:
  "opt_slippage (options (freshState callerOptions)) = Some (Fin (1 / 100)) \<and>
   \<not> num_falsy (Fin (1 / 100)) \<and>
   world (engine (routedWorld True)) (requests (freshState callerOptions)) (VaultToken ''0xVault'')
     = RAddress ''0xDai'' \<and>
   getAddress (engine (routedWorld True)) ''0xUsdc'' = Some ''0xUsdc'' \<and> ''0xDai'' \<noteq> ''0xUsdc'' \<and>
   (\<exists>out. fst (withdraw (engine (routedWorld True)) ''0xUser'' ''0xVault'' 1000 ''0xUsdc''
                  (freshState callerOptions)) = Inr out) \<and>
   options (snd (withdraw (engine (routedWorld True)) ''0xUser'' ''0xVault'' 1000 ''0xUsdc''
                   (freshState callerOptions))) =
     \<lparr>opt_slippage = Some (Fin (1 / 100)), opt_root = None, opt_forkId = None,
        opt_gasPrice = None, opt_gasLimit = Some ''21000'', opt_save = Some False\<rparr> \<and>
   (\<exists>steps ns.
      newRequests (freshState callerOptions)
        (snd (withdraw (engine (routedWorld True)) ''0xUser'' ''0xVault'' 1000 ''0xUsdc''
                (freshState callerOptions))) =
        (VaultToken ''0xVault'', RAddress ''0xDai'') # steps @ ns \<and>
      list_all isApprovalStep steps \<and>
      sandboxOf steps = None \<and> approvalIdOf steps = None \<and> \<not> approvalSimulated steps \<and>
      (\<exists>rq q. (rq, RQuote q) \<in> set ns \<and> q_gas q = ''21000'')) \<and>
   (\<exists>out. fst (deposit_legacy (engine (routedWorld True)) ''0xUser'' ''0xUsdc'' 1000 ''0xVault''
                  (freshState callerOptions)) = Inr out) \<and>
   options (snd (deposit_legacy (engine (routedWorld True)) ''0xUser'' ''0xUsdc'' 1000 ''0xVault''
                   (freshState callerOptions))) =
     \<lparr>opt_slippage = Some (Fin (1 / 100)), opt_root = None, opt_forkId = None,
        opt_gasPrice = Some ''5'', opt_gasLimit = Some ''21000'', opt_save = Some False\<rparr> \<and>
   (\<exists>steps ns.
      newRequests (freshState callerOptions)
        (snd (deposit_legacy (engine (routedWorld True)) ''0xUser'' ''0xUsdc'' 1000 ''0xVault''
                (freshState callerOptions))) =
        (VaultToken ''0xVault'', RAddress ''0xDai'') # steps @ ns \<and>
      list_all isApprovalStep steps \<and>
      sandboxOf steps = None \<and> approvalIdOf steps = None \<and> \<not> approvalSimulated steps \<and>
      (\<exists>rq q. (rq, RQuote q) \<in> set ns \<and> q_gas q = ''21000''))"
proof -
  let ?E = "engine (routedWorld True)"
  let ?s = "freshState callerOptions"
  let ?w = "withdraw ?E ''0xUser'' ''0xVault'' 1000 ''0xUsdc'' ?s"
  let ?d = "deposit_legacy ?E ''0xUser'' ''0xUsdc'' 1000 ''0xVault'' ?s"
  have tol: "opt_slippage (options ?s) = Some (Fin (1 / 100))" "\<not> num_falsy (Fin (1 / 100))"
    by (simp_all add: freshState_def callerOptions_def)
  have e: "world ?E (requests ?s) (VaultToken ''0xVault'') = RAddress ''0xDai''"
    "getAddress ?E ''0xUsdc'' = Some ''0xUsdc''" "''0xDai'' \<noteq> ''0xUsdc''"
    by (simp_all add: engine_def)
  note cw = caller_withdraw [THEN conjunct1] and ow = caller_withdraw [THEN conjunct2]
  note cd = caller_deposit_legacy [THEN conjunct1] and od = caller_deposit_legacy [THEN conjunct2]
  from cw obtain out1 where w: "?w = (Inr out1, snd ?w)"
    by (auto simp: prod_eq_iff)
  from cd obtain out2 where d: "?d = (Inr out2, snd ?d)"
    by (auto simp: prod_eq_iff)
  note t = routed_call_overwrites_options
         [OF tol, where E = ?E and fromVault = "''0xVault''" and vault = "''0xVault''"
            and u = "''0xDai''" and toToken = "''0xUsdc''" and t = "''0xUsdc''"
            and token = "''0xUsdc''" and sender = "''0xUser''" and amt = 1000]
  from t [where out = out1 and s' = "snd ?w"] e w
  obtain steps ns where
    a: "newRequests ?s (snd ?w) = (VaultToken ''0xVault'', RAddress ''0xDai'') # steps @ ns"
      "list_all isApprovalStep steps"
      "opt_forkId (options (snd ?w)) = sandboxOf steps"
      "opt_root (options (snd ?w)) = approvalIdOf steps"
      "approvalSimulated steps \<longrightarrow> opt_gasLimit (options (snd ?w)) = opt_gasLimit (options ?s)"
      "\<not> approvalSimulated steps \<longrightarrow>
         (\<exists>rq q. (rq, RQuote q) \<in> set ns \<and> opt_gasLimit (options (snd ?w)) = Some (q_gas q))"
    by blast
  have a': "sandboxOf steps = None" "approvalIdOf steps = None" "\<not> approvalSimulated steps"
    using a(3,4,5) unfolding ow by (simp_all add: freshState_def callerOptions_def)
  with a(6) have a'': "\<exists>rq q. (rq, RQuote q) \<in> set ns \<and> q_gas q = ''21000''"
    unfolding ow by fastforce
  from t [where out = out2 and s' = "snd ?d"] e d
  obtain steps2 ns2 where
    b: "newRequests ?s (snd ?d) = (VaultToken ''0xVault'', RAddress ''0xDai'') # steps2 @ ns2"
      "list_all isApprovalStep steps2"
      "opt_forkId (options (snd ?d)) = sandboxOf steps2"
      "opt_root (options (snd ?d)) = approvalIdOf steps2"
      "approvalSimulated steps2 \<longrightarrow> opt_gasLimit (options (snd ?d)) = opt_gasLimit (options ?s)"
      "\<not> approvalSimulated steps2 \<longrightarrow>
         (\<exists>rq q. (rq, RQuote q) \<in> set ns2 \<and> opt_gasLimit (options (snd ?d)) = Some (q_gas q))"
    by blast
  have b': "sandboxOf steps2 = None" "approvalIdOf steps2 = None" "\<not> approvalSimulated steps2"
    using b(3,4,5) unfolding od by (simp_all add: freshState_def callerOptions_def)
  with b(6) have b'': "\<exists>rq q. (rq, RQuote q) \<in> set ns2 \<and> q_gas q = ''21000''"
    unfolding od by fastforce
  have A: "\<exists>steps ns.
      newRequests ?s (snd ?w) = (VaultToken ''0xVault'', RAddress ''0xDai'') # steps @ ns \<and>
      list_all isApprovalStep steps \<and>
      sandboxOf steps = None \<and> approvalIdOf steps = None \<and> \<not> approvalSimulated steps \<and>
      (\<exists>rq q. (rq, RQuote q) \<in> set ns \<and> q_gas q = ''21000'')"
    using a(1,2) a' a'' by blast
  have B: "\<exists>steps ns.
      newRequests ?s (snd ?d) = (VaultToken ''0xVault'', RAddress ''0xDai'') # steps @ ns \<and>
      list_all isApprovalStep steps \<and>
      sandboxOf steps = None \<and> approvalIdOf steps = None \<and> \<not> approvalSimulated steps \<and>
      (\<exists>rq q. (rq, RQuote q) \<in> set ns \<and> q_gas q = ''21000'')"
    using b(1,2) b' b'' by blast
  from tol e cw ow A cd od B show ?thesis
    by (intro conjI) assumption+
qed

subsection \<open>Transfers of the native token\<close>

text \<open>
  The routed paths resolve the approval of a native source without a request: no approval
  is needed, and there is neither a sandbox nor a root.
\<close>

lemma native_source_skips_approval:
  "(isEthereum E \<and> sellToken d = EthAddress E \<longrightarrow>
      getZapperZapInApprovalData E d s = (Inr (False, None, None), s)) \<and>
   withdrawApproval E sender (EthAddress E) s =
     (Inr (False, None, None), s\<lparr>options := (options s)\<lparr>opt_forkId := None, opt_root := None\<rparr>\<rparr>) \<and>
   depositApproval_legacy E sender (EthAddress E) zp s =
     (Inr (False, None, None), s\<lparr>options := (options s)\<lparr>opt_forkId := None, opt_root := None\<rparr>\<rparr>)"
  by (simp add: getZapperZapInApprovalData_def withdrawApproval_def depositApproval_legacy_def
        Let_def sim_defs)


end
